theory Spec2Isabelle
  imports Main
begin

section \<open>Data model\<close>

text \<open>
  The objects of the Gateway API that the controller reads and writes, with the fields
  the controller touches. A Go \<open>map[string]string\<close> is a partial function; reading
  a missing key (or a nil map) gives the empty string, which \<open>lookup\<close> writes out.
  A pointer field is an \<open>option\<close>.
\<close>

type_synonym annotations = "string \<rightharpoonup> string"

definition lookup :: "annotations \<Rightarrow> string \<Rightarrow> string" where
  "lookup m k = (case m k of None \<Rightarrow> [] | Some v \<Rightarrow> v)"

record parent_ref =
  pr_name :: string
  pr_namespace :: "string option"

text \<open>
  \<open>rt_deletionTimestamp\<close> is the \<open>*metav1.Time\<close> of the object's metadata, a
  number of seconds; \<open>IsZero\<close> holds of the nil pointer and of the zero time.
\<close>

record http_route =
  rt_name :: string
  rt_namespace :: string
  rt_annotations :: annotations
  rt_parentRefs :: "parent_ref list"
  rt_hostnames :: "string list"
  rt_deletionTimestamp :: "nat option"
  rt_finalizers :: "string list"

definition IsZero :: "nat option \<Rightarrow> bool" where
  "IsZero t = (case t of None \<Rightarrow> True | Some n \<Rightarrow> n = 0)"

record secret_ref =
  sr_group :: "string option"
  sr_kind :: "string option"
  sr_name :: string
  sr_namespace :: "string option"

record tls_config =
  tls_mode :: "string option"
  tls_certificateRefs :: "secret_ref list"

text \<open>
  \<open>ls_allowedFrom\<close> is \<open>AllowedRoutes.Namespaces.From\<close>: the controller always
  fills the whole chain of pointers, so one option stands for it.
\<close>

record listener =
  ls_name :: string
  ls_protocol :: string
  ls_port :: int
  ls_hostname :: "string option"
  ls_allowedFrom :: "string option"
  ls_tls :: "tls_config option"

text \<open>
  \<open>gw_infrastructure\<close> is \<open>Spec.Infrastructure\<close> (a pointer) and, inside it, the
  annotation map, which may itself be nil.
\<close>

record gateway =
  gw_name :: string
  gw_namespace :: string
  gw_annotations :: annotations
  gw_className :: string
  gw_listeners :: "listener list"
  gw_infrastructure :: "annotations option option"

subsection \<open>Constants (annotations.go, constants.go)\<close>

definition AnnotationUseHttprouteOperator :: string where
  "AnnotationUseHttprouteOperator = ''gatewayapi-operator.vitistack.io/enabled''"

definition AnnotationIPAMZone :: string where
  "AnnotationIPAMZone = ''ipam.vitistack.io/zone''"

definition AnnotationClusterIssuer :: string where
  "AnnotationClusterIssuer = ''gatewayapi-operator.vitistack.io/cluster-issuer''"

definition httprouteFinalizerName :: string where
  "httprouteFinalizerName = ''gatewayapi-operator.vitistack.io/finalizer''"

definition reconcileAnnotationKey :: string where
  "reconcileAnnotationKey = ''gatewayapi-operator.vitistack.io/reconciled''"

definition previousGatewayAnnotationKey :: string where
  "previousGatewayAnnotationKey = ''gatewayapi-operator.vitistack.io/previous-gateway''"

definition clusterIssuerAnnotation :: string where
  "clusterIssuerAnnotation = ''cert-manager.io/cluster-issuer''"

definition defaultClusterIssuer :: string where
  "defaultClusterIssuer = ''internpki''"

definition gatewayClassName :: string where
  "gatewayClassName = ''eg''"

definition httpsPort :: int where
  "httpsPort = 443"

definition tlsCertSuffix :: string where
  "tlsCertSuffix = ''-tls''"

definition defaultIPAMZone :: string where
  "defaultIPAMZone = ''hnet-private''"

text \<open>The Gateway API's own constants that the listener builder uses.\<close>

definition HTTPSProtocolType :: string where
  "HTTPSProtocolType = ''HTTPS''"

definition TLSModeTerminate :: string where
  "TLSModeTerminate = ''Terminate''"

definition NamespacesFromAll :: string where
  "NamespacesFromAll = ''All''"

section \<open>The resource store and its client\<close>

text \<open>
  The controller talks to the API server through \<open>client.Client\<close>. That code is not
  part of the repository; the model is an in-memory store with the responses the spec's
  collaborator interface lists (get, list, create, update, merge-apply, delete).

  Errors are values. \<open>BadRequest\<close> carries its message; \<open>ServerError\<close> stands for
  every other failure of a call (timeouts, internal errors).
\<close>

datatype api_error =
    NotFound
  | Conflict
  | AlreadyExists
  | BadRequest string
  | ServerError string

definition IsNotFound :: "api_error \<Rightarrow> bool" where
  "IsNotFound e = (e = NotFound)"

definition IsConflict :: "api_error \<Rightarrow> bool" where
  "IsConflict e = (e = Conflict)"

definition IgnoreNotFound :: "api_error \<Rightarrow> api_error option" where
  "IgnoreNotFound e = (if IsNotFound e then None else Some e)"

text \<open>
  The mutating calls the controller issues, in the order it issues them, whether or not
  the server accepts them.
\<close>

datatype write_op =
    CreateGateway gateway
  | DeleteGateway string string
  | PatchGateway gateway
  | UpdateRoute http_route
  | PatchRoute string string annotations

text \<open>
  What the rest of the world does while a reconciliation runs. One event is consumed by
  each call of the client, before the call is answered: \<open>Quiet\<close> (nothing happens),
  \<open>Fail e\<close> (the call fails with \<open>e\<close> and has no effect) or \<open>Interfere rs gs\<close>
  (other writers have meanwhile left the store holding routes \<open>rs\<close> and gateways
  \<open>gs\<close>). An exhausted script is a quiet world.
\<close>

datatype env_event =
    Quiet
  | Fail api_error
  | Interfere "http_route list" "gateway list"

text \<open>
  \<open>errlog\<close> collects the messages of \<open>log.Error\<close>; informational logging is not
  modelled.
\<close>

record cluster =
  routes :: "http_route list"
  gateways :: "gateway list"
  script :: "env_event list"
  writes :: "write_op list"
  errlog :: "string list"

definition serve :: "cluster \<Rightarrow> api_error option \<times> cluster" where
  "serve c =
     (case script c of
        [] \<Rightarrow> (None, c)
      | Quiet # es \<Rightarrow> (None, c\<lparr>script := es\<rparr>)
      | Fail e # es \<Rightarrow> (Some e, c\<lparr>script := es\<rparr>)
      | Interfere rs gs # es \<Rightarrow> (None, c\<lparr>routes := rs, gateways := gs, script := es\<rparr>))"

definition issue :: "write_op \<Rightarrow> cluster \<Rightarrow> cluster" where
  "issue w c = c\<lparr>writes := writes c @ [w]\<rparr>"

definition logError :: "string \<Rightarrow> cluster \<Rightarrow> cluster" where
  "logError msg c = c\<lparr>errlog := errlog c @ [msg]\<rparr>"

definition is_route :: "string \<Rightarrow> string \<Rightarrow> http_route \<Rightarrow> bool" where
  "is_route ns n r = (rt_namespace r = ns \<and> rt_name r = n)"

definition is_gateway :: "string \<Rightarrow> string \<Rightarrow> gateway \<Rightarrow> bool" where
  "is_gateway ns n g = (gw_namespace g = ns \<and> gw_name g = n)"

definition client_get_route ::
  "cluster \<Rightarrow> string \<Rightarrow> string \<Rightarrow> (api_error + http_route) \<times> cluster" where
  "client_get_route c ns n =
     (case serve c of
        (Some e, c') \<Rightarrow> (Inl e, c')
      | (None, c') \<Rightarrow>
          (case find (is_route ns n) (routes c') of
             None \<Rightarrow> (Inl NotFound, c')
           | Some r \<Rightarrow> (Inr r, c')))"

definition client_list_routes :: "cluster \<Rightarrow> (api_error + http_route list) \<times> cluster" where
  "client_list_routes c =
     (case serve c of
        (Some e, c') \<Rightarrow> (Inl e, c')
      | (None, c') \<Rightarrow> (Inr (routes c'), c'))"

definition client_get_gateway ::
  "cluster \<Rightarrow> string \<Rightarrow> string \<Rightarrow> (api_error + gateway) \<times> cluster" where
  "client_get_gateway c ns n =
     (case serve c of
        (Some e, c') \<Rightarrow> (Inl e, c')
      | (None, c') \<Rightarrow>
          (case find (is_gateway ns n) (gateways c') of
             None \<Rightarrow> (Inl NotFound, c')
           | Some g \<Rightarrow> (Inr g, c')))"

definition client_create_gateway :: "cluster \<Rightarrow> gateway \<Rightarrow> api_error option \<times> cluster" where
  "client_create_gateway c g =
     (case serve (issue (CreateGateway g) c) of
        (Some e, c') \<Rightarrow> (Some e, c')
      | (None, c') \<Rightarrow>
          (if \<exists>x \<in> set (gateways c'). is_gateway (gw_namespace g) (gw_name g) x
           then (Some AlreadyExists, c')
           else (None, c'\<lparr>gateways := gateways c' @ [g]\<rparr>)))"

definition client_delete_gateway :: "cluster \<Rightarrow> gateway \<Rightarrow> api_error option \<times> cluster" where
  "client_delete_gateway c g =
     (case serve (issue (DeleteGateway (gw_namespace g) (gw_name g)) c) of
        (Some e, c') \<Rightarrow> (Some e, c')
      | (None, c') \<Rightarrow>
          (if \<exists>x \<in> set (gateways c'). is_gateway (gw_namespace g) (gw_name g) x
           then (None, c'\<lparr>gateways :=
                   filter (\<lambda>x. \<not> is_gateway (gw_namespace g) (gw_name g) x) (gateways c')\<rparr>)
           else (Some NotFound, c')))"

text \<open>
  Server-side apply with a forced field owner. The applied gateway carries the class name
  and the listeners only; these two fields replace the stored ones and every other field
  of the stored object stays. Applying to an object that does not exist creates it.
\<close>

definition apply_gateway :: "gateway \<Rightarrow> gateway \<Rightarrow> gateway" where
  "apply_gateway p g =
     (if is_gateway (gw_namespace p) (gw_name p) g
      then g\<lparr>gw_className := gw_className p, gw_listeners := gw_listeners p\<rparr>
      else g)"

definition client_patch_gateway :: "cluster \<Rightarrow> gateway \<Rightarrow> api_error option \<times> cluster" where
  "client_patch_gateway c p =
     (case serve (issue (PatchGateway p) c) of
        (Some e, c') \<Rightarrow> (Some e, c')
      | (None, c') \<Rightarrow>
          (if \<exists>x \<in> set (gateways c'). is_gateway (gw_namespace p) (gw_name p) x
           then (None, c'\<lparr>gateways := map (apply_gateway p) (gateways c')\<rparr>)
           else (None, c'\<lparr>gateways := gateways c' @ [p]\<rparr>)))"

text \<open>
  \<open>Update\<close> replaces the stored route by the given object. The applied route of a
  server-side apply carries the name, the namespace and annotations; the annotations are
  merged into the stored ones, key by key.
\<close>

definition client_update_route :: "cluster \<Rightarrow> http_route \<Rightarrow> api_error option \<times> cluster" where
  "client_update_route c r =
     (case serve (issue (UpdateRoute r) c) of
        (Some e, c') \<Rightarrow> (Some e, c')
      | (None, c') \<Rightarrow>
          (if \<exists>x \<in> set (routes c'). is_route (rt_namespace r) (rt_name r) x
           then (None, c'\<lparr>routes :=
                   map (\<lambda>x. if is_route (rt_namespace r) (rt_name r) x then r else x) (routes c')\<rparr>)
           else (Some NotFound, c')))"

definition apply_route :: "string \<Rightarrow> string \<Rightarrow> annotations \<Rightarrow> http_route \<Rightarrow> http_route" where
  "apply_route ns n anns r =
     (if is_route ns n r then r\<lparr>rt_annotations := rt_annotations r ++ anns\<rparr> else r)"

definition client_patch_route ::
  "cluster \<Rightarrow> string \<Rightarrow> string \<Rightarrow> annotations \<Rightarrow> api_error option \<times> cluster" where
  "client_patch_route c ns n anns =
     (case serve (issue (PatchRoute ns n anns) c) of
        (Some e, c') \<Rightarrow> (Some e, c')
      | (None, c') \<Rightarrow>
          (if \<exists>x \<in> set (routes c'). is_route ns n x
           then (None, c'\<lparr>routes := map (apply_route ns n anns) (routes c')\<rparr>)
           else (None, c'\<lparr>routes := routes c' @
                   [\<lparr>rt_name = n, rt_namespace = ns, rt_annotations = anns, rt_parentRefs = [],
                     rt_hostnames = [], rt_deletionTimestamp = None, rt_finalizers = []\<rparr>]\<rparr>)))"

section \<open>Listener builder and route aggregation (annotations.go)\<close>

definition createHTTPSListener :: "string \<Rightarrow> string \<Rightarrow> listener" where
  "createHTTPSListener hostname gatewayNamespace =
     (let listenerName = hostname;
          hn = hostname;
          certSecretName = hostname @ tlsCertSuffix;
          certNamespace = gatewayNamespace;
          terminate = TLSModeTerminate;
          fromAll = NamespacesFromAll
      in \<lparr>ls_name = listenerName,
          ls_protocol = HTTPSProtocolType,
          ls_port = httpsPort,
          ls_hostname = Some hn,
          ls_allowedFrom = Some fromAll,
          ls_tls = Some \<lparr>tls_mode = Some terminate,
                          tls_certificateRefs =
                            [\<lparr>sr_group = Some [],
                              sr_kind = Some ''Secret'',
                              sr_name = certSecretName,
                              sr_namespace = Some certNamespace\<rparr>]\<rparr>\<rparr>)"

text \<open>
  \<open>hostnameSet\<close> is a Go map used as a set: here the list of its keys, without
  repetition. Go leaves the order in which a map is iterated open; the list fixes one
  order, which the evaluations of the examples below show. The statements C1 to C10
  do not depend on it: where one of them speaks of the listeners of a run, it speaks of
  them as a set.

  \<open>scanParentRefs\<close> is the inner loop over the parent references of one route: the
  first reference that matches collects the route's hostnames and breaks. The counters
  \<open>routeCount\<close> and \<open>skippedCount\<close> are kept as the loops keep them; the code only
  logs them.
\<close>

fun scanParentRefs ::
  "parent_ref list \<Rightarrow> string \<Rightarrow> string \<Rightarrow> string list \<Rightarrow> string list \<times> nat \<Rightarrow> string list \<times> nat" where
  "scanParentRefs [] gatewayName gatewayNamespace hostnames (hostnameSet, routeCount) =
     (hostnameSet, routeCount)"
| "scanParentRefs (parentRef # rest) gatewayName gatewayNamespace hostnames (hostnameSet, routeCount) =
     (let refName = pr_name parentRef;
          refNamespace = (case pr_namespace parentRef of
                            None \<Rightarrow> gatewayNamespace
                          | Some ns \<Rightarrow> ns)
      in if refName = gatewayName \<and> refNamespace = gatewayNamespace
         then (fold List.insert hostnames hostnameSet, routeCount + 1)
         else scanParentRefs rest gatewayName gatewayNamespace hostnames (hostnameSet, routeCount))"

text \<open>The outer loop over the listed routes.\<close>

fun scanRoutes ::
  "http_route list \<Rightarrow> string \<Rightarrow> string \<Rightarrow> string list \<times> nat \<times> nat \<Rightarrow> string list \<times> nat \<times> nat" where
  "scanRoutes [] gatewayName gatewayNamespace acc = acc"
| "scanRoutes (route # rest) gatewayName gatewayNamespace (hostnameSet, routeCount, skippedCount) =
     (if \<not> IsZero (rt_deletionTimestamp route)
      then scanRoutes rest gatewayName gatewayNamespace (hostnameSet, routeCount, skippedCount + 1)
      else if lookup (rt_annotations route) AnnotationUseHttprouteOperator \<noteq> ''true''
      then scanRoutes rest gatewayName gatewayNamespace (hostnameSet, routeCount, skippedCount + 1)
      else (case scanParentRefs (rt_parentRefs route) gatewayName gatewayNamespace
                   (rt_hostnames route) (hostnameSet, routeCount) of
              (hostnameSet', routeCount') \<Rightarrow>
                scanRoutes rest gatewayName gatewayNamespace (hostnameSet', routeCount', skippedCount)))"

definition collectListenersForGateway ::
  "cluster \<Rightarrow> string \<Rightarrow> string \<Rightarrow> (api_error + listener list) \<times> cluster" where
  "collectListenersForGateway c gatewayName gatewayNamespace =
     (case client_list_routes c of
        (Inl err, c') \<Rightarrow> (Inl err, c')
      | (Inr items, c') \<Rightarrow>
          (case scanRoutes items gatewayName gatewayNamespace ([], 0, 0) of
             (hostnameSet, routeCount, skippedCount) \<Rightarrow>
               (Inr (map (\<lambda>hostname. createHTTPSListener hostname gatewayNamespace) hostnameSet), c')))"


text \<open>updateGatewayListeners: delete the gateway when no listener remains, else apply.\<close>

definition updateGatewayListeners ::
  "cluster \<Rightarrow> gateway \<Rightarrow> string \<Rightarrow> api_error option \<times> cluster" where
  "updateGatewayListeners c gateway gatewayNamespace =
     (let gatewayName = gw_name gateway
      in case collectListenersForGateway c gatewayName gatewayNamespace of
           (Inl err, c1) \<Rightarrow> (Some err, c1)
         | (Inr newListeners, c1) \<Rightarrow>
             (if length newListeners = 0
              then (case client_delete_gateway c1 gateway of
                      (Some err, c2) \<Rightarrow> (Some err, c2)
                    | (None, c2) \<Rightarrow> (None, c2))
              else (let patch = \<lparr>gw_name = gatewayName,
                                 gw_namespace = gatewayNamespace,
                                 gw_annotations = Map.empty,
                                 gw_className = gw_className gateway,
                                 gw_listeners = newListeners,
                                 gw_infrastructure = None\<rparr>
                    in case client_patch_gateway c1 patch of
                         (Some err, c2) \<Rightarrow> (Some err, c2)
                       | (None, c2) \<Rightarrow> (None, c2))))"

section \<open>Gateway synchronisation (ensureGateway, createGateway)\<close>

definition createGateway ::
  "cluster \<Rightarrow> string \<Rightarrow> string \<Rightarrow> string \<Rightarrow> string \<Rightarrow> api_error option \<times> cluster" where
  "createGateway c gatewayName gatewayNamespace ipamZone clusterIssuer =
     (case collectListenersForGateway c gatewayName gatewayNamespace of
        (Inl err, c1) \<Rightarrow> (Some err, logError ''Failed to collect listeners for new Gateway'' c1)
      | (Inr listeners, c1) \<Rightarrow>
          (let newGateway = \<lparr>gw_name = gatewayName,
                             gw_namespace = gatewayNamespace,
                             gw_annotations = [clusterIssuerAnnotation \<mapsto> clusterIssuer],
                             gw_className = gatewayClassName,
                             gw_listeners = listeners,
                             gw_infrastructure = Some (Some [''ipam.vitistack.io/zone'' \<mapsto> ipamZone])\<rparr>
           in case client_create_gateway c1 newGateway of
                (Some err, c2) \<Rightarrow> (Some err, logError ''Failed to create Gateway'' c2)
              | (None, c2) \<Rightarrow> (None, c2)))"

text \<open>
  The zone an existing gateway records: the value under the zone key of the
  infrastructure annotations, when the infrastructure block, its annotation map and the
  key are all there (the three nested tests of ensureGateway).
\<close>

definition recordedZone :: "gateway \<Rightarrow> string option" where
  "recordedZone gateway =
     (case gw_infrastructure gateway of
        None \<Rightarrow> None
      | Some None \<Rightarrow> None
      | Some (Some infraAnnotations) \<Rightarrow> infraAnnotations ''ipam.vitistack.io/zone'')"

definition issuerMismatch :: "string \<Rightarrow> string \<Rightarrow> api_error" where
  "issuerMismatch existingIssuer clusterIssuer =
     BadRequest (''HTTPRoute cluster issuer mismatch: Gateway has issuer '' @ [CHR 0x27] @ existingIssuer
                 @ [CHR 0x27] @ '' but HTTPRoute requires '' @ [CHR 0x27] @ clusterIssuer @ [CHR 0x27])"

definition zoneMismatch :: "string \<Rightarrow> string \<Rightarrow> api_error" where
  "zoneMismatch existingZone ipamZone =
     BadRequest (''HTTPRoute IPAM zone mismatch: Gateway has zone '' @ [CHR 0x27] @ existingZone
                 @ [CHR 0x27] @ '' but HTTPRoute requires '' @ [CHR 0x27] @ ipamZone @ [CHR 0x27])"

definition ensureGateway ::
  "cluster \<Rightarrow> string \<Rightarrow> string \<Rightarrow> string \<Rightarrow> string \<Rightarrow> api_error option \<times> cluster" where
  "ensureGateway c gatewayName gatewayNamespace ipamZone clusterIssuer =
     (case client_get_gateway c gatewayNamespace gatewayName of
        (Inl err, c1) \<Rightarrow>
          (if IsNotFound err
           then createGateway c1 gatewayName gatewayNamespace ipamZone clusterIssuer
           else (Some err, logError ''Failed to get Gateway'' c1))
      | (Inr gateway, c1) \<Rightarrow>
          (let existingIssuer = lookup (gw_annotations gateway) clusterIssuerAnnotation
           in if existingIssuer \<noteq> clusterIssuer
              then (Some (issuerMismatch existingIssuer clusterIssuer),
                    logError ''Cluster issuer mismatch'' c1)
              else (case recordedZone gateway of
                      Some existingZone \<Rightarrow>
                        (if existingZone \<noteq> ipamZone
                         then (Some (zoneMismatch existingZone ipamZone),
                               logError ''IPAM zone mismatch'' c1)
                         else updateGatewayListeners c1 gateway gatewayNamespace)
                    | None \<Rightarrow> updateGatewayListeners c1 gateway gatewayNamespace)))"

section \<open>The reconciliation controller (httproute_controller.go)\<close>

text \<open>
  updateOldGateway parses \<open>namespace/name\<close> by scanning for the first slash;
  \<open>seen\<close> is \<open>gatewayRef[:i]\<close>. Without a slash both parts stay empty. (Go ranges
  over runes, and a slash is a single byte that is part of no longer rune.)
\<close>

fun parseGatewayRef :: "string \<Rightarrow> string \<Rightarrow> string \<times> string" where
  "parseGatewayRef seen [] = ([], [])"
| "parseGatewayRef seen (ch # rest) =
     (if ch = CHR ''/'' then (seen, rest) else parseGatewayRef (seen @ [ch]) rest)"

definition updateOldGateway :: "cluster \<Rightarrow> string \<Rightarrow> api_error option \<times> cluster" where
  "updateOldGateway c gatewayRef =
     (case parseGatewayRef [] gatewayRef of
        (gatewayNamespace, gatewayName) \<Rightarrow>
          (if gatewayNamespace = [] \<or> gatewayName = []
           then (None, logError ''Invalid gateway reference format'' c)
           else (case client_get_gateway c gatewayNamespace gatewayName of
                   (Inl err, c1) \<Rightarrow> (IgnoreNotFound err, c1)
                 | (Inr gateway, c1) \<Rightarrow>
                     (case collectListenersForGateway c1 gatewayName gatewayNamespace of
                        (Inl err, c2) \<Rightarrow> (Some err, c2)
                      | (Inr listeners, c2) \<Rightarrow>
                          (if length listeners = 0
                           then (case client_delete_gateway c2 gateway of
                                   (Some err, c3) \<Rightarrow> (Some err, c3)
                                 | (None, c3) \<Rightarrow> (None, c3))
                           else (let patch = \<lparr>gw_name = gatewayName,
                                              gw_namespace = gatewayNamespace,
                                              gw_annotations = Map.empty,
                                              gw_className = gw_className gateway,
                                              gw_listeners = listeners,
                                              gw_infrastructure = None\<rparr>
                                 in case client_patch_gateway c2 patch of
                                      (Some err, c3) \<Rightarrow> (Some err, c3)
                                    | (None, c3) \<Rightarrow> (None, c3)))))))"

definition handleHTTPRouteDeletion ::
  "cluster \<Rightarrow> string \<Rightarrow> string \<Rightarrow> api_error option \<times> cluster" where
  "handleHTTPRouteDeletion c gatewayName gatewayNamespace =
     (case client_get_gateway c gatewayNamespace gatewayName of
        (Inl err, c1) \<Rightarrow>
          (case IgnoreNotFound err of
             None \<Rightarrow> (None, c1)
           | Some _ \<Rightarrow> (Some err, logError ''Failed to get Gateway'' c1))
      | (Inr gateway, c1) \<Rightarrow>
          (case updateGatewayListeners c1 gateway gatewayNamespace of
             (Some err, c2) \<Rightarrow>
               (Some err, logError ''Failed to update Gateway listeners after HTTPRoute deletion'' c2)
           | (None, c2) \<Rightarrow> (None, c2)))"

subsection \<open>Finalizers and retry\<close>

text \<open>controllerutil's ContainsFinalizer, AddFinalizer and RemoveFinalizer.\<close>

definition ContainsFinalizer :: "http_route \<Rightarrow> string \<Rightarrow> bool" where
  "ContainsFinalizer r f = (f \<in> set (rt_finalizers r))"

definition AddFinalizer :: "http_route \<Rightarrow> string \<Rightarrow> http_route" where
  "AddFinalizer r f =
     (if f \<in> set (rt_finalizers r) then r else r\<lparr>rt_finalizers := rt_finalizers r @ [f]\<rparr>)"

definition RemoveFinalizer :: "http_route \<Rightarrow> string \<Rightarrow> http_route" where
  "RemoveFinalizer r f = r\<lparr>rt_finalizers := filter (\<lambda>x. x \<noteq> f) (rt_finalizers r)\<rparr>"

text \<open>
  client-go's \<open>retry.RetryOnConflict\<close>: the closure runs until it returns no error or
  an error that is not a conflict, at most \<open>steps\<close> times; when every run ends in a
  conflict the last conflict is returned. \<open>retry.DefaultRetry\<close> has five steps. The
  pauses between the runs are not modelled.
\<close>

fun retryLoop ::
  "nat \<Rightarrow> (cluster \<Rightarrow> api_error option \<times> cluster) \<Rightarrow> api_error option \<Rightarrow> cluster
     \<Rightarrow> api_error option \<times> cluster" where
  "retryLoop 0 fn lastErr c = (lastErr, c)"
| "retryLoop (Suc steps) fn lastErr c =
     (case fn c of
        (None, c') \<Rightarrow> (None, c')
      | (Some err, c') \<Rightarrow>
          (if IsConflict err then retryLoop steps fn (Some err) c' else (Some err, c')))"

definition DefaultRetrySteps :: nat where
  "DefaultRetrySteps = 5"

definition RetryOnConflict ::
  "nat \<Rightarrow> (cluster \<Rightarrow> api_error option \<times> cluster) \<Rightarrow> cluster \<Rightarrow> api_error option \<times> cluster" where
  "RetryOnConflict steps fn c = retryLoop steps fn None c"

text \<open>The closure of the deletion branch: re-read the route, drop the finalizer, update.\<close>

definition removeFinalizerAttempt ::
  "string \<Rightarrow> string \<Rightarrow> cluster \<Rightarrow> api_error option \<times> cluster" where
  "removeFinalizerAttempt ns n c =
     (case client_get_route c ns n of
        (Inl err, c1) \<Rightarrow>
          (case IgnoreNotFound err of
             None \<Rightarrow> (None, c1)
           | Some _ \<Rightarrow> (Some err, c1))
      | (Inr latest, c1) \<Rightarrow>
          (if \<not> ContainsFinalizer latest httprouteFinalizerName
           then (None, c1)
           else client_update_route c1 (RemoveFinalizer latest httprouteFinalizerName)))"

text \<open>The closure of the finalizer-ensure step: re-read the route, add the finalizer, update.\<close>

definition addFinalizerAttempt ::
  "string \<Rightarrow> string \<Rightarrow> cluster \<Rightarrow> api_error option \<times> cluster" where
  "addFinalizerAttempt ns n c =
     (case client_get_route c ns n of
        (Inl err, c1) \<Rightarrow> (Some err, c1)
      | (Inr latest, c1) \<Rightarrow>
          (if ContainsFinalizer latest httprouteFinalizerName
           then (None, c1)
           else client_update_route c1 (AddFinalizer latest httprouteFinalizerName)))"

subsection \<open>Reconcile\<close>

text \<open>
  Reconcile is one long function of early returns. The model keeps its order and cuts it
  at two places: \<open>reconcileDeletion\<close> is the body of the branch taken when the deletion
  timestamp is set, and \<open>reconcileSteady\<close> is everything after the migration check
  (finalizer, annotations, effective zone and issuer, ensureGateway). \<open>Reconcile\<close>
  itself is the head of the function: fetch, enabled check, parent reference check, the
  gateway of the first parent reference, and the two branches.
\<close>

definition reconcileDeletion ::
  "cluster \<Rightarrow> http_route \<Rightarrow> string \<Rightarrow> string \<Rightarrow> string \<Rightarrow> string \<Rightarrow> api_error option \<times> cluster" where
  "reconcileDeletion c httpRoute ns n gatewayName gatewayNamespace =
     (if ContainsFinalizer httpRoute httprouteFinalizerName
      then (case handleHTTPRouteDeletion c gatewayName gatewayNamespace of
              (Some err, c1) \<Rightarrow> (Some err, logError ''Failed to handle HTTPRoute deletion'' c1)
            | (None, c1) \<Rightarrow>
                (case RetryOnConflict DefaultRetrySteps (removeFinalizerAttempt ns n) c1 of
                   (Some err, c2) \<Rightarrow>
                     (case IgnoreNotFound err of
                        Some _ \<Rightarrow> (Some err, logError ''Failed to remove finalizer'' c2)
                      | None \<Rightarrow> (None, c2))
                 | (None, c2) \<Rightarrow> (None, c2)))
      else (None, c))"

definition effectiveZone :: "annotations \<Rightarrow> string" where
  "effectiveZone anns =
     (let ipamZone = lookup anns AnnotationIPAMZone
      in if ipamZone = [] then defaultIPAMZone else ipamZone)"

definition effectiveIssuer :: "annotations \<Rightarrow> string" where
  "effectiveIssuer anns =
     (let clusterIssuer = lookup anns AnnotationClusterIssuer
      in if clusterIssuer = [] then defaultClusterIssuer else clusterIssuer)"

definition reconcileSteady ::
  "cluster \<Rightarrow> http_route \<Rightarrow> string \<Rightarrow> string \<Rightarrow> string \<Rightarrow> string \<Rightarrow> api_error option \<times> cluster" where
  "reconcileSteady c httpRoute ns n gatewayName gatewayNamespace =
     (let currentGatewayRef = gatewayNamespace @ ''/'' @ gatewayName
      in if \<not> ContainsFinalizer httpRoute httprouteFinalizerName
         then (case RetryOnConflict DefaultRetrySteps (addFinalizerAttempt ns n) c of
                 (Some err, c1) \<Rightarrow> (Some err, logError ''Failed to add finalizer'' c1)
               | (None, c1) \<Rightarrow> (None, c1))
         else
           (let anns0 = rt_annotations httpRoute;
                missing = (anns0 reconcileAnnotationKey = None);
                anns1 = (if missing then anns0(reconcileAnnotationKey \<mapsto> ''true'') else anns0);
                moved = (lookup anns1 previousGatewayAnnotationKey \<noteq> currentGatewayRef);
                anns2 = (if moved then anns1(previousGatewayAnnotationKey \<mapsto> currentGatewayRef)
                         else anns1);
                needsUpdate = (missing \<or> moved)
            in case (if needsUpdate
                     then client_patch_route c (rt_namespace httpRoute) (rt_name httpRoute) anns2
                     else (None, c)) of
                 (Some err, c1) \<Rightarrow> (Some err, logError ''Failed to update HTTPRoute annotations'' c1)
               | (None, c1) \<Rightarrow>
                   (case ensureGateway c1 gatewayName gatewayNamespace
                           (effectiveZone anns2) (effectiveIssuer anns2) of
                      (Some err, c2) \<Rightarrow> (Some err, logError ''Failed to ensure Gateway'' c2)
                    | (None, c2) \<Rightarrow> (None, c2))))"

definition Reconcile :: "cluster \<Rightarrow> string \<Rightarrow> string \<Rightarrow> api_error option \<times> cluster" where
  "Reconcile c ns n =
     (case client_get_route c ns n of
        (Inl err, c1) \<Rightarrow> (IgnoreNotFound err, c1)
      | (Inr httpRoute, c1) \<Rightarrow>
          (if lookup (rt_annotations httpRoute) AnnotationUseHttprouteOperator \<noteq> ''true''
           then (None, c1)
           else (case rt_parentRefs httpRoute of
                   [] \<Rightarrow> (None, logError ''HTTPRoute has no parent references'' c1)
                 | firstRef # _ \<Rightarrow>
                     (let gatewayName = pr_name firstRef;
                          gatewayNamespace = (case pr_namespace firstRef of
                                                None \<Rightarrow> rt_namespace httpRoute
                                              | Some gns \<Rightarrow> gns)
                      in if \<not> IsZero (rt_deletionTimestamp httpRoute)
                         then reconcileDeletion c1 httpRoute ns n gatewayName gatewayNamespace
                         else
                           (let currentGatewayRef = gatewayNamespace @ ''/'' @ gatewayName;
                                previousGatewayRef =
                                  lookup (rt_annotations httpRoute) previousGatewayAnnotationKey;
                                c2 = (if previousGatewayRef \<noteq> [] \<and> previousGatewayRef \<noteq> currentGatewayRef
                                      then (case updateOldGateway c1 previousGatewayRef of
                                              (Some err, c') \<Rightarrow>
                                                logError ''Failed to update old gateway listeners'' c'
                                            | (None, c') \<Rightarrow> c')
                                      else c1)
                            in reconcileSteady c2 httpRoute ns n gatewayName gatewayNamespace)))))"


section \<open>Notions the statements use\<close>

text \<open>
  A route is active when it is not being deleted and its enabled annotation is exactly
  \<open>true\<close>.
\<close>

definition active :: "http_route \<Rightarrow> bool" where
  "active r = (IsZero (rt_deletionTimestamp r)
      \<and> lookup (rt_annotations r) AnnotationUseHttprouteOperator = ''true'')"

text \<open>
  Two readings of "the route names gateway \<open>gn\<close> in namespace \<open>gns\<close>", both with the
  namespace of a reference defaulting to the route's own namespace: by its first parent
  reference only, and by any of its parent references.
\<close>

definition firstParentNames :: "http_route \<Rightarrow> string \<Rightarrow> string \<Rightarrow> bool" where
  "firstParentNames r gn gns =
     (case rt_parentRefs r of
        [] \<Rightarrow> False
      | p # _ \<Rightarrow> pr_name p = gn
                 \<and> (case pr_namespace p of None \<Rightarrow> rt_namespace r | Some x \<Rightarrow> x) = gns)"

definition someParentNames :: "http_route \<Rightarrow> string \<Rightarrow> string \<Rightarrow> bool" where
  "someParentNames r gn gns =
     (\<exists>p \<in> set (rt_parentRefs r).
        pr_name p = gn \<and> (case pr_namespace p of None \<Rightarrow> rt_namespace r | Some x \<Rightarrow> x) = gns)"

text \<open>The hostnames of the active routes that name the gateway, under each reading.\<close>

definition union_first :: "http_route list \<Rightarrow> string \<Rightarrow> string \<Rightarrow> string list" where
  "union_first rs gn gns =
     concat (map rt_hostnames (filter (\<lambda>r. active r \<and> firstParentNames r gn gns) rs))"

definition union_some :: "http_route list \<Rightarrow> string \<Rightarrow> string \<Rightarrow> string list" where
  "union_some rs gn gns =
     concat (map rt_hostnames (filter (\<lambda>r. active r \<and> someParentNames r gn gns) rs))"

text \<open>
  What the inner loop of the aggregation tests: some reference matches, a missing
  namespace read as the namespace of the gateway asked for.
\<close>

definition codeMatch :: "parent_ref list \<Rightarrow> string \<Rightarrow> string \<Rightarrow> bool" where
  "codeMatch ps gn gns =
     (\<exists>p \<in> set ps. pr_name p = gn \<and> (case pr_namespace p of None \<Rightarrow> gns | Some x \<Rightarrow> x) = gns)"

text \<open>The listeners the aggregation builds from a list of routes, once the list is read.\<close>

definition aggregate :: "http_route list \<Rightarrow> string \<Rightarrow> string \<Rightarrow> listener list" where
  "aggregate rs gn gns =
     map (\<lambda>h. createHTTPSListener h gns) (fst (scanRoutes rs gn gns ([], 0, 0)))"

text \<open>The store holds a gateway of that namespace and name.\<close>

definition has_gateway :: "cluster \<Rightarrow> string \<Rightarrow> string \<Rightarrow> bool" where
  "has_gateway c ns n = (\<exists>x \<in> set (gateways c). is_gateway ns n x)"

text \<open>
  The object that updateGatewayListeners and updateOldGateway apply: name, namespace,
  the class name carried over and the listeners, nothing else.
\<close>

definition listenerPatch :: "string \<Rightarrow> string \<Rightarrow> string \<Rightarrow> listener list \<Rightarrow> gateway" where
  "listenerPatch gn gns cls ls =
     \<lparr>gw_name = gn, gw_namespace = gns, gw_annotations = Map.empty,
      gw_className = cls, gw_listeners = ls, gw_infrastructure = None\<rparr>"

text \<open>The mutating calls issued between two states of a run.\<close>

definition new_writes :: "cluster \<Rightarrow> cluster \<Rightarrow> write_op list" where
  "new_writes c c' = drop (length (writes c)) (writes c')"

text \<open>
  A previous-gateway reference that does not read as \<open>namespace/name\<close>: no slash, or
  nothing before the first slash, or nothing after it.
\<close>

definition malformedRef :: "string \<Rightarrow> bool" where
  "malformedRef ref = (CHR ''/'' \<notin> set ref
      \<or> takeWhile (\<lambda>ch. ch \<noteq> CHR ''/'') ref = []
      \<or> drop 1 (dropWhile (\<lambda>ch. ch \<noteq> CHR ''/'') ref) = [])"

text \<open>
  The namespace of the gateway a parent reference of a route names: the reference's own,
  and the route's namespace when the reference gives none (as Reconcile reads it).
\<close>

definition refNamespace :: "http_route \<Rightarrow> parent_ref \<Rightarrow> string" where
  "refNamespace r p = (case pr_namespace p of None \<Rightarrow> rt_namespace r | Some x \<Rightarrow> x)"

text \<open>The gateway that createGateway builds.\<close>

definition newGateway :: "string \<Rightarrow> string \<Rightarrow> string \<Rightarrow> string \<Rightarrow> listener list \<Rightarrow> gateway" where
  "newGateway gn gns zone iss ls =
     \<lparr>gw_name = gn, gw_namespace = gns,
      gw_annotations = [clusterIssuerAnnotation \<mapsto> iss],
      gw_className = gatewayClassName,
      gw_listeners = ls,
      gw_infrastructure = Some (Some [''ipam.vitistack.io/zone'' \<mapsto> zone])\<rparr>"

text \<open>
  The stored routes after a server-side apply of annotations to the route of that
  namespace and name.
\<close>

definition applied_routes :: "http_route list \<Rightarrow> string \<Rightarrow> string \<Rightarrow> annotations \<Rightarrow> http_route list" where
  "applied_routes rs ns n anns =
     (if \<exists>x \<in> set rs. is_route ns n x
      then map (apply_route ns n anns) rs
      else rs @ [\<lparr>rt_name = n, rt_namespace = ns, rt_annotations = anns, rt_parentRefs = [],
                  rt_hostnames = [], rt_deletionTimestamp = None, rt_finalizers = []\<rparr>])"

text \<open>
  The annotations of a route after the bookkeeping of Reconcile: the reconciled marker
  is added when missing, the previous-gateway reference is set to the current one when
  it differs.
\<close>

definition bookkeeping :: "annotations \<Rightarrow> string \<Rightarrow> annotations" where
  "bookkeeping anns0 ref =
     (let anns1 = (if anns0 reconcileAnnotationKey = None
                   then anns0(reconcileAnnotationKey \<mapsto> ''true'') else anns0)
      in if lookup anns1 previousGatewayAnnotationKey \<noteq> ref
         then anns1(previousGatewayAnnotationKey \<mapsto> ref) else anns1)"

text \<open>
  The state after the migration check of Reconcile: the old gateway is updated when the
  previous-gateway reference is there and differs from the current one; a failure is
  logged.
\<close>

definition afterMigration :: "cluster \<Rightarrow> http_route \<Rightarrow> parent_ref \<Rightarrow> cluster" where
  "afterMigration c r p =
     (if lookup (rt_annotations r) previousGatewayAnnotationKey \<noteq> []
         \<and> lookup (rt_annotations r) previousGatewayAnnotationKey
             \<noteq> refNamespace r p @ ''/'' @ pr_name p
      then (case updateOldGateway c (lookup (rt_annotations r) previousGatewayAnnotationKey) of
              (Some err, c') \<Rightarrow> logError ''Failed to update old gateway listeners'' c'
            | (None, c') \<Rightarrow> c')
      else c)"

text \<open>
  The writes of the deletion branch: a write that synchronises gateway \<open>gns/gn\<close>
  (its deletion, or an apply of listeners, never of none), and an update of route
  \<open>ns/n\<close> that carries no finalizer of the controller.
\<close>

definition sync_write :: "string \<Rightarrow> string \<Rightarrow> write_op \<Rightarrow> bool" where
  "sync_write gn gns w =
     (case w of
        DeleteGateway a b \<Rightarrow> a = gns \<and> b = gn
      | PatchGateway P \<Rightarrow> gw_name P = gn \<and> gw_namespace P = gns \<and> gw_listeners P \<noteq> []
      | _ \<Rightarrow> False)"

definition finalizer_removal :: "string \<Rightarrow> string \<Rightarrow> write_op \<Rightarrow> bool" where
  "finalizer_removal ns n w =
     (case w of
        UpdateRoute r' \<Rightarrow> is_route ns n r' \<and> httprouteFinalizerName \<notin> set (rt_finalizers r')
      | _ \<Rightarrow> False)"

text \<open>
  The cluster after the listeners of gateway \<open>gns/gn\<close> have been synchronised in a
  quiet world: untouched when the gateway does not exist, the gateway deleted when no
  listener is left, its listeners replaced otherwise.
\<close>

definition synced :: "cluster \<Rightarrow> string \<Rightarrow> string \<Rightarrow> cluster" where
  "synced c gn gns =
     (case find (is_gateway gns gn) (gateways c) of
        None \<Rightarrow> c
      | Some g \<Rightarrow>
          (if aggregate (routes c) gn gns = []
           then c\<lparr>gateways := filter (\<lambda>x. \<not> is_gateway gns gn x) (gateways c),
                  writes := writes c @ [DeleteGateway gns gn]\<rparr>
           else c\<lparr>gateways := map (apply_gateway (listenerPatch gn gns (gw_className g)
                                     (aggregate (routes c) gn gns))) (gateways c),
                  writes := writes c @ [PatchGateway (listenerPatch gn gns (gw_className g)
                                     (aggregate (routes c) gn gns))]\<rparr>))"

section \<open>Example clusters\<close>

definition quiet_cluster :: "http_route list \<Rightarrow> gateway list \<Rightarrow> cluster" where
  "quiet_cluster rs gs = \<lparr>routes = rs, gateways = gs, script = [], writes = [], errlog = []\<rparr>"

text \<open>A route that names gateway \<open>infra/g\<close> by its second parent reference.\<close>

definition late_route :: http_route where
  "late_route = \<lparr>rt_name = ''r1'', rt_namespace = ''apps'',
     rt_annotations = [AnnotationUseHttprouteOperator \<mapsto> ''true''],
     rt_parentRefs = [\<lparr>pr_name = ''other'', pr_namespace = Some ''infra''\<rparr>,
                      \<lparr>pr_name = ''g'', pr_namespace = Some ''infra''\<rparr>],
     rt_hostnames = [''late.example.com''],
     rt_deletionTimestamp = None, rt_finalizers = []\<rparr>"

text \<open>A route of namespace \<open>team-a\<close> whose only parent reference gives no namespace.\<close>

definition local_route :: http_route where
  "local_route = \<lparr>rt_name = ''r2'', rt_namespace = ''team-a'',
     rt_annotations = [AnnotationUseHttprouteOperator \<mapsto> ''true''],
     rt_parentRefs = [\<lparr>pr_name = ''g'', pr_namespace = None\<rparr>],
     rt_hostnames = [''a.example.com''],
     rt_deletionTimestamp = None, rt_finalizers = []\<rparr>"

text \<open>
  Routes around gateway \<open>infra/g\<close>: one of namespace \<open>infra\<close> that names it without a
  namespace and repeats a hostname, one that is being deleted, one that is not enabled
  (the annotation is \<open>True\<close>, not \<open>true\<close>), one that is both disabled and being
  deleted, one without parent references, and one that was last synchronised into
  \<open>infra/old\<close> and now names \<open>infra/g\<close>.
\<close>

definition home_route :: http_route where
  "home_route = \<lparr>rt_name = ''r3'', rt_namespace = ''infra'',
     rt_annotations = [AnnotationUseHttprouteOperator \<mapsto> ''true''],
     rt_parentRefs = [\<lparr>pr_name = ''g'', pr_namespace = None\<rparr>],
     rt_hostnames = [''b.example.com'', ''late.example.com''],
     rt_deletionTimestamp = None, rt_finalizers = []\<rparr>"

definition leaving_route :: http_route where
  "leaving_route = \<lparr>rt_name = ''r4'', rt_namespace = ''infra'',
     rt_annotations = [AnnotationUseHttprouteOperator \<mapsto> ''true''],
     rt_parentRefs = [\<lparr>pr_name = ''g'', pr_namespace = Some ''infra''\<rparr>],
     rt_hostnames = [''c.example.com''],
     rt_deletionTimestamp = Some 1700000000, rt_finalizers = [httprouteFinalizerName]\<rparr>"

definition disabled_route :: http_route where
  "disabled_route = \<lparr>rt_name = ''r5'', rt_namespace = ''infra'',
     rt_annotations = [AnnotationUseHttprouteOperator \<mapsto> ''True''],
     rt_parentRefs = [\<lparr>pr_name = ''g'', pr_namespace = Some ''infra''\<rparr>],
     rt_hostnames = [''d.example.com''],
     rt_deletionTimestamp = None, rt_finalizers = []\<rparr>"

definition disabled_leaving_route :: http_route where
  "disabled_leaving_route = \<lparr>rt_name = ''r6'', rt_namespace = ''infra'',
     rt_annotations = [AnnotationUseHttprouteOperator \<mapsto> ''false''],
     rt_parentRefs = [\<lparr>pr_name = ''g'', pr_namespace = Some ''infra''\<rparr>],
     rt_hostnames = [''e.example.com''],
     rt_deletionTimestamp = Some 1700000000, rt_finalizers = [httprouteFinalizerName]\<rparr>"

definition orphan_route :: http_route where
  "orphan_route = \<lparr>rt_name = ''r7'', rt_namespace = ''infra'',
     rt_annotations = [AnnotationUseHttprouteOperator \<mapsto> ''true''],
     rt_parentRefs = [],
     rt_hostnames = [''f.example.com''],
     rt_deletionTimestamp = None, rt_finalizers = []\<rparr>"

definition moved_route :: http_route where
  "moved_route = \<lparr>rt_name = ''r8'', rt_namespace = ''infra'',
     rt_annotations = [AnnotationUseHttprouteOperator \<mapsto> ''true'',
                       reconcileAnnotationKey \<mapsto> ''true'',
                       previousGatewayAnnotationKey \<mapsto> ''infra/old''],
     rt_parentRefs = [\<lparr>pr_name = ''g'', pr_namespace = None\<rparr>],
     rt_hostnames = [''m.example.com''],
     rt_deletionTimestamp = None, rt_finalizers = [httprouteFinalizerName]\<rparr>"

definition union_cluster :: cluster where
  "union_cluster = quiet_cluster [late_route, home_route, leaving_route, disabled_route] []"

text \<open>
  Gateways \<open>infra/g\<close>: without an infrastructure block, without the issuer annotation,
  and with both issuer and zone recorded.
\<close>

definition bare_gateway :: gateway where
  "bare_gateway = \<lparr>gw_name = ''g'', gw_namespace = ''infra'',
     gw_annotations = [clusterIssuerAnnotation \<mapsto> ''internpki''],
     gw_className = ''eg'', gw_listeners = [], gw_infrastructure = None\<rparr>"

definition unlabelled_gateway :: gateway where
  "unlabelled_gateway = \<lparr>gw_name = ''g'', gw_namespace = ''infra'',
     gw_annotations = Map.empty,
     gw_className = ''eg'', gw_listeners = [createHTTPSListener ''b.example.com'' ''infra''],
     gw_infrastructure = Some (Some [''ipam.vitistack.io/zone'' \<mapsto> ''hnet-private''])\<rparr>"

definition zoned_gateway :: gateway where
  "zoned_gateway = \<lparr>gw_name = ''g'', gw_namespace = ''infra'',
     gw_annotations = [clusterIssuerAnnotation \<mapsto> ''internpki''],
     gw_className = ''eg'', gw_listeners = [createHTTPSListener ''b.example.com'' ''infra''],
     gw_infrastructure = Some (Some [''ipam.vitistack.io/zone'' \<mapsto> ''hnet-private''])\<rparr>"

text \<open>
  A world in which the second call of the client (the read of the old gateway) fails.
\<close>

definition failing_cluster :: cluster where
  "failing_cluster = \<lparr>routes = [moved_route], gateways = [],
     script = [Quiet, Fail (ServerError ''boom'')], writes = [], errlog = []\<rparr>"

text \<open>
  A route in its steady state with its gateway; a route whose gateway does not exist yet
  and that asks for its own issuer; a route that is being deleted, was last synchronised
  into \<open>infra/old\<close> and now names \<open>infra/g\<close>, with the old gateway.
\<close>

definition settled_route :: http_route where
  "settled_route = \<lparr>rt_name = ''r9'', rt_namespace = ''infra'',
     rt_annotations = [AnnotationUseHttprouteOperator \<mapsto> ''true'',
                       reconcileAnnotationKey \<mapsto> ''true'',
                       previousGatewayAnnotationKey \<mapsto> ''infra/g''],
     rt_parentRefs = [\<lparr>pr_name = ''g'', pr_namespace = None\<rparr>],
     rt_hostnames = [''s.example.com'', ''t.example.com''],
     rt_deletionTimestamp = None, rt_finalizers = [httprouteFinalizerName]\<rparr>"

definition settled_gateway :: gateway where
  "settled_gateway = \<lparr>gw_name = ''g'', gw_namespace = ''infra'',
     gw_annotations = [clusterIssuerAnnotation \<mapsto> ''internpki''],
     gw_className = ''eg'',
     gw_listeners = [createHTTPSListener ''s.example.com'' ''infra'',
                     createHTTPSListener ''t.example.com'' ''infra''],
     gw_infrastructure = Some (Some [''ipam.vitistack.io/zone'' \<mapsto> ''hnet-private''])\<rparr>"

definition settled_cluster :: cluster where
  "settled_cluster = quiet_cluster [settled_route] [settled_gateway]"

definition fresh_route :: http_route where
  "fresh_route = \<lparr>rt_name = ''r10'', rt_namespace = ''infra'',
     rt_annotations = [AnnotationUseHttprouteOperator \<mapsto> ''true'',
                       AnnotationClusterIssuer \<mapsto> ''letsencrypt''],
     rt_parentRefs = [\<lparr>pr_name = ''g'', pr_namespace = None\<rparr>],
     rt_hostnames = [''n.example.com''],
     rt_deletionTimestamp = None, rt_finalizers = [httprouteFinalizerName]\<rparr>"

definition fresh_cluster :: cluster where
  "fresh_cluster = quiet_cluster [fresh_route] []"

text \<open>
  Two more routes whose gateway does not exist: one that declares a zone and no issuer,
  and one whose zone and issuer annotations are there and empty.
\<close>

definition public_route :: http_route where
  "public_route = \<lparr>rt_name = ''r12'', rt_namespace = ''infra'',
     rt_annotations = [AnnotationUseHttprouteOperator \<mapsto> ''true'',
                       AnnotationIPAMZone \<mapsto> ''hnet-public''],
     rt_parentRefs = [\<lparr>pr_name = ''g'', pr_namespace = Some ''infra''\<rparr>],
     rt_hostnames = [''p.example.com'', ''q.example.com''],
     rt_deletionTimestamp = None, rt_finalizers = [httprouteFinalizerName]\<rparr>"

definition public_cluster :: cluster where
  "public_cluster = quiet_cluster [public_route] []"

definition blank_route :: http_route where
  "blank_route = \<lparr>rt_name = ''r13'', rt_namespace = ''infra'',
     rt_annotations = [AnnotationUseHttprouteOperator \<mapsto> ''true'',
                       AnnotationIPAMZone \<mapsto> [],
                       AnnotationClusterIssuer \<mapsto> []],
     rt_parentRefs = [\<lparr>pr_name = ''g'', pr_namespace = Some ''infra''\<rparr>],
     rt_hostnames = [''e.example.com''],
     rt_deletionTimestamp = None, rt_finalizers = [httprouteFinalizerName]\<rparr>"

definition blank_cluster :: cluster where
  "blank_cluster = quiet_cluster [blank_route] []"

definition drifted_route :: http_route where
  "drifted_route = \<lparr>rt_name = ''r11'', rt_namespace = ''infra'',
     rt_annotations = [AnnotationUseHttprouteOperator \<mapsto> ''true'',
                       reconcileAnnotationKey \<mapsto> ''true'',
                       previousGatewayAnnotationKey \<mapsto> ''infra/old''],
     rt_parentRefs = [\<lparr>pr_name = ''g'', pr_namespace = Some ''infra''\<rparr>],
     rt_hostnames = [''x.example.com''],
     rt_deletionTimestamp = Some 1700000000, rt_finalizers = [httprouteFinalizerName]\<rparr>"

definition old_gateway :: gateway where
  "old_gateway = \<lparr>gw_name = ''old'', gw_namespace = ''infra'',
     gw_annotations = [clusterIssuerAnnotation \<mapsto> ''internpki''],
     gw_className = ''eg'', gw_listeners = [createHTTPSListener ''x.example.com'' ''infra''],
     gw_infrastructure = Some (Some [''ipam.vitistack.io/zone'' \<mapsto> ''hnet-private''])\<rparr>"

definition drift_cluster :: cluster where
  "drift_cluster = quiet_cluster [drifted_route] [old_gateway]"

definition staying_route :: http_route where
  "staying_route = drifted_route\<lparr>rt_deletionTimestamp := None\<rparr>"

definition staying_cluster :: cluster where
  "staying_cluster = quiet_cluster [staying_route] [old_gateway]"

text \<open>
  Worlds for the deletion of \<open>leaving_route\<close>: one where the read of the gateway
  fails, one where another writer removes the route before the controller reads it
  again, one where another writer has removed the finalizer by then, and one where every
  update of the route meets a conflict.
\<close>

definition down_cluster :: cluster where
  "down_cluster = \<lparr>routes = [leaving_route], gateways = [zoned_gateway],
     script = [Quiet, Fail (ServerError ''down'')], writes = [], errlog = []\<rparr>"

definition released_route :: http_route where
  "released_route = leaving_route\<lparr>rt_finalizers := []\<rparr>"

definition released_cluster :: cluster where
  "released_cluster = \<lparr>routes = [leaving_route], gateways = [],
     script = [Quiet, Quiet, Interfere [released_route] []], writes = [], errlog = []\<rparr>"

definition gone_cluster :: cluster where
  "gone_cluster = \<lparr>routes = [leaving_route], gateways = [],
     script = [Quiet, Quiet, Interfere [] []], writes = [], errlog = []\<rparr>"

definition conflict_cluster :: cluster where
  "conflict_cluster = \<lparr>routes = [leaving_route], gateways = [],
     script = [Quiet, Quiet, Quiet, Fail Conflict, Quiet, Fail Conflict, Quiet, Fail Conflict,
               Quiet, Fail Conflict, Quiet, Fail Conflict],
     writes = [], errlog = []\<rparr>"
section \<open>Evaluating the model\<close>

text \<open>
  The definitions a run of the model on a concrete cluster unfolds. The retry count is
  given in unary, so that the simplifier can step through the loop.
\<close>

lemmas key_defs = AnnotationUseHttprouteOperator_def AnnotationIPAMZone_def
  AnnotationClusterIssuer_def reconcileAnnotationKey_def previousGatewayAnnotationKey_def

lemma DefaultRetrySteps_unfold: "DefaultRetrySteps = Suc (Suc (Suc (Suc (Suc 0))))"
  by (simp add: DefaultRetrySteps_def eval_nat_numeral)

lemmas run_defs = Reconcile_def reconcileSteady_def reconcileDeletion_def ensureGateway_def
  createGateway_def updateGatewayListeners_def updateOldGateway_def handleHTTPRouteDeletion_def
  collectListenersForGateway_def removeFinalizerAttempt_def addFinalizerAttempt_def
  RetryOnConflict_def DefaultRetrySteps_unfold
  client_get_route_def client_list_routes_def client_get_gateway_def client_create_gateway_def
  client_delete_gateway_def client_patch_gateway_def client_update_route_def
  client_patch_route_def serve_def issue_def logError_def
  is_route_def is_gateway_def apply_gateway_def apply_route_def
  ContainsFinalizer_def RemoveFinalizer_def AddFinalizer_def
  IsZero_def IsNotFound_def IsConflict_def IgnoreNotFound_def lookup_def recordedZone_def
  effectiveZone_def effectiveIssuer_def defaultClusterIssuer_def defaultIPAMZone_def

section \<open>The client\<close>

lemma serve_writes: "serve c = (e, c') \<Longrightarrow> writes c' = writes c \<and> errlog c' = errlog c"
  by (auto simp: serve_def split: list.splits env_event.splits)

lemma serve_quiet: "script c = [] \<Longrightarrow> serve c = (None, c)"
  by (simp add: serve_def)

lemma get_route_writes:
  "client_get_route c ns n = (x, c') \<Longrightarrow> writes c' = writes c \<and> errlog c' = errlog c"
  by (auto simp: client_get_route_def split: prod.splits option.splits dest: serve_writes)

lemma get_route_found:
  "client_get_route c ns n = (Inr r, c') \<Longrightarrow> find (is_route ns n) (routes c') = Some r"
  by (auto simp: client_get_route_def split: prod.splits option.splits)

lemma get_route_quiet:
  "script c = [] \<Longrightarrow>
     client_get_route c ns n =
       (case find (is_route ns n) (routes c) of None \<Rightarrow> Inl NotFound | Some r \<Rightarrow> Inr r, c)"
  by (simp add: client_get_route_def serve_quiet split: option.splits)

lemma get_gateway_writes:
  "client_get_gateway c ns n = (x, c') \<Longrightarrow> writes c' = writes c \<and> errlog c' = errlog c"
  by (auto simp: client_get_gateway_def split: prod.splits option.splits dest: serve_writes)

lemma get_gateway_found:
  "client_get_gateway c ns n = (Inr g, c') \<Longrightarrow> find (is_gateway ns n) (gateways c') = Some g"
  by (auto simp: client_get_gateway_def split: prod.splits option.splits)

lemma get_gateway_quiet:
  "script c = [] \<Longrightarrow>
     client_get_gateway c ns n =
       (case find (is_gateway ns n) (gateways c) of None \<Rightarrow> Inl NotFound | Some g \<Rightarrow> Inr g, c)"
  by (simp add: client_get_gateway_def serve_quiet split: option.splits)

lemma find_None_has_gateway:
  "find (is_gateway ns n) (gateways c) = None \<longleftrightarrow> \<not> has_gateway c ns n"
  by (auto simp: find_None_iff has_gateway_def)

lemma find_Some_has_gateway:
  "find (is_gateway ns n) (gateways c) = Some g \<Longrightarrow>
     has_gateway c ns n \<and> gw_namespace g = ns \<and> gw_name g = n"
  by (auto simp: find_Some_iff has_gateway_def is_gateway_def)

lemma find_append_new:
  "find P xs = None \<Longrightarrow> P y \<Longrightarrow> find P (xs @ [y]) = Some y"
  by (induction xs) (auto split: if_splits)

lemma create_gateway_writes:
  "client_create_gateway c g = (e, c') \<Longrightarrow>
     writes c' = writes c @ [CreateGateway g] \<and> errlog c' = errlog c"
  by (auto simp: client_create_gateway_def issue_def
           split: prod.splits option.splits if_splits dest!: serve_writes)

lemma create_gateway_quiet:
  "script c = [] \<Longrightarrow> \<not> has_gateway c (gw_namespace g) (gw_name g) \<Longrightarrow>
     client_create_gateway c g =
       (None, c\<lparr>gateways := gateways c @ [g], writes := writes c @ [CreateGateway g]\<rparr>)"
  by (simp add: client_create_gateway_def serve_def issue_def has_gateway_def)

lemma delete_gateway_writes:
  "client_delete_gateway c g = (e, c') \<Longrightarrow>
     writes c' = writes c @ [DeleteGateway (gw_namespace g) (gw_name g)] \<and> errlog c' = errlog c"
  by (auto simp: client_delete_gateway_def issue_def
           split: prod.splits option.splits if_splits dest!: serve_writes)

lemma delete_gateway_gone:
  "client_delete_gateway c g = (None, c') \<Longrightarrow> \<not> has_gateway c' (gw_namespace g) (gw_name g)"
  by (auto simp: client_delete_gateway_def has_gateway_def
           split: prod.splits option.splits if_splits)

lemma delete_gateway_quiet:
  "script c = [] \<Longrightarrow> has_gateway c (gw_namespace g) (gw_name g) \<Longrightarrow>
     client_delete_gateway c g =
       (None, c\<lparr>gateways := filter (\<lambda>x. \<not> is_gateway (gw_namespace g) (gw_name g) x) (gateways c),
                 writes := writes c @ [DeleteGateway (gw_namespace g) (gw_name g)]\<rparr>)"
  by (simp add: client_delete_gateway_def serve_def issue_def has_gateway_def)

lemma patch_gateway_writes:
  "client_patch_gateway c p = (e, c') \<Longrightarrow>
     writes c' = writes c @ [PatchGateway p] \<and> errlog c' = errlog c"
  by (auto simp: client_patch_gateway_def issue_def
           split: prod.splits option.splits if_splits dest!: serve_writes)

lemma patch_gateway_quiet:
  "script c = [] \<Longrightarrow> has_gateway c (gw_namespace p) (gw_name p) \<Longrightarrow>
     client_patch_gateway c p =
       (None, c\<lparr>gateways := map (apply_gateway p) (gateways c),
                 writes := writes c @ [PatchGateway p]\<rparr>)"
  by (simp add: client_patch_gateway_def serve_def issue_def has_gateway_def)

lemma apply_gateway_key:
  "is_gateway ns n (apply_gateway P x) = is_gateway ns n x"
  by (simp add: apply_gateway_def is_gateway_def)

lemma find_map_apply_gateway:
  "find (is_gateway ns n) (map (apply_gateway P) gs) = map_option (apply_gateway P) (find (is_gateway ns n) gs)"
  by (induction gs) (simp_all add: apply_gateway_key)

lemma apply_gateway_idem:
  "apply_gateway P (apply_gateway P x) = apply_gateway P x"
  by (simp add: apply_gateway_def is_gateway_def)

lemma update_route_writes:
  "client_update_route c r = (e, c') \<Longrightarrow>
     writes c' = writes c @ [UpdateRoute r] \<and> errlog c' = errlog c"
  by (auto simp: client_update_route_def issue_def
           split: prod.splits option.splits if_splits dest!: serve_writes)

lemma update_route_quiet:
  "script c = [] \<Longrightarrow> \<exists>x \<in> set (routes c). is_route (rt_namespace r) (rt_name r) x \<Longrightarrow>
     client_update_route c r =
       (None, c\<lparr>routes := map (\<lambda>x. if is_route (rt_namespace r) (rt_name r) x then r else x) (routes c),
                 writes := writes c @ [UpdateRoute r]\<rparr>)"
  by (simp add: client_update_route_def serve_def issue_def)

lemma patch_route_writes:
  "client_patch_route c ns n anns = (e, c') \<Longrightarrow>
     writes c' = writes c @ [PatchRoute ns n anns] \<and> errlog c' = errlog c"
  by (auto simp: client_patch_route_def issue_def
           split: prod.splits option.splits if_splits dest!: serve_writes)

lemma patch_route_quiet:
  "script c = [] \<Longrightarrow>
     client_patch_route c ns n anns =
       (None, c\<lparr>routes := applied_routes (routes c) ns n anns,
                 writes := writes c @ [PatchRoute ns n anns]\<rparr>)"
  by (simp add: client_patch_route_def serve_def issue_def applied_routes_def)

lemma new_writes_same: "writes c1 = writes c \<Longrightarrow> new_writes c c' = new_writes c1 c'"
  by (simp add: new_writes_def)

section \<open>Route aggregation\<close>

lemma set_fold_insert: "set (fold List.insert hs H) = set hs \<union> set H"
  by (induction hs arbitrary: H) auto

lemma distinct_fold_insert: "distinct H \<Longrightarrow> distinct (fold List.insert hs H)"
  by (induction hs arbitrary: H) auto

lemma scanParentRefs_fst:
  "fst (scanParentRefs ps gn gns hs (H, rc)) = (if codeMatch ps gn gns then fold List.insert hs H else H)"
  by (induction ps) (auto simp: codeMatch_def Let_def)

lemma scanRoutes_set:
  "set (fst (scanRoutes rs gn gns (H, rc, sc))) =
     set H \<union> (\<Union>r \<in> {r \<in> set rs. active r \<and> codeMatch (rt_parentRefs r) gn gns}. set (rt_hostnames r))"
proof (induction rs arbitrary: H rc sc)
  case Nil
  then show ?case by simp
next
  case (Cons r rs)
  obtain H' rc' where sp: "scanParentRefs (rt_parentRefs r) gn gns (rt_hostnames r) (H, rc) = (H', rc')"
    by (cases "scanParentRefs (rt_parentRefs r) gn gns (rt_hostnames r) (H, rc)")
  have H': "H' = (if codeMatch (rt_parentRefs r) gn gns then fold List.insert (rt_hostnames r) H else H)"
    using scanParentRefs_fst [of "rt_parentRefs r" gn gns "rt_hostnames r" H rc] sp by simp
  show ?case
    using Cons.IH sp H' by (auto simp: active_def set_fold_insert)
qed

lemma scanRoutes_distinct:
  "distinct H \<Longrightarrow> distinct (fst (scanRoutes rs gn gns (H, rc, sc)))"
proof (induction rs arbitrary: H rc sc)
  case Nil
  then show ?case by simp
next
  case (Cons r rs)
  obtain H' rc' where sp: "scanParentRefs (rt_parentRefs r) gn gns (rt_hostnames r) (H, rc) = (H', rc')"
    by (cases "scanParentRefs (rt_parentRefs r) gn gns (rt_hostnames r) (H, rc)")
  have H': "H' = (if codeMatch (rt_parentRefs r) gn gns then fold List.insert (rt_hostnames r) H else H)"
    using scanParentRefs_fst [of "rt_parentRefs r" gn gns "rt_hostnames r" H rc] sp by simp
  have "distinct H'" using H' Cons.prems by (simp add: distinct_fold_insert)
  then show ?case
    using Cons.IH Cons.prems sp by auto
qed

lemma codeMatch_someParentNames:
  assumes "\<forall>p \<in> set (rt_parentRefs r). pr_namespace p = None \<longrightarrow> rt_namespace r = gns"
  shows "codeMatch (rt_parentRefs r) gn gns = someParentNames r gn gns"
  unfolding codeMatch_def someParentNames_def
  using assms by (auto split: option.splits)

lemma collect_Inr:
  assumes "collectListenersForGateway c gn gns = (Inr ls, c')"
  shows "ls = map (\<lambda>h. createHTTPSListener h gns) (fst (scanRoutes (routes c') gn gns ([], 0, 0)))"
  using assms
  by (auto simp: collectListenersForGateway_def client_list_routes_def
           split: prod.splits sum.splits option.splits)

lemma ls_name_createHTTPSListener: "ls_name (createHTTPSListener h gns) = h"
  by (simp add: createHTTPSListener_def Let_def)

lemma collect_cases:
  "(\<exists>e c'. collectListenersForGateway c gn gns = (Inl e, c') \<and> serve c = (Some e, c'))
   \<or> (\<exists>c'. collectListenersForGateway c gn gns = (Inr (aggregate (routes c') gn gns), c')
             \<and> serve c = (None, c'))"
  by (cases "serve c")
     (auto simp: collectListenersForGateway_def client_list_routes_def aggregate_def
           split: prod.splits option.splits)

lemma collect_writes:
  "collectListenersForGateway c gn gns = (x, c') \<Longrightarrow> writes c' = writes c \<and> errlog c' = errlog c"
  using collect_cases [of c gn gns] by (auto dest: serve_writes)

lemma collect_quiet:
  "script c = [] \<Longrightarrow>
     collectListenersForGateway c gn gns = (Inr (aggregate (routes c) gn gns), c)"
  using collect_cases [of c gn gns] by (auto simp: serve_quiet)

text \<open>
  C1 (as amended). When the aggregation for gateway \<open>gn\<close> of namespace \<open>gns\<close> returns
  listeners, they are the HTTPS listeners of their names, no name occurs twice, and the
  names are exactly the hostnames of the active routes (not being deleted, enabled
  annotation exactly \<open>true\<close>) that name the gateway by any of their parent references,
  not only the first. The statement is about clusters in which every parent reference
  without a namespace belongs to a route of namespace \<open>gns\<close>; what a reference without a
  namespace in a route of another namespace counts for is left out here.
\<close>

theorem C1_union_over_any_parent_ref:
  assumes "collectListenersForGateway c gn gns = (Inr ls, c')"
      and "\<forall>r \<in> set (routes c'). \<forall>p \<in> set (rt_parentRefs r).
             pr_namespace p = None \<longrightarrow> rt_namespace r = gns"
  shows "ls = map (\<lambda>h. createHTTPSListener h gns) (map ls_name ls)
         \<and> distinct (map ls_name ls)
         \<and> set (map ls_name ls) = set (union_some (routes c') gn gns)"
proof -
  define hs where "hs = fst (scanRoutes (routes c') gn gns ([], 0, 0))"
  have ls: "ls = map (\<lambda>h. createHTTPSListener h gns) hs"
    unfolding hs_def using collect_Inr [OF assms(1)] .
  have names: "map ls_name ls = hs"
    unfolding ls by (simp add: o_def ls_name_createHTTPSListener)
  have d: "distinct hs"
    unfolding hs_def by (rule scanRoutes_distinct) simp
  have same: "\<And>r. r \<in> set (routes c') \<Longrightarrow>
                codeMatch (rt_parentRefs r) gn gns = someParentNames r gn gns"
    using assms(2) by (intro codeMatch_someParentNames) blast
  have "set hs = (\<Union>r \<in> {r \<in> set (routes c'). active r \<and> codeMatch (rt_parentRefs r) gn gns}.
                     set (rt_hostnames r))"
    unfolding hs_def using scanRoutes_set [of "routes c'" gn gns "[]" 0 0] by simp
  also have "\<dots> = (\<Union>r \<in> {r \<in> set (routes c'). active r \<and> someParentNames r gn gns}.
                     set (rt_hostnames r))"
    using same by auto
  also have "\<dots> = set (union_some (routes c') gn gns)"
    unfolding union_some_def by auto
  finally have s: "set hs = set (union_some (routes c') gn gns)" .
  show ?thesis
    unfolding names using ls d s by blast
qed

lemma union_cluster_collect:
  "collectListenersForGateway union_cluster ''g'' ''infra'' =
     (Inr [createHTTPSListener ''b.example.com'' ''infra'',
           createHTTPSListener ''late.example.com'' ''infra''], union_cluster)"
  by (simp add: collectListenersForGateway_def client_list_routes_def serve_def quiet_cluster_def
        union_cluster_def late_route_def home_route_def leaving_route_def disabled_route_def
        lookup_def IsZero_def)

theorem C1_union_over_any_parent_ref_witness:
  "distinct (map ls_name [createHTTPSListener ''b.example.com'' ''infra'',
                          createHTTPSListener ''late.example.com'' ''infra''])
   \<and> set (map ls_name [createHTTPSListener ''b.example.com'' ''infra'',
                        createHTTPSListener ''late.example.com'' ''infra''])
       = set (union_some (routes union_cluster) ''g'' ''infra'')
   \<and> union_some (routes union_cluster) ''g'' ''infra''
       = [''late.example.com'', ''b.example.com'', ''late.example.com'']"
proof -
  have h2: "\<forall>r \<in> set (routes union_cluster). \<forall>p \<in> set (rt_parentRefs r).
              pr_namespace p = None \<longrightarrow> rt_namespace r = ''infra''"
    by (simp add: union_cluster_def quiet_cluster_def late_route_def home_route_def
          leaving_route_def disabled_route_def)
  have u: "union_some (routes union_cluster) ''g'' ''infra''
             = [''late.example.com'', ''b.example.com'', ''late.example.com'']"
    by (simp add: union_some_def active_def someParentNames_def union_cluster_def
          quiet_cluster_def late_route_def home_route_def leaving_route_def disabled_route_def
          lookup_def IsZero_def)
  from C1_union_over_any_parent_ref [OF union_cluster_collect h2] u show ?thesis
    by blast
qed

text \<open>
  C1 as stated fails: \<open>late_route\<close> names \<open>infra/g\<close> by its second parent reference
  only, so under the first-reference reading no hostname belongs to the gateway, yet
  the aggregation returns a listener for the route's hostname.
\<close>

theorem C1_later_parent_ref_counterexample:
  "fst (collectListenersForGateway (quiet_cluster [late_route] []) ''g'' ''infra'') =
     Inr [createHTTPSListener ''late.example.com'' ''infra'']
   \<and> union_first [late_route] ''g'' ''infra'' = []"
proof -
  have "collectListenersForGateway (quiet_cluster [late_route] []) ''g'' ''infra'' =
     (Inr [createHTTPSListener ''late.example.com'' ''infra''], quiet_cluster [late_route] [])"
    by (simp add: collectListenersForGateway_def client_list_routes_def serve_def
          quiet_cluster_def late_route_def lookup_def IsZero_def)
  moreover have "union_first [late_route] ''g'' ''infra'' = []"
    by (simp add: union_first_def firstParentNames_def late_route_def)
  ultimately show ?thesis by simp
qed

text \<open>
  C6. \<open>local_route\<close> lives in namespace \<open>team-a\<close> and its first parent reference names
  \<open>g\<close> without a namespace, so its gateway is \<open>team-a/g\<close> (and Reconcile uses that
  one). The aggregation for \<open>team-b/g\<close> nevertheless counts the route: inside the
  aggregation a missing namespace is read as the namespace of the gateway asked for.
\<close>

theorem C6_aggregation_reads_missing_namespace_as_target:
  "fst (collectListenersForGateway (quiet_cluster [local_route] []) ''g'' ''team-b'') =
     Inr [createHTTPSListener ''a.example.com'' ''team-b'']
   \<and> firstParentNames local_route ''g'' ''team-a''
   \<and> \<not> firstParentNames local_route ''g'' ''team-b''"
  by (simp add: collectListenersForGateway_def client_list_routes_def serve_def quiet_cluster_def
        local_route_def lookup_def IsZero_def firstParentNames_def)

section \<open>Synchronising the listeners of a gateway\<close>

lemma updateGatewayListeners_quiet:
  assumes "script c = []" and "has_gateway c gns (gw_name g)" and "gw_namespace g = gns"
  shows "updateGatewayListeners c g gns =
           (if aggregate (routes c) (gw_name g) gns = []
            then (None, c\<lparr>gateways := filter (\<lambda>x. \<not> is_gateway gns (gw_name g) x) (gateways c),
                          writes := writes c @ [DeleteGateway gns (gw_name g)]\<rparr>)
            else (None, c\<lparr>gateways :=
                            map (apply_gateway (listenerPatch (gw_name g) gns (gw_className g)
                                   (aggregate (routes c) (gw_name g) gns))) (gateways c),
                          writes := writes c @ [PatchGateway (listenerPatch (gw_name g) gns
                                     (gw_className g) (aggregate (routes c) (gw_name g) gns))]\<rparr>))"
proof (cases "aggregate (routes c) (gw_name g) gns = []")
  case True
  then show ?thesis
    using assms delete_gateway_quiet [of c g]
    by (simp add: updateGatewayListeners_def collect_quiet Let_def)
next
  case False
  have "has_gateway c (gw_namespace (listenerPatch (gw_name g) gns (gw_className g)
           (aggregate (routes c) (gw_name g) gns)))
          (gw_name (listenerPatch (gw_name g) gns (gw_className g)
           (aggregate (routes c) (gw_name g) gns)))"
    using assms(2) by (simp add: listenerPatch_def)
  from patch_gateway_quiet [OF assms(1) this] False show ?thesis
    using assms by (simp add: updateGatewayListeners_def collect_quiet listenerPatch_def Let_def)
qed

lemma updateGatewayListeners_empty:
  assumes "collectListenersForGateway c (gw_name g) gns = (Inr [], c1)"
  shows "updateGatewayListeners c g gns = client_delete_gateway c1 g"
  using assms by (simp add: updateGatewayListeners_def Let_def split: prod.splits option.splits)

lemma updateGatewayListeners_new_writes:
  "new_writes c (snd (updateGatewayListeners c g gns)) = []
   \<or> new_writes c (snd (updateGatewayListeners c g gns)) = [DeleteGateway (gw_namespace g) (gw_name g)]
   \<or> (\<exists>ls. ls \<noteq> [] \<and> new_writes c (snd (updateGatewayListeners c g gns))
               = [PatchGateway (listenerPatch (gw_name g) gns (gw_className g) ls)])"
proof -
  obtain x c1 where col: "collectListenersForGateway c (gw_name g) gns = (x, c1)"
    by (cases "collectListenersForGateway c (gw_name g) gns")
  have w1: "writes c1 = writes c" using collect_writes [OF col] by simp
  show ?thesis
  proof (cases x)
    case (Inl e)
    then show ?thesis using col w1 by (simp add: updateGatewayListeners_def new_writes_def)
  next
    case (Inr ls)
    show ?thesis
    proof (cases "ls = []")
      case True
      obtain e c2 where d: "client_delete_gateway c1 g = (e, c2)"
        by (cases "client_delete_gateway c1 g")
      have "updateGatewayListeners c g gns = (e, c2)"
        using col Inr True d by (simp add: updateGatewayListeners_def Let_def split: option.splits)
      then show ?thesis
        using delete_gateway_writes [OF d] w1 by (simp add: new_writes_def)
    next
      case False
      obtain e c2 where p: "client_patch_gateway c1 (listenerPatch (gw_name g) gns (gw_className g) ls) = (e, c2)"
        by (cases "client_patch_gateway c1 (listenerPatch (gw_name g) gns (gw_className g) ls)")
      have "updateGatewayListeners c g gns = (e, c2)"
        using col Inr False p
        by (simp add: updateGatewayListeners_def Let_def listenerPatch_def split: option.splits)
      then show ?thesis
        using patch_gateway_writes [OF p] w1 False by (auto simp: new_writes_def)
    qed
  qed
qed

lemma parseGatewayRef_eq:
  "parseGatewayRef seen ref =
     (if CHR ''/'' \<in> set ref
      then (seen @ takeWhile (\<lambda>ch. ch \<noteq> CHR ''/'') ref, drop 1 (dropWhile (\<lambda>ch. ch \<noteq> CHR ''/'') ref))
      else ([], []))"
  by (induction ref arbitrary: seen) auto

lemma parseGatewayRef_join:
  assumes "parseGatewayRef [] ref = (a, b)" and "a \<noteq> []"
  shows "ref = a @ ''/'' @ b"
proof -
  have sl: "CHR ''/'' \<in> set ref"
    using assms by (auto simp: parseGatewayRef_eq split: if_splits)
  then have a: "a = takeWhile (\<lambda>ch. ch \<noteq> CHR ''/'') ref"
        and b: "b = drop 1 (dropWhile (\<lambda>ch. ch \<noteq> CHR ''/'') ref)"
    using assms(1) by (auto simp: parseGatewayRef_eq)
  from sl have "dropWhile (\<lambda>ch. ch \<noteq> CHR ''/'') ref \<noteq> []" by auto
  moreover from sl have "hd (dropWhile (\<lambda>ch. ch \<noteq> CHR ''/'') ref) = CHR ''/''"
    using hd_dropWhile [of "\<lambda>ch. ch \<noteq> CHR ''/''" ref] by auto
  ultimately have "dropWhile (\<lambda>ch. ch \<noteq> CHR ''/'') ref = CHR ''/'' # b"
    unfolding b by (cases "dropWhile (\<lambda>ch. ch \<noteq> CHR ''/'') ref") auto
  then show ?thesis
    unfolding a using takeWhile_dropWhile_id [of "\<lambda>ch. ch \<noteq> CHR ''/''" ref] by simp
qed

lemma updateOldGateway_malformed:
  "malformedRef ref \<Longrightarrow>
     updateOldGateway c ref = (None, logError ''Invalid gateway reference format'' c)"
  by (auto simp: updateOldGateway_def malformedRef_def parseGatewayRef_eq)

lemma updateOldGateway_wellformed:
  assumes "parseGatewayRef [] ref = (ons, on)" and "ons \<noteq> []" and "on \<noteq> []"
      and "client_get_gateway c ons on = (Inr g, c1)"
  shows "updateOldGateway c ref = updateGatewayListeners c1 g ons"
proof -
  have "gw_name g = on"
    using get_gateway_found [OF assms(4)] by (auto simp: find_Some_iff is_gateway_def)
  then show ?thesis
    using assms
    by (simp add: updateOldGateway_def updateGatewayListeners_def Let_def
             split: prod.splits sum.splits option.splits)
qed

lemma updateOldGateway_new_writes:
  "new_writes c (snd (updateOldGateway c ref)) = []
   \<or> (\<exists>ns n. new_writes c (snd (updateOldGateway c ref)) = [DeleteGateway ns n])
   \<or> (\<exists>p. gw_listeners p \<noteq> [] \<and> new_writes c (snd (updateOldGateway c ref)) = [PatchGateway p])"
proof -
  obtain ons on where pr: "parseGatewayRef [] ref = (ons, on)"
    by (cases "parseGatewayRef [] ref")
  show ?thesis
  proof (cases "ons = [] \<or> on = []")
    case True
    then show ?thesis using pr
      by (auto simp: updateOldGateway_def new_writes_def logError_def)
  next
    case False
    obtain x c1 where g: "client_get_gateway c ons on = (x, c1)"
      by (cases "client_get_gateway c ons on")
    have w1: "writes c1 = writes c" using get_gateway_writes [OF g] by simp
    show ?thesis
    proof (cases x)
      case (Inl e)
      then show ?thesis using pr False g w1
        by (simp add: updateOldGateway_def new_writes_def)
    next
      case (Inr gw)
      have "updateOldGateway c ref = updateGatewayListeners c1 gw ons"
        using updateOldGateway_wellformed [OF pr _ _ g [unfolded Inr]] False by simp
      moreover have "new_writes c c' = new_writes c1 c'" for c'
        using w1 by (simp add: new_writes_def)
      ultimately show ?thesis
        using updateGatewayListeners_new_writes [of c1 gw ons]
        by (auto simp: listenerPatch_def)
    qed
  qed
qed

lemma updateOldGateway_quiet:
  assumes "script c = []"
  shows "\<exists>c'. updateOldGateway c ref = (None, c') \<and> script c' = [] \<and> routes c' = routes c
              \<and> (\<forall>ns n. has_gateway c' ns n \<longrightarrow> has_gateway c ns n)"
proof -
  obtain ons on where pr: "parseGatewayRef [] ref = (ons, on)"
    by (cases "parseGatewayRef [] ref")
  show ?thesis
  proof (cases "ons = [] \<or> on = []")
    case True
    then show ?thesis using pr assms
      by (auto simp: updateOldGateway_def logError_def has_gateway_def)
  next
    case False
    show ?thesis
    proof (cases "find (is_gateway ons on) (gateways c)")
      case None
      then have "client_get_gateway c ons on = (Inl NotFound, c)"
        using get_gateway_quiet [OF assms, of ons on] by simp
      then show ?thesis using pr False assms
        by (auto simp: updateOldGateway_def IgnoreNotFound_def IsNotFound_def)
    next
      case (Some g)
      then have get: "client_get_gateway c ons on = (Inr g, c)"
        using get_gateway_quiet [OF assms, of ons on] by simp
      have k: "has_gateway c ons on" "gw_namespace g = ons" "gw_name g = on"
        using find_Some_has_gateway [OF Some] by simp_all
      have eq: "updateOldGateway c ref = updateGatewayListeners c g ons"
        using updateOldGateway_wellformed [OF pr _ _ get] False by simp
      show ?thesis
        unfolding eq
        using updateGatewayListeners_quiet [OF assms, of ons g] k assms
        by (auto simp: has_gateway_def apply_gateway_def is_gateway_def)
    qed
  qed
qed

text \<open>
  C3. When the aggregation for an existing gateway returns no listener, the only
  mutating call of updateGatewayListeners is the deletion of that gateway; when the
  server accepts it the gateway is gone from the store, and in a quiet world holding the
  gateway the server accepts it. The same holds of updateOldGateway for a reference that
  parses and a gateway that exists. Neither function ever issues an apply whose listener
  list is empty, whatever the world does.
\<close>

theorem C3_no_listener_left_deletes_gateway:
  "(collectListenersForGateway c (gw_name g) gns = (Inr [], c1) \<longrightarrow>
       new_writes c (snd (updateGatewayListeners c g gns))
         = [DeleteGateway (gw_namespace g) (gw_name g)]
     \<and> (fst (updateGatewayListeners c g gns) = None \<longrightarrow>
          \<not> has_gateway (snd (updateGatewayListeners c g gns)) (gw_namespace g) (gw_name g))
     \<and> (script c1 = [] \<and> has_gateway c1 (gw_namespace g) (gw_name g) \<longrightarrow>
          fst (updateGatewayListeners c g gns) = None))
   \<and> (parseGatewayRef [] ref = (ons, on) \<and> ons \<noteq> [] \<and> on \<noteq> []
        \<and> client_get_gateway c ons on = (Inr og, c2)
        \<and> collectListenersForGateway c2 on ons = (Inr [], c3) \<longrightarrow>
       new_writes c (snd (updateOldGateway c ref)) = [DeleteGateway ons on]
     \<and> (fst (updateOldGateway c ref) = None \<longrightarrow>
          \<not> has_gateway (snd (updateOldGateway c ref)) ons on)
     \<and> (script c3 = [] \<and> has_gateway c3 ons on \<longrightarrow> fst (updateOldGateway c ref) = None))
   \<and> (\<forall>p. PatchGateway p \<in> set (new_writes c (snd (updateGatewayListeners c g gns)))
          \<longrightarrow> gw_listeners p \<noteq> [])
   \<and> (\<forall>p. PatchGateway p \<in> set (new_writes c (snd (updateOldGateway c ref)))
          \<longrightarrow> gw_listeners p \<noteq> [])"
proof (intro conjI impI allI)
  assume col: "collectListenersForGateway c (gw_name g) gns = (Inr [], c1)"
  have eq: "updateGatewayListeners c g gns = client_delete_gateway c1 g"
    using updateGatewayListeners_empty [OF col] .
  have w1: "writes c1 = writes c" using collect_writes [OF col] by simp
  obtain e c' where d: "client_delete_gateway c1 g = (e, c')"
    by (cases "client_delete_gateway c1 g")
  show "new_writes c (snd (updateGatewayListeners c g gns))
          = [DeleteGateway (gw_namespace g) (gw_name g)]"
    using eq d delete_gateway_writes [OF d] w1 by (simp add: new_writes_def)
  show "\<not> has_gateway (snd (updateGatewayListeners c g gns)) (gw_namespace g) (gw_name g)"
    if "fst (updateGatewayListeners c g gns) = None"
    using that eq d delete_gateway_gone [of c1 g c'] by simp
  show "fst (updateGatewayListeners c g gns) = None"
    if "script c1 = [] \<and> has_gateway c1 (gw_namespace g) (gw_name g)"
    using that eq delete_gateway_quiet [of c1 g] by simp
next
  assume a: "parseGatewayRef [] ref = (ons, on) \<and> ons \<noteq> [] \<and> on \<noteq> []
        \<and> client_get_gateway c ons on = (Inr og, c2)
        \<and> collectListenersForGateway c2 on ons = (Inr [], c3)"
  then have get: "client_get_gateway c ons on = (Inr og, c2)" by simp
  have key: "gw_name og = on" "gw_namespace og = ons"
    using get_gateway_found [OF get] by (auto simp: find_Some_iff is_gateway_def)
  have col: "collectListenersForGateway c2 (gw_name og) ons = (Inr [], c3)"
    using a key by simp
  have eq: "updateOldGateway c ref = client_delete_gateway c3 og"
    using updateOldGateway_wellformed [of ref ons on c og c2] a
          updateGatewayListeners_empty [OF col] by simp
  have w: "writes c3 = writes c"
    using collect_writes [OF col] get_gateway_writes [OF get] by simp
  obtain e c' where d: "client_delete_gateway c3 og = (e, c')"
    by (cases "client_delete_gateway c3 og")
  show "new_writes c (snd (updateOldGateway c ref)) = [DeleteGateway ons on]"
    using eq d delete_gateway_writes [OF d] w key by (simp add: new_writes_def)
  show "\<not> has_gateway (snd (updateOldGateway c ref)) ons on"
    if "fst (updateOldGateway c ref) = None"
    using that eq d delete_gateway_gone [of c3 og c'] key by simp
  show "fst (updateOldGateway c ref) = None" if "script c3 = [] \<and> has_gateway c3 ons on"
    using that eq delete_gateway_quiet [of c3 og] key by simp
next
  fix p
  assume "PatchGateway p \<in> set (new_writes c (snd (updateGatewayListeners c g gns)))"
  then show "gw_listeners p \<noteq> []"
    using updateGatewayListeners_new_writes [of c g gns] by (auto simp: listenerPatch_def)
next
  fix p
  assume "PatchGateway p \<in> set (new_writes c (snd (updateOldGateway c ref)))"
  then show "gw_listeners p \<noteq> []"
    using updateOldGateway_new_writes [of c ref] by auto
qed

text \<open>
  The only route of \<open>infra/g\<close> is being deleted: both paths delete the gateway. With
  \<open>home_route\<close> instead, the apply carries two listeners.
\<close>

theorem C3_no_listener_left_deletes_gateway_witness:
  "new_writes (quiet_cluster [leaving_route] [zoned_gateway])
      (snd (updateGatewayListeners (quiet_cluster [leaving_route] [zoned_gateway]) zoned_gateway ''infra''))
     = [DeleteGateway ''infra'' ''g'']
   \<and> \<not> has_gateway
        (snd (updateGatewayListeners (quiet_cluster [leaving_route] [zoned_gateway]) zoned_gateway ''infra''))
        ''infra'' ''g''
   \<and> new_writes (quiet_cluster [leaving_route] [zoned_gateway])
      (snd (updateOldGateway (quiet_cluster [leaving_route] [zoned_gateway]) ''infra/g''))
     = [DeleteGateway ''infra'' ''g'']
   \<and> \<not> has_gateway
        (snd (updateOldGateway (quiet_cluster [leaving_route] [zoned_gateway]) ''infra/g''))
        ''infra'' ''g''
   \<and> PatchGateway (listenerPatch ''g'' ''infra'' ''eg''
         [createHTTPSListener ''late.example.com'' ''infra'',
          createHTTPSListener ''b.example.com'' ''infra''])
       \<in> set (new_writes (quiet_cluster [home_route] [zoned_gateway])
                (snd (updateGatewayListeners (quiet_cluster [home_route] [zoned_gateway])
                        zoned_gateway ''infra'')))
   \<and> PatchGateway (listenerPatch ''g'' ''infra'' ''eg''
         [createHTTPSListener ''late.example.com'' ''infra'',
          createHTTPSListener ''b.example.com'' ''infra''])
       \<in> set (new_writes (quiet_cluster [home_route] [zoned_gateway])
                (snd (updateOldGateway (quiet_cluster [home_route] [zoned_gateway]) ''infra/g'')))
   \<and> gw_listeners (listenerPatch ''g'' ''infra'' ''eg''
         [createHTTPSListener ''late.example.com'' ''infra'',
          createHTTPSListener ''b.example.com'' ''infra'']) \<noteq> []"
proof -
  let ?W = "quiet_cluster [leaving_route] [zoned_gateway]"
  let ?V = "quiet_cluster [home_route] [zoned_gateway]"
  let ?p = "listenerPatch ''g'' ''infra'' ''eg''
         [createHTTPSListener ''late.example.com'' ''infra'',
          createHTTPSListener ''b.example.com'' ''infra'']"
  have q: "script ?W = []" "script ?V = []" by (simp_all add: quiet_cluster_def)
  have nm: "gw_name zoned_gateway = ''g''" "gw_namespace zoned_gateway = ''infra''"
           "gw_className zoned_gateway = ''eg''"
    by (simp_all add: zoned_gateway_def)
  have hg: "has_gateway ?W ''infra'' ''g''" "has_gateway ?V ''infra'' ''g''"
    by (simp_all add: has_gateway_def quiet_cluster_def is_gateway_def zoned_gateway_def)
  have agg: "aggregate (routes ?W) ''g'' ''infra'' = []"
    by (simp add: aggregate_def quiet_cluster_def leaving_route_def IsZero_def)
  have col: "collectListenersForGateway ?W (gw_name zoned_gateway) ''infra'' = (Inr [], ?W)"
    using collect_quiet [OF q(1), of "''g''" "''infra''"] agg nm by simp
  have pr: "parseGatewayRef [] ''infra/g'' = (''infra'', ''g'')" by simp
  have get: "client_get_gateway ?W ''infra'' ''g'' = (Inr zoned_gateway, ?W)"
    using get_gateway_quiet [OF q(1), of "''infra''" "''g''"]
    by (simp add: quiet_cluster_def is_gateway_def zoned_gateway_def)
  have aggV: "aggregate (routes ?V) ''g'' ''infra'' =
         [createHTTPSListener ''late.example.com'' ''infra'',
          createHTTPSListener ''b.example.com'' ''infra'']"
    by (simp add: aggregate_def quiet_cluster_def home_route_def IsZero_def lookup_def)
  have "writes (snd (updateGatewayListeners ?V zoned_gateway ''infra'')) = writes ?V @ [PatchGateway ?p]"
    using updateGatewayListeners_quiet [OF q(2), of "''infra''" zoned_gateway] hg(2) nm aggV
    by simp
  then have mem: "PatchGateway ?p \<in> set (new_writes ?V (snd (updateGatewayListeners ?V zoned_gateway ''infra'')))"
    by (simp add: new_writes_def)
  note T = C3_no_listener_left_deletes_gateway
             [where c = "?W" and g = zoned_gateway and gns = "''infra''" and ?c1.0 = "?W"
                and ref = "''infra/g''" and ons = "''infra''" and on = "''g''"
                and og = zoned_gateway and ?c2.0 = "?W" and ?c3.0 = "?W"]
  have getV: "client_get_gateway ?V ''infra'' ''g'' = (Inr zoned_gateway, ?V)"
    using get_gateway_quiet [OF q(2), of "''infra''" "''g''"]
    by (simp add: quiet_cluster_def is_gateway_def zoned_gateway_def)
  have "updateOldGateway ?V ''infra/g'' = updateGatewayListeners ?V zoned_gateway ''infra''"
    using updateOldGateway_wellformed [OF pr _ _ getV] by simp
  then have mem': "PatchGateway ?p \<in> set (new_writes ?V (snd (updateOldGateway ?V ''infra/g'')))"
    using mem by simp
  note U = C3_no_listener_left_deletes_gateway
             [where c = "?V" and g = zoned_gateway and gns = "''infra''" and ref = "''infra/g''"]
  have "gw_listeners ?p \<noteq> []" using U mem by blast
  moreover have "gw_listeners ?p \<noteq> []" using U mem' by blast
  moreover note mem mem'
  moreover have "new_writes ?W (snd (updateGatewayListeners ?W zoned_gateway ''infra''))
     = [DeleteGateway ''infra'' ''g'']
   \<and> \<not> has_gateway (snd (updateGatewayListeners ?W zoned_gateway ''infra'')) ''infra'' ''g''"
    using T col q(1) hg(1) nm by simp
  moreover have "new_writes ?W (snd (updateOldGateway ?W ''infra/g'')) = [DeleteGateway ''infra'' ''g'']
   \<and> \<not> has_gateway (snd (updateOldGateway ?W ''infra/g'')) ''infra'' ''g''"
    using T col pr get q(1) hg(1) nm by simp
  ultimately show ?thesis by blast
qed

section \<open>An existing gateway is checked against the route\<close>

lemma recordedZone_None_iff:
  "recordedZone g = None \<longleftrightarrow>
     (gw_infrastructure g = None \<or> gw_infrastructure g = Some None
      \<or> (\<exists>a. gw_infrastructure g = Some (Some a) \<and> a ''ipam.vitistack.io/zone'' = None))"
  by (auto simp: recordedZone_def split: option.splits)

text \<open>
  C2. For a gateway that exists and whose issuer annotation differs from the route's
  issuer, or whose recorded zone differs from the route's zone, ensureGateway returns a
  bad-request error whose message names the attribute (cluster issuer, or IPAM zone)
  and quotes the value of the gateway and the value the route requires; the issuer is
  tested first. It issues no mutating call: routes, gateways and the pending events are
  as the read of the gateway left them, and the stored gateway is the gateway read.
\<close>

theorem C2_mismatch_is_rejected_without_write:
  assumes "client_get_gateway c gns gn = (Inr g, c1)"
      and "lookup (gw_annotations g) clusterIssuerAnnotation \<noteq> iss
           \<or> (recordedZone g \<noteq> None \<and> recordedZone g \<noteq> Some zone)"
  shows "fst (ensureGateway c gn gns zone iss)
           = Some (if lookup (gw_annotations g) clusterIssuerAnnotation \<noteq> iss
                   then BadRequest (''HTTPRoute cluster issuer mismatch: Gateway has issuer ''
                          @ [CHR 0x27] @ lookup (gw_annotations g) clusterIssuerAnnotation
                          @ [CHR 0x27] @ '' but HTTPRoute requires '' @ [CHR 0x27] @ iss @ [CHR 0x27])
                   else BadRequest (''HTTPRoute IPAM zone mismatch: Gateway has zone ''
                          @ [CHR 0x27] @ the (recordedZone g)
                          @ [CHR 0x27] @ '' but HTTPRoute requires '' @ [CHR 0x27] @ zone @ [CHR 0x27]))
         \<and> writes (snd (ensureGateway c gn gns zone iss)) = writes c
         \<and> routes (snd (ensureGateway c gn gns zone iss)) = routes c1
         \<and> gateways (snd (ensureGateway c gn gns zone iss)) = gateways c1
         \<and> script (snd (ensureGateway c gn gns zone iss)) = script c1
         \<and> find (is_gateway gns gn) (gateways (snd (ensureGateway c gn gns zone iss))) = Some g"
  using assms get_gateway_writes [OF assms(1)] get_gateway_found [OF assms(1)]
  by (auto simp: ensureGateway_def logError_def issuerMismatch_def zoneMismatch_def
           split: option.splits)

text \<open>
  An issuer mismatch and a zone mismatch against \<open>zoned_gateway\<close>, with the messages
  the errors carry.
\<close>

theorem C2_mismatch_is_rejected_without_write_witness:
  "fst (ensureGateway (quiet_cluster [home_route] [zoned_gateway]) ''g'' ''infra''
          ''hnet-private'' ''letsencrypt'')
     = Some (BadRequest (''HTTPRoute cluster issuer mismatch: Gateway has issuer ''
               @ [CHR 0x27] @ ''internpki'' @ [CHR 0x27] @ '' but HTTPRoute requires ''
               @ [CHR 0x27] @ ''letsencrypt'' @ [CHR 0x27]))
   \<and> gateways (snd (ensureGateway (quiet_cluster [home_route] [zoned_gateway]) ''g'' ''infra''
          ''hnet-private'' ''letsencrypt'')) = [zoned_gateway]
   \<and> writes (snd (ensureGateway (quiet_cluster [home_route] [zoned_gateway]) ''g'' ''infra''
          ''hnet-private'' ''letsencrypt'')) = []
   \<and> fst (ensureGateway (quiet_cluster [home_route] [zoned_gateway]) ''g'' ''infra''
          ''hnet-public'' ''internpki'')
     = Some (BadRequest (''HTTPRoute IPAM zone mismatch: Gateway has zone ''
               @ [CHR 0x27] @ ''hnet-private'' @ [CHR 0x27] @ '' but HTTPRoute requires ''
               @ [CHR 0x27] @ ''hnet-public'' @ [CHR 0x27]))
   \<and> gateways (snd (ensureGateway (quiet_cluster [home_route] [zoned_gateway]) ''g'' ''infra''
          ''hnet-public'' ''internpki'')) = [zoned_gateway]
   \<and> writes (snd (ensureGateway (quiet_cluster [home_route] [zoned_gateway]) ''g'' ''infra''
          ''hnet-public'' ''internpki'')) = []"
proof -
  let ?Z = "quiet_cluster [home_route] [zoned_gateway]"
  have q: "script ?Z = []" by (simp add: quiet_cluster_def)
  have g: "client_get_gateway ?Z ''infra'' ''g'' = (Inr zoned_gateway, ?Z)"
    using get_gateway_quiet [OF q, of "''infra''" "''g''"]
    by (simp add: quiet_cluster_def is_gateway_def zoned_gateway_def)
  have i: "lookup (gw_annotations zoned_gateway) clusterIssuerAnnotation = ''internpki''"
    by (simp add: zoned_gateway_def lookup_def)
  have z: "recordedZone zoned_gateway = Some ''hnet-private''"
    by (simp add: zoned_gateway_def recordedZone_def)
  have st: "gateways ?Z = [zoned_gateway]" "writes ?Z = []" by (simp_all add: quiet_cluster_def)
  have h1: "lookup (gw_annotations zoned_gateway) clusterIssuerAnnotation \<noteq> ''letsencrypt''
           \<or> (recordedZone zoned_gateway \<noteq> None \<and> recordedZone zoned_gateway \<noteq> Some ''hnet-private'')"
    using i by simp
  have h2: "lookup (gw_annotations zoned_gateway) clusterIssuerAnnotation \<noteq> ''internpki''
           \<or> (recordedZone zoned_gateway \<noteq> None \<and> recordedZone zoned_gateway \<noteq> Some ''hnet-public'')"
    using z by simp
  show ?thesis
    using C2_mismatch_is_rejected_without_write [OF g h1]
          C2_mismatch_is_rejected_without_write [OF g h2] i z st
    by simp
qed

text \<open>
  C9. For a gateway that exists: when it has no infrastructure block, or no
  infrastructure annotation map, or no zone key in that map, and its issuer matches,
  ensureGateway goes on to updateGatewayListeners whatever zone the route asks for. The
  issuer is always compared, a missing issuer annotation read as the empty string: a
  gateway without the annotation is refused for every non-empty issuer.
\<close>

theorem C9_zone_check_one_sided_issuer_check_always:
  assumes "client_get_gateway c gns gn = (Inr g, c1)"
  shows "((gw_infrastructure g = None \<or> gw_infrastructure g = Some None
            \<or> (\<exists>a. gw_infrastructure g = Some (Some a) \<and> a ''ipam.vitistack.io/zone'' = None))
           \<and> lookup (gw_annotations g) clusterIssuerAnnotation = iss
          \<longrightarrow> ensureGateway c gn gns zone iss = updateGatewayListeners c1 g gns)
       \<and> (gw_annotations g clusterIssuerAnnotation = None \<and> iss \<noteq> []
          \<longrightarrow> ensureGateway c gn gns zone iss
                = (Some (issuerMismatch [] iss), logError ''Cluster issuer mismatch'' c1))"
proof (intro conjI impI)
  assume "(gw_infrastructure g = None \<or> gw_infrastructure g = Some None
            \<or> (\<exists>a. gw_infrastructure g = Some (Some a) \<and> a ''ipam.vitistack.io/zone'' = None))
           \<and> lookup (gw_annotations g) clusterIssuerAnnotation = iss"
  then show "ensureGateway c gn gns zone iss = updateGatewayListeners c1 g gns"
    using assms recordedZone_None_iff [of g] by (auto simp: ensureGateway_def)
next
  assume "gw_annotations g clusterIssuerAnnotation = None \<and> iss \<noteq> []"
  then show "ensureGateway c gn gns zone iss
                = (Some (issuerMismatch [] iss), logError ''Cluster issuer mismatch'' c1)"
    using assms by (auto simp: ensureGateway_def lookup_def)
qed

text \<open>
  \<open>bare_gateway\<close> has no infrastructure block and is accepted with any zone, and so
  is it with an infrastructure block without annotations, or with annotations without
  the zone key; \<open>unlabelled_gateway\<close> has no issuer annotation and is refused.
\<close>

theorem C9_zone_check_one_sided_issuer_check_always_witness:
  "ensureGateway (quiet_cluster [home_route] [bare_gateway]) ''g'' ''infra'' ''any-zone'' ''internpki''
     = updateGatewayListeners (quiet_cluster [home_route] [bare_gateway]) bare_gateway ''infra''
   \<and> ensureGateway (quiet_cluster [home_route] [bare_gateway\<lparr>gw_infrastructure := Some None\<rparr>])
        ''g'' ''infra'' ''any-zone'' ''internpki''
     = updateGatewayListeners
         (quiet_cluster [home_route] [bare_gateway\<lparr>gw_infrastructure := Some None\<rparr>])
         (bare_gateway\<lparr>gw_infrastructure := Some None\<rparr>) ''infra''
   \<and> ensureGateway
        (quiet_cluster [home_route] [bare_gateway\<lparr>gw_infrastructure := Some (Some Map.empty)\<rparr>])
        ''g'' ''infra'' ''any-zone'' ''internpki''
     = updateGatewayListeners
         (quiet_cluster [home_route] [bare_gateway\<lparr>gw_infrastructure := Some (Some Map.empty)\<rparr>])
         (bare_gateway\<lparr>gw_infrastructure := Some (Some Map.empty)\<rparr>) ''infra''
   \<and> ensureGateway (quiet_cluster [home_route] [unlabelled_gateway]) ''g'' ''infra''
        ''hnet-private'' ''internpki''
     = (Some (issuerMismatch [] ''internpki''),
        logError ''Cluster issuer mismatch'' (quiet_cluster [home_route] [unlabelled_gateway]))"
proof -
  let ?A = "quiet_cluster [home_route] [bare_gateway]"
  let ?B = "quiet_cluster [home_route] [unlabelled_gateway]"
  have q: "script ?A = []" "script ?B = []" by (simp_all add: quiet_cluster_def)
  have ga: "client_get_gateway ?A ''infra'' ''g'' = (Inr bare_gateway, ?A)"
    using get_gateway_quiet [OF q(1), of "''infra''" "''g''"]
    by (simp add: quiet_cluster_def is_gateway_def bare_gateway_def)
  have gb: "client_get_gateway ?B ''infra'' ''g'' = (Inr unlabelled_gateway, ?B)"
    using get_gateway_quiet [OF q(2), of "''infra''" "''g''"]
    by (simp add: quiet_cluster_def is_gateway_def unlabelled_gateway_def)
  have a: "gw_infrastructure bare_gateway = None"
          "lookup (gw_annotations bare_gateway) clusterIssuerAnnotation = ''internpki''"
    by (simp_all add: bare_gateway_def lookup_def)
  have b: "gw_annotations unlabelled_gateway clusterIssuerAnnotation = None"
    by (simp add: unlabelled_gateway_def)
  let ?n = "bare_gateway\<lparr>gw_infrastructure := Some None\<rparr>"
  let ?e = "bare_gateway\<lparr>gw_infrastructure := Some (Some Map.empty)\<rparr>"
  have gn: "client_get_gateway (quiet_cluster [home_route] [?n]) ''infra'' ''g''
              = (Inr ?n, quiet_cluster [home_route] [?n])"
    by (simp add: client_get_gateway_def serve_def quiet_cluster_def is_gateway_def bare_gateway_def)
  have ge: "client_get_gateway (quiet_cluster [home_route] [?e]) ''infra'' ''g''
              = (Inr ?e, quiet_cluster [home_route] [?e])"
    by (simp add: client_get_gateway_def serve_def quiet_cluster_def is_gateway_def bare_gateway_def)
  have n: "gw_infrastructure ?n = Some None"
          "lookup (gw_annotations ?n) clusterIssuerAnnotation = ''internpki''"
    by (simp_all add: bare_gateway_def lookup_def)
  have e: "\<exists>a. gw_infrastructure ?e = Some (Some a) \<and> a ''ipam.vitistack.io/zone'' = None"
          "lookup (gw_annotations ?e) clusterIssuerAnnotation = ''internpki''"
    by (simp_all add: bare_gateway_def lookup_def)
  have one: "ensureGateway ?A ''g'' ''infra'' ''any-zone'' ''internpki''
               = updateGatewayListeners ?A bare_gateway ''infra''"
    using C9_zone_check_one_sided_issuer_check_always [OF ga, of "''internpki''" "''any-zone''"] a
    by blast
  have two: "ensureGateway (quiet_cluster [home_route] [?n]) ''g'' ''infra'' ''any-zone'' ''internpki''
               = updateGatewayListeners (quiet_cluster [home_route] [?n]) ?n ''infra''"
    using C9_zone_check_one_sided_issuer_check_always [OF gn, of "''internpki''" "''any-zone''"] n
    by blast
  have three: "ensureGateway (quiet_cluster [home_route] [?e]) ''g'' ''infra'' ''any-zone'' ''internpki''
               = updateGatewayListeners (quiet_cluster [home_route] [?e]) ?e ''infra''"
    using C9_zone_check_one_sided_issuer_check_always [OF ge, of "''internpki''" "''any-zone''"] e
    by blast
  have four: "ensureGateway ?B ''g'' ''infra'' ''hnet-private'' ''internpki''
               = (Some (issuerMismatch [] ''internpki''), logError ''Cluster issuer mismatch'' ?B)"
    using C9_zone_check_one_sided_issuer_check_always [OF gb, of "''internpki''" "''hnet-private''"] b
    by simp
  show ?thesis using one two three four by blast
qed

section \<open>The enabled check comes first\<close>

text \<open>
  C10. When the route that Reconcile reads does not carry the enabled annotation with
  the exact value \<open>true\<close>, Reconcile returns success at once: the state is the one the
  read left, no mutating call is issued and the stored route is the route read, also
  when its deletion timestamp is set and it holds the finalizer. So the finalizer of a
  route that was disabled before it was deleted stays, and its gateway is not
  synchronised.
\<close>

theorem C10_disabled_route_returns_before_deletion_branch:
  assumes "client_get_route c ns n = (Inr r, c1)"
      and "lookup (rt_annotations r) AnnotationUseHttprouteOperator \<noteq> ''true''"
  shows "Reconcile c ns n = (None, c1)
         \<and> writes c1 = writes c
         \<and> find (is_route ns n) (routes c1) = Some r"
  using assms get_route_writes [OF assms(1)] get_route_found [OF assms(1)]
  by (simp add: Reconcile_def)

text \<open>A disabled route that is being deleted and holds the finalizer.\<close>

theorem C10_disabled_route_returns_before_deletion_branch_witness:
  "Reconcile (quiet_cluster [disabled_leaving_route] []) ''infra'' ''r6''
     = (None, quiet_cluster [disabled_leaving_route] [])
   \<and> \<not> IsZero (rt_deletionTimestamp disabled_leaving_route)
   \<and> ContainsFinalizer disabled_leaving_route httprouteFinalizerName"
proof -
  have g: "client_get_route (quiet_cluster [disabled_leaving_route] []) ''infra'' ''r6''
             = (Inr disabled_leaving_route, quiet_cluster [disabled_leaving_route] [])"
    by (simp add: client_get_route_def serve_def quiet_cluster_def is_route_def
          disabled_leaving_route_def)
  have d: "lookup (rt_annotations disabled_leaving_route) AnnotationUseHttprouteOperator \<noteq> ''true''"
    by (simp add: disabled_leaving_route_def lookup_def)
  have "\<not> IsZero (rt_deletionTimestamp disabled_leaving_route)"
    by (simp add: disabled_leaving_route_def IsZero_def)
  moreover have "ContainsFinalizer disabled_leaving_route httprouteFinalizerName"
    by (simp add: disabled_leaving_route_def ContainsFinalizer_def)
  ultimately show ?thesis
    using C10_disabled_route_returns_before_deletion_branch [OF g d] by simp
qed

section \<open>Creating the gateway\<close>

lemma ensureGateway_absent_quiet:
  assumes "script c = []" and "\<not> has_gateway c gns gn"
  shows "ensureGateway c gn gns zone iss =
           (None, c\<lparr>gateways := gateways c @ [newGateway gn gns zone iss (aggregate (routes c) gn gns)],
                     writes := writes c @ [CreateGateway (newGateway gn gns zone iss
                                  (aggregate (routes c) gn gns))]\<rparr>)"
proof -
  have g: "client_get_gateway c gns gn = (Inl NotFound, c)"
    using assms get_gateway_quiet [OF assms(1), of gns gn] find_None_has_gateway [of gns gn c]
    by simp
  have "\<not> has_gateway c (gw_namespace (newGateway gn gns zone iss (aggregate (routes c) gn gns)))
            (gw_name (newGateway gn gns zone iss (aggregate (routes c) gn gns)))"
    using assms(2) by (simp add: newGateway_def)
  from create_gateway_quiet [OF assms(1) this] g show ?thesis
    by (simp add: ensureGateway_def IsNotFound_def createGateway_def collect_quiet [OF assms(1)]
          newGateway_def Let_def)
qed

lemma ensureGateway_absent_writes:
  assumes "client_get_gateway c gns gn = (Inl NotFound, c1)"
      and "collectListenersForGateway c1 gn gns = (Inr ls, c2)"
  shows "new_writes c (snd (ensureGateway c gn gns zone iss))
           = [CreateGateway (newGateway gn gns zone iss ls)]
         \<and> fst (ensureGateway c gn gns zone iss)
           = fst (client_create_gateway c2 (newGateway gn gns zone iss ls))"
proof -
  have w: "writes c2 = writes c"
    using get_gateway_writes [OF assms(1)] collect_writes [OF assms(2)] by simp
  obtain e c3 where cr: "client_create_gateway c2 (newGateway gn gns zone iss ls) = (e, c3)"
    by (cases "client_create_gateway c2 (newGateway gn gns zone iss ls)")
  have w3: "writes c3 = writes c @ [CreateGateway (newGateway gn gns zone iss ls)]"
    using create_gateway_writes [OF cr] w by simp
  have "ensureGateway c gn gns zone iss
          = (case e of Some err \<Rightarrow> (Some err, logError ''Failed to create Gateway'' c3)
                     | None \<Rightarrow> (None, c3))"
    using assms cr
    by (simp add: ensureGateway_def IsNotFound_def createGateway_def newGateway_def Let_def
             split: option.splits)
  then show ?thesis
    using w3 cr by (cases e) (simp_all add: new_writes_def logError_def)
qed

lemma effective_bookkeeping:
  "effectiveZone (bookkeeping anns ref) = effectiveZone anns"
  "effectiveIssuer (bookkeeping anns ref) = effectiveIssuer anns"
  by (simp_all add: bookkeeping_def effectiveZone_def effectiveIssuer_def lookup_def Let_def key_defs)

lemma bookkeeping_settled:
  "anns reconcileAnnotationKey \<noteq> None \<Longrightarrow> lookup anns previousGatewayAnnotationKey = ref \<Longrightarrow>
     bookkeeping anns ref = anns"
  by (auto simp: bookkeeping_def)

lemma bookkeeping_changes:
  "(anns reconcileAnnotationKey = None
     \<or> lookup (if anns reconcileAnnotationKey = None
                then anns(reconcileAnnotationKey \<mapsto> ''true'') else anns)
          previousGatewayAnnotationKey \<noteq> ref)
   \<longleftrightarrow> bookkeeping anns ref \<noteq> anns"
proof -
  let ?a1 = "if anns reconcileAnnotationKey = None
             then anns(reconcileAnnotationKey \<mapsto> ''true'') else anns"
  have b: "bookkeeping anns ref =
             (if lookup ?a1 previousGatewayAnnotationKey \<noteq> ref
              then ?a1(previousGatewayAnnotationKey \<mapsto> ref) else ?a1)"
    by (simp add: bookkeeping_def Let_def)
  have k: "reconcileAnnotationKey \<noteq> previousGatewayAnnotationKey" by (simp add: key_defs)
  show ?thesis
  proof
    assume "anns reconcileAnnotationKey = None \<or> lookup ?a1 previousGatewayAnnotationKey \<noteq> ref"
    then show "bookkeeping anns ref \<noteq> anns"
    proof
      assume m: "anns reconcileAnnotationKey = None"
      have "bookkeeping anns ref reconcileAnnotationKey = Some ''true''"
        unfolding b using m k by simp
      then show ?thesis using m by auto
    next
      assume m: "lookup ?a1 previousGatewayAnnotationKey \<noteq> ref"
      have "bookkeeping anns ref previousGatewayAnnotationKey = Some ref"
        unfolding b using m by simp
      moreover have "anns previousGatewayAnnotationKey \<noteq> Some ref"
        using m k by (auto simp: lookup_def split: if_splits)
      ultimately show ?thesis by auto
    qed
  next
    assume "bookkeeping anns ref \<noteq> anns"
    then show "anns reconcileAnnotationKey = None \<or> lookup ?a1 previousGatewayAnnotationKey \<noteq> ref"
      unfolding b by (auto split: if_splits)
  qed
qed

lemma reconcileSteady_eq:
  assumes "httprouteFinalizerName \<in> set (rt_finalizers r)"
      and "ref = gns @ ''/'' @ gn"
  shows "reconcileSteady c r ns n gn gns =
     (case (if bookkeeping (rt_annotations r) ref \<noteq> rt_annotations r
            then client_patch_route c (rt_namespace r) (rt_name r)
                   (bookkeeping (rt_annotations r) ref)
            else (None, c)) of
        (Some err, c1) \<Rightarrow> (Some err, logError ''Failed to update HTTPRoute annotations'' c1)
      | (None, c1) \<Rightarrow>
          (case ensureGateway c1 gn gns (effectiveZone (rt_annotations r))
                  (effectiveIssuer (rt_annotations r)) of
             (Some err, c2) \<Rightarrow> (Some err, logError ''Failed to ensure Gateway'' c2)
           | (None, c2) \<Rightarrow> (None, c2)))"
proof -
  let ?a = "rt_annotations r"
  let ?ref = ref
  have r': "gns @ CHR ''/'' # gn = ref" using assms(2) by simp
  note e = effective_bookkeeping [of ?a ?ref]
  note n = bookkeeping_changes [of ?a ?ref]
  have fin: "ContainsFinalizer r httprouteFinalizerName"
    using assms by (simp add: ContainsFinalizer_def)
  show ?thesis
  proof (cases "?a reconcileAnnotationKey = None")
    case True
    have ne: "bookkeeping ?a ?ref \<noteq> ?a" using n True by simp
    show ?thesis
    proof (cases "lookup (?a(reconcileAnnotationKey \<mapsto> ''true'')) previousGatewayAnnotationKey \<noteq> ?ref")
      case T2: True
      have bk: "?a(reconcileAnnotationKey \<mapsto> ''true'', previousGatewayAnnotationKey \<mapsto> ?ref)
                  = bookkeeping ?a ?ref"
        using True T2 by (simp add: bookkeeping_def Let_def)
      have "reconcileSteady c r ns n gn gns =
        (case client_patch_route c (rt_namespace r) (rt_name r)
                (?a(reconcileAnnotationKey \<mapsto> ''true'', previousGatewayAnnotationKey \<mapsto> ?ref)) of
           (Some err, c1) \<Rightarrow> (Some err, logError ''Failed to update HTTPRoute annotations'' c1)
         | (None, c1) \<Rightarrow>
            (case ensureGateway c1 gn gns
                (effectiveZone (?a(reconcileAnnotationKey \<mapsto> ''true'', previousGatewayAnnotationKey \<mapsto> ?ref)))
                (effectiveIssuer (?a(reconcileAnnotationKey \<mapsto> ''true'', previousGatewayAnnotationKey \<mapsto> ?ref))) of
               (Some err, c2) \<Rightarrow> (Some err, logError ''Failed to ensure Gateway'' c2)
             | (None, c2) \<Rightarrow> (None, c2)))"
        using fin True T2 by (simp add: reconcileSteady_def Let_def r')
      then show ?thesis unfolding bk e using ne by simp
    next
      case F2: False
      have bk: "?a(reconcileAnnotationKey \<mapsto> ''true'') = bookkeeping ?a ?ref"
        using True F2 by (simp add: bookkeeping_def Let_def)
      have "reconcileSteady c r ns n gn gns =
        (case client_patch_route c (rt_namespace r) (rt_name r)
                (?a(reconcileAnnotationKey \<mapsto> ''true'')) of
           (Some err, c1) \<Rightarrow> (Some err, logError ''Failed to update HTTPRoute annotations'' c1)
         | (None, c1) \<Rightarrow>
            (case ensureGateway c1 gn gns
                (effectiveZone (?a(reconcileAnnotationKey \<mapsto> ''true'')))
                (effectiveIssuer (?a(reconcileAnnotationKey \<mapsto> ''true''))) of
               (Some err, c2) \<Rightarrow> (Some err, logError ''Failed to ensure Gateway'' c2)
             | (None, c2) \<Rightarrow> (None, c2)))"
        using fin True F2 by (simp add: reconcileSteady_def Let_def r')
      then show ?thesis unfolding bk e using ne by simp
    qed
  next
    case False
    then obtain v where v: "?a reconcileAnnotationKey = Some v" by auto
    show ?thesis
    proof (cases "lookup ?a previousGatewayAnnotationKey \<noteq> ?ref")
      case T2: True
      have ne: "bookkeeping ?a ?ref \<noteq> ?a" using n v T2 by simp
      have bk: "?a(previousGatewayAnnotationKey \<mapsto> ?ref) = bookkeeping ?a ?ref"
        using v T2 by (simp add: bookkeeping_def Let_def)
      have "reconcileSteady c r ns n gn gns =
        (case client_patch_route c (rt_namespace r) (rt_name r)
                (?a(previousGatewayAnnotationKey \<mapsto> ?ref)) of
           (Some err, c1) \<Rightarrow> (Some err, logError ''Failed to update HTTPRoute annotations'' c1)
         | (None, c1) \<Rightarrow>
            (case ensureGateway c1 gn gns
                (effectiveZone (?a(previousGatewayAnnotationKey \<mapsto> ?ref)))
                (effectiveIssuer (?a(previousGatewayAnnotationKey \<mapsto> ?ref))) of
               (Some err, c2) \<Rightarrow> (Some err, logError ''Failed to ensure Gateway'' c2)
             | (None, c2) \<Rightarrow> (None, c2)))"
        using fin v T2 by (simp add: reconcileSteady_def Let_def r')
      then show ?thesis unfolding bk e using ne by simp
    next
      case F2: False
      have eq: "bookkeeping ?a ?ref = ?a" using n v F2 by simp
      have "reconcileSteady c r ns n gn gns =
            (case ensureGateway c gn gns (effectiveZone ?a) (effectiveIssuer ?a) of
               (Some err, c2) \<Rightarrow> (Some err, logError ''Failed to ensure Gateway'' c2)
             | (None, c2) \<Rightarrow> (None, c2))"
        using fin v F2 by (simp add: reconcileSteady_def Let_def r')
      then show ?thesis using eq by simp
    qed
  qed
qed

lemma Reconcile_steady_path:
  assumes "client_get_route c ns n = (Inr r, c1)"
      and "active r"
      and "rt_parentRefs r = p # ps"
  shows "Reconcile c ns n =
           reconcileSteady (afterMigration c1 r p) r ns n (pr_name p) (refNamespace r p)"
  using assms
  by (simp add: Reconcile_def active_def afterMigration_def refNamespace_def Let_def)

lemma afterMigration_quiet:
  assumes "script c = []"
  shows "script (afterMigration c r p) = [] \<and> routes (afterMigration c r p) = routes c
         \<and> (\<forall>ns n. has_gateway (afterMigration c r p) ns n \<longrightarrow> has_gateway c ns n)"
proof -
  obtain c' where "updateOldGateway c (lookup (rt_annotations r) previousGatewayAnnotationKey) = (None, c')"
     "script c' = []" "routes c' = routes c" "\<forall>ns n. has_gateway c' ns n \<longrightarrow> has_gateway c ns n"
    using updateOldGateway_quiet [OF assms] by blast
  then show ?thesis using assms by (simp add: afterMigration_def)
qed

lemma afterMigration_settled:
  "lookup (rt_annotations r) previousGatewayAnnotationKey = refNamespace r p @ ''/'' @ pr_name p
     \<Longrightarrow> afterMigration c r p = c"
  by (simp add: afterMigration_def)

lemma reconcileSteady_creates:
  assumes "script c = []"
      and "httprouteFinalizerName \<in> set (rt_finalizers r)"
      and "\<not> has_gateway c gns gn"
  shows "\<exists>c'. reconcileSteady c r ns n gn gns = (None, c')
           \<and> script c' = []
           \<and> find (is_gateway gns gn) (gateways c')
               = Some (newGateway gn gns (effectiveZone (rt_annotations r))
                         (effectiveIssuer (rt_annotations r)) (aggregate (routes c') gn gns))
           \<and> last (writes c')
               = CreateGateway (newGateway gn gns (effectiveZone (rt_annotations r))
                         (effectiveIssuer (rt_annotations r)) (aggregate (routes c') gn gns))
           \<and> errlog c' = errlog c"
proof -
  define ref where "ref = gns @ ''/'' @ gn"
  define zone where "zone = effectiveZone (rt_annotations r)"
  define iss where "iss = effectiveIssuer (rt_annotations r)"
  obtain c1 where c1: "(if bookkeeping (rt_annotations r) ref \<noteq> rt_annotations r
            then client_patch_route c (rt_namespace r) (rt_name r) (bookkeeping (rt_annotations r) ref)
            else (None, c)) = (None, c1)"
      and q1: "script c1 = []" and g1: "gateways c1 = gateways c" and e1: "errlog c1 = errlog c"
    using patch_route_quiet [OF assms(1)] assms(1) by (cases "bookkeeping (rt_annotations r) ref \<noteq> rt_annotations r") auto
  have ng: "\<not> has_gateway c1 gns gn" using assms(3) g1 by (simp add: has_gateway_def)
  define G where "G = newGateway gn gns zone iss (aggregate (routes c1) gn gns)"
  define c' where "c' = c1\<lparr>gateways := gateways c1 @ [G], writes := writes c1 @ [CreateGateway G]\<rparr>"
  have en: "ensureGateway c1 gn gns zone iss = (None, c')"
    unfolding c'_def G_def by (rule ensureGateway_absent_quiet [OF q1 ng])
  have run: "reconcileSteady c r ns n gn gns = (None, c')"
    using reconcileSteady_eq [OF assms(2) ref_def, of c ns n] c1 en
    unfolding zone_def iss_def by simp
  have f: "find (is_gateway gns gn) (gateways c') = Some G"
    unfolding c'_def using ng
    by (simp add: find_append_new find_None_has_gateway is_gateway_def G_def newGateway_def)
  have "routes c' = routes c1" "script c' = []" "last (writes c') = CreateGateway G"
       "errlog c' = errlog c"
    unfolding c'_def using q1 e1 by simp_all
  then show ?thesis
    using run f unfolding G_def zone_def iss_def by auto
qed

lemma aggregate_distinct: "distinct (aggregate rs gn gns)"
proof -
  have "inj (\<lambda>h. createHTTPSListener h gns)"
    by (rule injI) (simp add: createHTTPSListener_def Let_def)
  then have "inj_on (\<lambda>h. createHTTPSListener h gns) (set (fst (scanRoutes rs gn gns ([], 0, 0))))"
    by (rule inj_on_subset) simp
  then show ?thesis
    unfolding aggregate_def by (simp add: distinct_map scanRoutes_distinct)
qed

lemma newGateway_fields:
  "gw_name (newGateway gn gns zone iss ls) = gn"
  "gw_namespace (newGateway gn gns zone iss ls) = gns"
  "gw_annotations (newGateway gn gns zone iss ls) = [''cert-manager.io/cluster-issuer'' \<mapsto> iss]"
  "gw_className (newGateway gn gns zone iss ls) = ''eg''"
  "gw_listeners (newGateway gn gns zone iss ls) = ls"
  "gw_infrastructure (newGateway gn gns zone iss ls)
     = Some (Some [''ipam.vitistack.io/zone'' \<mapsto> zone])"
  by (simp_all add: newGateway_def clusterIssuerAnnotation_def gatewayClassName_def)

lemma effective_declared:
  "effectiveIssuer anns =
     (case anns ''gatewayapi-operator.vitistack.io/cluster-issuer'' of
        None \<Rightarrow> ''internpki''
      | Some v \<Rightarrow> if v = [] then ''internpki'' else v)"
  "effectiveZone anns =
     (case anns ''ipam.vitistack.io/zone'' of
        None \<Rightarrow> ''hnet-private''
      | Some v \<Rightarrow> if v = [] then ''hnet-private'' else v)"
  by (simp_all add: effectiveIssuer_def effectiveZone_def lookup_def Let_def
        AnnotationClusterIssuer_def AnnotationIPAMZone_def defaultClusterIssuer_def
        defaultIPAMZone_def split: option.splits)

text \<open>
  C5. When the read of the gateway says that it does not exist and the aggregation
  returns listeners, the only write of ensureGateway is the creation of a gateway of
  class \<open>eg\<close> that carries the issuer it was given under the annotation
  \<open>cert-manager.io/cluster-issuer\<close>, the zone it was given under the key
  \<open>ipam.vitistack.io/zone\<close> of the infrastructure annotations, and the listeners the
  aggregation returned; its result is the result of that creation. Nothing is compared
  on this path, whatever the world does and whatever zone and issuer are asked for. In a
  quiet world, when Reconcile reaches the gateway step for a route (enabled, not being
  deleted, finalizer in place) and the gateway of its first parent reference does not
  exist, the run succeeds, its last write creates that gateway and the store holds it
  afterwards. The issuer annotation of the created gateway is the value of the route's
  annotation \<open>gatewayapi-operator.vitistack.io/cluster-issuer\<close>, and \<open>internpki\<close>
  when that annotation is missing or empty; its zone is the value of the route's
  annotation \<open>ipam.vitistack.io/zone\<close>, and \<open>hnet-private\<close> when that is missing or
  empty; its listeners are, each once, the listeners aggregated from the stored routes.
\<close>

theorem C5_absent_gateway_is_created_from_the_route:
  "(client_get_gateway c gns gn = (Inl NotFound, c1)
      \<and> collectListenersForGateway c1 gn gns = (Inr ls, c2)
     \<longrightarrow> new_writes c (snd (ensureGateway c gn gns zone iss))
           = [CreateGateway
                \<lparr>gw_name = gn, gw_namespace = gns,
                 gw_annotations = [''cert-manager.io/cluster-issuer'' \<mapsto> iss],
                 gw_className = ''eg'', gw_listeners = ls,
                 gw_infrastructure = Some (Some [''ipam.vitistack.io/zone'' \<mapsto> zone])\<rparr>]
         \<and> fst (ensureGateway c gn gns zone iss)
           = fst (client_create_gateway c2
                \<lparr>gw_name = gn, gw_namespace = gns,
                 gw_annotations = [''cert-manager.io/cluster-issuer'' \<mapsto> iss],
                 gw_className = ''eg'', gw_listeners = ls,
                 gw_infrastructure = Some (Some [''ipam.vitistack.io/zone'' \<mapsto> zone])\<rparr>))
   \<and> (script c = []
      \<and> find (is_route ns n) (routes c) = Some r
      \<and> active r
      \<and> rt_parentRefs r = p # ps
      \<and> httprouteFinalizerName \<in> set (rt_finalizers r)
      \<and> \<not> has_gateway c (refNamespace r p) (pr_name p)
     \<longrightarrow> (\<exists>c' G. Reconcile c ns n = (None, c')
           \<and> find (is_gateway (refNamespace r p) (pr_name p)) (gateways c') = Some G
           \<and> last (writes c') = CreateGateway G
           \<and> gw_name G = pr_name p
           \<and> gw_namespace G = refNamespace r p
           \<and> gw_annotations G
               = [''cert-manager.io/cluster-issuer'' \<mapsto>
                    (case rt_annotations r ''gatewayapi-operator.vitistack.io/cluster-issuer'' of
                       None \<Rightarrow> ''internpki''
                     | Some v \<Rightarrow> if v = [] then ''internpki'' else v)]
           \<and> gw_infrastructure G
               = Some (Some [''ipam.vitistack.io/zone'' \<mapsto>
                    (case rt_annotations r ''ipam.vitistack.io/zone'' of
                       None \<Rightarrow> ''hnet-private''
                     | Some v \<Rightarrow> if v = [] then ''hnet-private'' else v)])
           \<and> gw_className G = ''eg''
           \<and> distinct (gw_listeners G)
           \<and> set (gw_listeners G)
               = set (aggregate (routes c') (pr_name p) (refNamespace r p))))"
proof (intro conjI impI)
  have lit: "newGateway gn gns zone iss ls
     = \<lparr>gw_name = gn, gw_namespace = gns,
        gw_annotations = [''cert-manager.io/cluster-issuer'' \<mapsto> iss],
        gw_className = ''eg'', gw_listeners = ls,
        gw_infrastructure = Some (Some [''ipam.vitistack.io/zone'' \<mapsto> zone])\<rparr>"
    by (simp add: newGateway_def clusterIssuerAnnotation_def gatewayClassName_def)
  assume "client_get_gateway c gns gn = (Inl NotFound, c1)
      \<and> collectListenersForGateway c1 gn gns = (Inr ls, c2)"
  then show "new_writes c (snd (ensureGateway c gn gns zone iss))
           = [CreateGateway
                \<lparr>gw_name = gn, gw_namespace = gns,
                 gw_annotations = [''cert-manager.io/cluster-issuer'' \<mapsto> iss],
                 gw_className = ''eg'', gw_listeners = ls,
                 gw_infrastructure = Some (Some [''ipam.vitistack.io/zone'' \<mapsto> zone])\<rparr>]"
    and "fst (ensureGateway c gn gns zone iss)
           = fst (client_create_gateway c2
                \<lparr>gw_name = gn, gw_namespace = gns,
                 gw_annotations = [''cert-manager.io/cluster-issuer'' \<mapsto> iss],
                 gw_className = ''eg'', gw_listeners = ls,
                 gw_infrastructure = Some (Some [''ipam.vitistack.io/zone'' \<mapsto> zone])\<rparr>)"
    using ensureGateway_absent_writes [of c gns gn c1 ls c2 zone iss] unfolding lit by simp_all
next
  assume a: "script c = []
      \<and> find (is_route ns n) (routes c) = Some r
      \<and> active r
      \<and> rt_parentRefs r = p # ps
      \<and> httprouteFinalizerName \<in> set (rt_finalizers r)
      \<and> \<not> has_gateway c (refNamespace r p) (pr_name p)"
  then have q: "script c = []" and fin: "httprouteFinalizerName \<in> set (rt_finalizers r)"
    and ac: "active r" and pr: "rt_parentRefs r = p # ps" by simp_all
  have get: "client_get_route c ns n = (Inr r, c)"
    using get_route_quiet [OF q, of ns n] a by simp
  note m = afterMigration_quiet [OF q, of r p]
  have ng: "\<not> has_gateway (afterMigration c r p) (refNamespace r p) (pr_name p)"
    using m a by blast
  obtain c' where run: "Reconcile c ns n = (None, c')"
    and f: "find (is_gateway (refNamespace r p) (pr_name p)) (gateways c')
               = Some (newGateway (pr_name p) (refNamespace r p)
                         (effectiveZone (rt_annotations r)) (effectiveIssuer (rt_annotations r))
                         (aggregate (routes c') (pr_name p) (refNamespace r p)))"
    and w: "last (writes c')
               = CreateGateway (newGateway (pr_name p) (refNamespace r p)
                         (effectiveZone (rt_annotations r)) (effectiveIssuer (rt_annotations r))
                         (aggregate (routes c') (pr_name p) (refNamespace r p)))"
    using reconcileSteady_creates [OF _ fin ng, of ns n] m
    unfolding Reconcile_steady_path [OF get ac pr] by blast
  define G where "G = newGateway (pr_name p) (refNamespace r p)
                         (effectiveZone (rt_annotations r)) (effectiveIssuer (rt_annotations r))
                         (aggregate (routes c') (pr_name p) (refNamespace r p))"
  have "Reconcile c ns n = (None, c')
           \<and> find (is_gateway (refNamespace r p) (pr_name p)) (gateways c') = Some G
           \<and> last (writes c') = CreateGateway G
           \<and> gw_name G = pr_name p
           \<and> gw_namespace G = refNamespace r p
           \<and> gw_annotations G
               = [''cert-manager.io/cluster-issuer'' \<mapsto>
                    (case rt_annotations r ''gatewayapi-operator.vitistack.io/cluster-issuer'' of
                       None \<Rightarrow> ''internpki''
                     | Some v \<Rightarrow> if v = [] then ''internpki'' else v)]
           \<and> gw_infrastructure G
               = Some (Some [''ipam.vitistack.io/zone'' \<mapsto>
                    (case rt_annotations r ''ipam.vitistack.io/zone'' of
                       None \<Rightarrow> ''hnet-private''
                     | Some v \<Rightarrow> if v = [] then ''hnet-private'' else v)])
           \<and> gw_className G = ''eg''
           \<and> distinct (gw_listeners G)
           \<and> set (gw_listeners G)
               = set (aggregate (routes c') (pr_name p) (refNamespace r p))"
    using run f w unfolding G_def newGateway_fields
    by (simp add: effective_declared [symmetric] aggregate_distinct)
  then show "\<exists>c' G. Reconcile c ns n = (None, c')
           \<and> find (is_gateway (refNamespace r p) (pr_name p)) (gateways c') = Some G
           \<and> last (writes c') = CreateGateway G
           \<and> gw_name G = pr_name p
           \<and> gw_namespace G = refNamespace r p
           \<and> gw_annotations G
               = [''cert-manager.io/cluster-issuer'' \<mapsto>
                    (case rt_annotations r ''gatewayapi-operator.vitistack.io/cluster-issuer'' of
                       None \<Rightarrow> ''internpki''
                     | Some v \<Rightarrow> if v = [] then ''internpki'' else v)]
           \<and> gw_infrastructure G
               = Some (Some [''ipam.vitistack.io/zone'' \<mapsto>
                    (case rt_annotations r ''ipam.vitistack.io/zone'' of
                       None \<Rightarrow> ''hnet-private''
                     | Some v \<Rightarrow> if v = [] then ''hnet-private'' else v)])
           \<and> gw_className G = ''eg''
           \<and> distinct (gw_listeners G)
           \<and> set (gw_listeners G)
               = set (aggregate (routes c') (pr_name p) (refNamespace r p))"
    by blast
qed

lemma fresh_facts:
    "script fresh_cluster = []"
    "find (is_route ''infra'' ''r10'') (routes fresh_cluster) = Some fresh_route"
    "active fresh_route"
    "rt_parentRefs fresh_route = \<lparr>pr_name = ''g'', pr_namespace = None\<rparr> # []"
    "httprouteFinalizerName \<in> set (rt_finalizers fresh_route)"
    "\<not> has_gateway fresh_cluster (refNamespace fresh_route \<lparr>pr_name = ''g'', pr_namespace = None\<rparr>)
          (pr_name \<lparr>pr_name = ''g'', pr_namespace = None\<rparr>)"
    "refNamespace fresh_route \<lparr>pr_name = ''g'', pr_namespace = None\<rparr> = ''infra''"
    "rt_annotations fresh_route ''gatewayapi-operator.vitistack.io/cluster-issuer'' = Some ''letsencrypt''"
    "rt_annotations fresh_route ''ipam.vitistack.io/zone'' = None"
    by (simp_all add: fresh_cluster_def quiet_cluster_def fresh_route_def is_route_def
          active_def IsZero_def lookup_def key_defs refNamespace_def has_gateway_def)

lemma public_facts:
    "script public_cluster = []"
    "find (is_route ''infra'' ''r12'') (routes public_cluster) = Some public_route"
    "active public_route"
    "rt_parentRefs public_route = \<lparr>pr_name = ''g'', pr_namespace = Some ''infra''\<rparr> # []"
    "httprouteFinalizerName \<in> set (rt_finalizers public_route)"
    "\<not> has_gateway public_cluster
          (refNamespace public_route \<lparr>pr_name = ''g'', pr_namespace = Some ''infra''\<rparr>)
          (pr_name \<lparr>pr_name = ''g'', pr_namespace = Some ''infra''\<rparr>)"
    "refNamespace public_route \<lparr>pr_name = ''g'', pr_namespace = Some ''infra''\<rparr> = ''infra''"
    "rt_annotations public_route ''gatewayapi-operator.vitistack.io/cluster-issuer'' = None"
    "rt_annotations public_route ''ipam.vitistack.io/zone'' = Some ''hnet-public''"
    by (simp_all add: public_cluster_def quiet_cluster_def public_route_def is_route_def
          active_def IsZero_def lookup_def key_defs refNamespace_def has_gateway_def)

lemma blank_facts:
    "script blank_cluster = []"
    "find (is_route ''infra'' ''r13'') (routes blank_cluster) = Some blank_route"
    "active blank_route"
    "rt_parentRefs blank_route = \<lparr>pr_name = ''g'', pr_namespace = Some ''infra''\<rparr> # []"
    "httprouteFinalizerName \<in> set (rt_finalizers blank_route)"
    "\<not> has_gateway blank_cluster
          (refNamespace blank_route \<lparr>pr_name = ''g'', pr_namespace = Some ''infra''\<rparr>)
          (pr_name \<lparr>pr_name = ''g'', pr_namespace = Some ''infra''\<rparr>)"
    "refNamespace blank_route \<lparr>pr_name = ''g'', pr_namespace = Some ''infra''\<rparr> = ''infra''"
    "rt_annotations blank_route ''gatewayapi-operator.vitistack.io/cluster-issuer'' = Some []"
    "rt_annotations blank_route ''ipam.vitistack.io/zone'' = Some []"
    by (simp_all add: blank_cluster_def quiet_cluster_def blank_route_def is_route_def
          active_def IsZero_def lookup_def key_defs refNamespace_def has_gateway_def)

lemma created_listeners:
  "set (aggregate (routes (snd (Reconcile fresh_cluster ''infra'' ''r10''))) ''g'' ''infra'')
     = {createHTTPSListener ''n.example.com'' ''infra''}"
  "set (aggregate (routes (snd (Reconcile public_cluster ''infra'' ''r12''))) ''g'' ''infra'')
     = {createHTTPSListener ''p.example.com'' ''infra'', createHTTPSListener ''q.example.com'' ''infra''}"
  "set (aggregate (routes (snd (Reconcile blank_cluster ''infra'' ''r13''))) ''g'' ''infra'')
     = {createHTTPSListener ''e.example.com'' ''infra''}"
  by (simp_all add: run_defs fresh_cluster_def public_cluster_def blank_cluster_def
        quiet_cluster_def fresh_route_def public_route_def blank_route_def key_defs
        aggregate_def Let_def insert_commute)

text \<open>
  ensureGateway, asked for any zone and issuer where no gateway exists, creates one.
  \<open>fresh_route\<close> declares the issuer \<open>letsencrypt\<close> and no zone; \<open>public_route\<close>
  declares the zone \<open>hnet-public\<close> and no issuer, and has two hostnames;
  \<open>blank_route\<close> carries both annotations with empty values.
\<close>

theorem C5_absent_gateway_is_created_from_the_route_witness:
  "new_writes fresh_cluster (snd (ensureGateway fresh_cluster ''g'' ''infra'' ''zone-x'' ''issuer-y''))
     = [CreateGateway
          \<lparr>gw_name = ''g'', gw_namespace = ''infra'',
           gw_annotations = [''cert-manager.io/cluster-issuer'' \<mapsto> ''issuer-y''],
           gw_className = ''eg'',
           gw_listeners = [createHTTPSListener ''n.example.com'' ''infra''],
           gw_infrastructure = Some (Some [''ipam.vitistack.io/zone'' \<mapsto> ''zone-x''])\<rparr>]
   \<and> (\<exists>c' G. Reconcile fresh_cluster ''infra'' ''r10'' = (None, c')
         \<and> find (is_gateway ''infra'' ''g'') (gateways c') = Some G
         \<and> last (writes c') = CreateGateway G
         \<and> gw_annotations G = [''cert-manager.io/cluster-issuer'' \<mapsto> ''letsencrypt'']
         \<and> gw_infrastructure G = Some (Some [''ipam.vitistack.io/zone'' \<mapsto> ''hnet-private''])
         \<and> set (gw_listeners G) = {createHTTPSListener ''n.example.com'' ''infra''})
   \<and> (\<exists>c' G. Reconcile public_cluster ''infra'' ''r12'' = (None, c')
         \<and> find (is_gateway ''infra'' ''g'') (gateways c') = Some G
         \<and> last (writes c') = CreateGateway G
         \<and> gw_annotations G = [''cert-manager.io/cluster-issuer'' \<mapsto> ''internpki'']
         \<and> gw_infrastructure G = Some (Some [''ipam.vitistack.io/zone'' \<mapsto> ''hnet-public''])
         \<and> set (gw_listeners G) = {createHTTPSListener ''p.example.com'' ''infra'',
                                     createHTTPSListener ''q.example.com'' ''infra''})
   \<and> (\<exists>c' G. Reconcile blank_cluster ''infra'' ''r13'' = (None, c')
         \<and> find (is_gateway ''infra'' ''g'') (gateways c') = Some G
         \<and> last (writes c') = CreateGateway G
         \<and> gw_annotations G = [''cert-manager.io/cluster-issuer'' \<mapsto> ''internpki'']
         \<and> gw_infrastructure G = Some (Some [''ipam.vitistack.io/zone'' \<mapsto> ''hnet-private''])
         \<and> set (gw_listeners G) = {createHTTPSListener ''e.example.com'' ''infra''})"
proof -
  have g: "client_get_gateway fresh_cluster ''infra'' ''g'' = (Inl NotFound, fresh_cluster)"
    using get_gateway_quiet [OF fresh_facts(1), of "''infra''" "''g''"]
    by (simp add: fresh_cluster_def quiet_cluster_def)
  have l: "collectListenersForGateway fresh_cluster ''g'' ''infra''
             = (Inr [createHTTPSListener ''n.example.com'' ''infra''], fresh_cluster)"
    using collect_quiet [OF fresh_facts(1), of "''g''" "''infra''"]
    by (simp add: aggregate_def fresh_cluster_def quiet_cluster_def fresh_route_def IsZero_def
          lookup_def key_defs)
  have one: "new_writes fresh_cluster (snd (ensureGateway fresh_cluster ''g'' ''infra'' ''zone-x'' ''issuer-y''))
     = [CreateGateway
          \<lparr>gw_name = ''g'', gw_namespace = ''infra'',
           gw_annotations = [''cert-manager.io/cluster-issuer'' \<mapsto> ''issuer-y''],
           gw_className = ''eg'',
           gw_listeners = [createHTTPSListener ''n.example.com'' ''infra''],
           gw_infrastructure = Some (Some [''ipam.vitistack.io/zone'' \<mapsto> ''zone-x''])\<rparr>]"
    using C5_absent_gateway_is_created_from_the_route
            [where c = fresh_cluster and gns = "''infra''" and gn = "''g''"
               and ?c1.0 = fresh_cluster and ?c2.0 = fresh_cluster
               and ls = "[createHTTPSListener ''n.example.com'' ''infra'']"
               and zone = "''zone-x''" and iss = "''issuer-y''"]
          g l
    by simp
  have two: "\<exists>c' G. Reconcile fresh_cluster ''infra'' ''r10'' = (None, c')
         \<and> find (is_gateway ''infra'' ''g'') (gateways c') = Some G
         \<and> last (writes c') = CreateGateway G
         \<and> gw_annotations G = [''cert-manager.io/cluster-issuer'' \<mapsto> ''letsencrypt'']
         \<and> gw_infrastructure G = Some (Some [''ipam.vitistack.io/zone'' \<mapsto> ''hnet-private''])
         \<and> set (gw_listeners G) = {createHTTPSListener ''n.example.com'' ''infra''}"
  proof -
    have "\<exists>c' G. Reconcile fresh_cluster ''infra'' ''r10'' = (None, c')
         \<and> find (is_gateway ''infra'' ''g'') (gateways c') = Some G
         \<and> last (writes c') = CreateGateway G
         \<and> gw_name G = ''g''
         \<and> gw_namespace G = ''infra''
         \<and> gw_annotations G = [''cert-manager.io/cluster-issuer'' \<mapsto> ''letsencrypt'']
         \<and> gw_infrastructure G = Some (Some [''ipam.vitistack.io/zone'' \<mapsto> ''hnet-private''])
         \<and> gw_className G = ''eg''
         \<and> distinct (gw_listeners G)
         \<and> set (gw_listeners G) = set (aggregate (routes c') ''g'' ''infra'')"
      using C5_absent_gateway_is_created_from_the_route
            [where c = fresh_cluster and ns = "''infra''" and n = "''r10''" and r = fresh_route
               and p = "\<lparr>pr_name = ''g'', pr_namespace = None\<rparr>" and ps = "[]", THEN conjunct2]
          fresh_facts
      by simp
    then obtain c' G where r: "Reconcile fresh_cluster ''infra'' ''r10'' = (None, c')"
       and k: "find (is_gateway ''infra'' ''g'') (gateways c') = Some G"
         "last (writes c') = CreateGateway G"
         "gw_annotations G = [''cert-manager.io/cluster-issuer'' \<mapsto> ''letsencrypt'']"
         "gw_infrastructure G = Some (Some [''ipam.vitistack.io/zone'' \<mapsto> ''hnet-private''])"
       and l: "set (gw_listeners G) = set (aggregate (routes c') ''g'' ''infra'')"
      by blast
    have "c' = snd (Reconcile fresh_cluster ''infra'' ''r10'')" using r by simp
    then have "set (gw_listeners G) = {createHTTPSListener ''n.example.com'' ''infra''}"
      using l created_listeners(1) by simp
    then show ?thesis using r k by blast
  qed
  have three: "\<exists>c' G. Reconcile public_cluster ''infra'' ''r12'' = (None, c')
         \<and> find (is_gateway ''infra'' ''g'') (gateways c') = Some G
         \<and> last (writes c') = CreateGateway G
         \<and> gw_annotations G = [''cert-manager.io/cluster-issuer'' \<mapsto> ''internpki'']
         \<and> gw_infrastructure G = Some (Some [''ipam.vitistack.io/zone'' \<mapsto> ''hnet-public''])
         \<and> set (gw_listeners G) = {createHTTPSListener ''p.example.com'' ''infra'',
                                     createHTTPSListener ''q.example.com'' ''infra''}"
  proof -
    have "\<exists>c' G. Reconcile public_cluster ''infra'' ''r12'' = (None, c')
         \<and> find (is_gateway ''infra'' ''g'') (gateways c') = Some G
         \<and> last (writes c') = CreateGateway G
         \<and> gw_name G = ''g''
         \<and> gw_namespace G = ''infra''
         \<and> gw_annotations G = [''cert-manager.io/cluster-issuer'' \<mapsto> ''internpki'']
         \<and> gw_infrastructure G = Some (Some [''ipam.vitistack.io/zone'' \<mapsto> ''hnet-public''])
         \<and> gw_className G = ''eg''
         \<and> distinct (gw_listeners G)
         \<and> set (gw_listeners G) = set (aggregate (routes c') ''g'' ''infra'')"
      using C5_absent_gateway_is_created_from_the_route
            [where c = public_cluster and ns = "''infra''" and n = "''r12''" and r = public_route
               and p = "\<lparr>pr_name = ''g'', pr_namespace = Some ''infra''\<rparr>" and ps = "[]", THEN conjunct2]
          public_facts
      by simp
    then obtain c' G where r: "Reconcile public_cluster ''infra'' ''r12'' = (None, c')"
       and k: "find (is_gateway ''infra'' ''g'') (gateways c') = Some G"
         "last (writes c') = CreateGateway G"
         "gw_annotations G = [''cert-manager.io/cluster-issuer'' \<mapsto> ''internpki'']"
         "gw_infrastructure G = Some (Some [''ipam.vitistack.io/zone'' \<mapsto> ''hnet-public''])"
       and l: "set (gw_listeners G) = set (aggregate (routes c') ''g'' ''infra'')"
      by blast
    have "c' = snd (Reconcile public_cluster ''infra'' ''r12'')" using r by simp
    then have "set (gw_listeners G) = {createHTTPSListener ''p.example.com'' ''infra'',
            createHTTPSListener ''q.example.com'' ''infra''}"
      using l created_listeners(2) by simp
    then show ?thesis using r k by blast
  qed
  have four: "\<exists>c' G. Reconcile blank_cluster ''infra'' ''r13'' = (None, c')
         \<and> find (is_gateway ''infra'' ''g'') (gateways c') = Some G
         \<and> last (writes c') = CreateGateway G
         \<and> gw_annotations G = [''cert-manager.io/cluster-issuer'' \<mapsto> ''internpki'']
         \<and> gw_infrastructure G = Some (Some [''ipam.vitistack.io/zone'' \<mapsto> ''hnet-private''])
         \<and> set (gw_listeners G) = {createHTTPSListener ''e.example.com'' ''infra''}"
  proof -
    have "\<exists>c' G. Reconcile blank_cluster ''infra'' ''r13'' = (None, c')
         \<and> find (is_gateway ''infra'' ''g'') (gateways c') = Some G
         \<and> last (writes c') = CreateGateway G
         \<and> gw_name G = ''g''
         \<and> gw_namespace G = ''infra''
         \<and> gw_annotations G = [''cert-manager.io/cluster-issuer'' \<mapsto> ''internpki'']
         \<and> gw_infrastructure G = Some (Some [''ipam.vitistack.io/zone'' \<mapsto> ''hnet-private''])
         \<and> gw_className G = ''eg''
         \<and> distinct (gw_listeners G)
         \<and> set (gw_listeners G) = set (aggregate (routes c') ''g'' ''infra'')"
      using C5_absent_gateway_is_created_from_the_route
            [where c = blank_cluster and ns = "''infra''" and n = "''r13''" and r = blank_route
               and p = "\<lparr>pr_name = ''g'', pr_namespace = Some ''infra''\<rparr>" and ps = "[]", THEN conjunct2]
          blank_facts
      by simp
    then obtain c' G where r: "Reconcile blank_cluster ''infra'' ''r13'' = (None, c')"
       and k: "find (is_gateway ''infra'' ''g'') (gateways c') = Some G"
         "last (writes c') = CreateGateway G"
         "gw_annotations G = [''cert-manager.io/cluster-issuer'' \<mapsto> ''internpki'']"
         "gw_infrastructure G = Some (Some [''ipam.vitistack.io/zone'' \<mapsto> ''hnet-private''])"
       and l: "set (gw_listeners G) = set (aggregate (routes c') ''g'' ''infra'')"
      by blast
    have "c' = snd (Reconcile blank_cluster ''infra'' ''r13'')" using r by simp
    then have "set (gw_listeners G) = {createHTTPSListener ''e.example.com'' ''infra''}"
      using l created_listeners(3) by simp
    then show ?thesis using r k by blast
  qed
  show ?thesis using one two three four by blast
qed

section \<open>The steady state\<close>

lemma ensureGateway_settled_quiet:
  assumes "script c = []"
      and "find (is_gateway gns gn) (gateways c) = Some g"
      and "lookup (gw_annotations g) clusterIssuerAnnotation = iss"
      and "recordedZone g = None \<or> recordedZone g = Some zone"
      and "aggregate (routes c) gn gns \<noteq> []"
  shows "ensureGateway c gn gns zone iss =
           (None, c\<lparr>gateways := map (apply_gateway (listenerPatch gn gns (gw_className g)
                                       (aggregate (routes c) gn gns))) (gateways c),
                     writes := writes c @ [PatchGateway (listenerPatch gn gns (gw_className g)
                                       (aggregate (routes c) gn gns))]\<rparr>)"
proof -
  have get: "client_get_gateway c gns gn = (Inr g, c)"
    using get_gateway_quiet [OF assms(1), of gns gn] assms(2) by simp
  note k = find_Some_has_gateway [OF assms(2)]
  have u: "updateGatewayListeners c g gns =
           (None, c\<lparr>gateways := map (apply_gateway (listenerPatch gn gns (gw_className g)
                                       (aggregate (routes c) gn gns))) (gateways c),
                     writes := writes c @ [PatchGateway (listenerPatch gn gns (gw_className g)
                                       (aggregate (routes c) gn gns))]\<rparr>)"
    using updateGatewayListeners_quiet [OF assms(1), of gns g] k assms(5) by simp
  show ?thesis
    using get assms(3,4) u by (auto simp: ensureGateway_def)
qed

lemma reconcileSteady_settled:
  assumes "script c = []"
      and "httprouteFinalizerName \<in> set (rt_finalizers r)"
      and "rt_annotations r reconcileAnnotationKey \<noteq> None"
      and "lookup (rt_annotations r) previousGatewayAnnotationKey = gns @ ''/'' @ gn"
      and "find (is_gateway gns gn) (gateways c) = Some g"
      and "lookup (gw_annotations g) clusterIssuerAnnotation = effectiveIssuer (rt_annotations r)"
      and "recordedZone g = None \<or> recordedZone g = Some (effectiveZone (rt_annotations r))"
      and "aggregate (routes c) gn gns \<noteq> []"
  shows "reconcileSteady c r ns n gn gns =
           (None, c\<lparr>gateways := map (apply_gateway (listenerPatch gn gns (gw_className g)
                                       (aggregate (routes c) gn gns))) (gateways c),
                     writes := writes c @ [PatchGateway (listenerPatch gn gns (gw_className g)
                                       (aggregate (routes c) gn gns))]\<rparr>)"
proof -
  have b: "bookkeeping (rt_annotations r) (gns @ ''/'' @ gn) = rt_annotations r"
    using bookkeeping_settled [OF assms(3) assms(4)] .
  show ?thesis
    using reconcileSteady_eq [OF assms(2) refl, where c = c and ns = ns and n = n and gns = gns and gn = gn] b
          ensureGateway_settled_quiet [OF assms(1) assms(5) assms(6) assms(7) assms(8)]
    by simp
qed

text \<open>
  C4 (as amended). In a quiet world, take a route in its steady state: enabled, not
  being deleted, finalizer and both bookkeeping annotations in place, its gateway
  present with the route's issuer and no other zone than the route's, and at least one
  aggregated listener. Reconciling it succeeds and issues exactly one write, the
  server-side apply of the gateway with its class name and a list of listeners that
  holds, each once, the aggregated listeners; the routes are untouched and the stored
  gateways are the former ones with that apply merged in. Reconciling it again succeeds
  and issues one write of the same kind once more, for the same set of listeners. No
  create, update or delete and no write to the route is issued by either run. Nothing
  is said about the order of the listeners in an apply.
\<close>

theorem C4_rerun_repeats_the_gateway_apply:
  assumes "script c = []"
      and "find (is_route ns n) (routes c) = Some r"
      and "active r"
      and "rt_parentRefs r = p # ps"
      and "httprouteFinalizerName \<in> set (rt_finalizers r)"
      and "rt_annotations r reconcileAnnotationKey \<noteq> None"
      and "lookup (rt_annotations r) previousGatewayAnnotationKey
             = refNamespace r p @ ''/'' @ pr_name p"
      and "find (is_gateway (refNamespace r p) (pr_name p)) (gateways c) = Some g"
      and "lookup (gw_annotations g) clusterIssuerAnnotation = effectiveIssuer (rt_annotations r)"
      and "recordedZone g = None \<or> recordedZone g = Some (effectiveZone (rt_annotations r))"
      and "aggregate (routes c) (pr_name p) (refNamespace r p) \<noteq> []"
  shows "\<exists>c1 c2 ls1 ls2. Reconcile c ns n = (None, c1) \<and> Reconcile c1 ns n = (None, c2)
           \<and> new_writes c c1 = [PatchGateway (listenerPatch (pr_name p) (refNamespace r p)
                  (gw_className g) ls1)]
           \<and> new_writes c1 c2 = [PatchGateway (listenerPatch (pr_name p) (refNamespace r p)
                  (gw_className g) ls2)]
           \<and> distinct ls1
           \<and> set ls1 = set (aggregate (routes c) (pr_name p) (refNamespace r p))
           \<and> distinct ls2
           \<and> set ls2 = set (aggregate (routes c) (pr_name p) (refNamespace r p))
           \<and> routes c1 = routes c
           \<and> routes c2 = routes c
           \<and> gateways c1 = map (apply_gateway (listenerPatch (pr_name p) (refNamespace r p)
                  (gw_className g) ls1)) (gateways c)
           \<and> gateways c2 = map (apply_gateway (listenerPatch (pr_name p) (refNamespace r p)
                  (gw_className g) ls2)) (gateways c1)"
proof -
  define gn where "gn = pr_name p"
  define gns where "gns = refNamespace r p"
  define ls where "ls = aggregate (routes c) gn gns"
  define P where "P = listenerPatch gn gns (gw_className g) ls"
  define c1 where "c1 = c\<lparr>gateways := map (apply_gateway P) (gateways c),
                           writes := writes c @ [PatchGateway P]\<rparr>"
  define c2 where "c2 = c1\<lparr>gateways := map (apply_gateway P) (gateways c1),
                            writes := writes c1 @ [PatchGateway P]\<rparr>"
  have get: "client_get_route c ns n = (Inr r, c)"
    using get_route_quiet [OF assms(1), of ns n] assms(2) by simp
  have run1: "Reconcile c ns n = (None, c1)"
    unfolding Reconcile_steady_path [OF get assms(3) assms(4)]
              afterMigration_settled [OF assms(7)] c1_def P_def ls_def gn_def gns_def
    by (rule reconcileSteady_settled [OF assms(1) assms(5) assms(6) assms(7) assms(8) assms(9)
               assms(10) assms(11)])
  have q1: "script c1 = []" and r1: "routes c1 = routes c"
    unfolding c1_def using assms(1) by simp_all
  have get1: "client_get_route c1 ns n = (Inr r, c1)"
    using get_route_quiet [OF q1, of ns n] assms(2) r1 by simp
  have Pk: "gw_className (apply_gateway P g) = gw_className g"
           "gw_annotations (apply_gateway P g) = gw_annotations g"
           "recordedZone (apply_gateway P g) = recordedZone g"
    using find_Some_has_gateway [OF assms(8)]
    by (simp_all add: apply_gateway_def P_def listenerPatch_def is_gateway_def recordedZone_def
          gn_def gns_def)
  have f1: "find (is_gateway (refNamespace r p) (pr_name p)) (gateways c1) = Some (apply_gateway P g)"
    unfolding c1_def using assms(8) by (simp add: find_map_apply_gateway)
  have run2: "Reconcile c1 ns n = (None, c2)"
    unfolding Reconcile_steady_path [OF get1 assms(3) assms(4)]
              afterMigration_settled [OF assms(7)] c2_def
    using reconcileSteady_settled [OF q1 assms(5) assms(6) assms(7) f1, of ns n]
          assms(9,10,11) Pk r1
    unfolding P_def ls_def gn_def gns_def by simp
  have d: "distinct ls" unfolding ls_def by (rule aggregate_distinct)
  have "routes c2 = routes c" unfolding c2_def using r1 by simp
  moreover have "new_writes c c1 = [PatchGateway P]" "new_writes c1 c2 = [PatchGateway P]"
    unfolding c2_def c1_def by (simp_all add: new_writes_def)
  moreover have "gateways c1 = map (apply_gateway P) (gateways c)" unfolding c1_def by simp
  moreover have "gateways c2 = map (apply_gateway P) (gateways c1)" unfolding c2_def by simp
  ultimately have "Reconcile c ns n = (None, c1) \<and> Reconcile c1 ns n = (None, c2)
           \<and> new_writes c c1 = [PatchGateway (listenerPatch gn gns (gw_className g) ls)]
           \<and> new_writes c1 c2 = [PatchGateway (listenerPatch gn gns (gw_className g) ls)]
           \<and> distinct ls
           \<and> set ls = set (aggregate (routes c) gn gns)
           \<and> distinct ls
           \<and> set ls = set (aggregate (routes c) gn gns)
           \<and> routes c1 = routes c
           \<and> routes c2 = routes c
           \<and> gateways c1 = map (apply_gateway (listenerPatch gn gns (gw_className g) ls)) (gateways c)
           \<and> gateways c2 = map (apply_gateway (listenerPatch gn gns (gw_className g) ls)) (gateways c1)"
    using run1 run2 r1 d unfolding P_def ls_def by simp
  then show ?thesis unfolding gn_def gns_def by blast
qed

lemma settled_facts:
  "script settled_cluster = []"
  "find (is_route ''infra'' ''r9'') (routes settled_cluster) = Some settled_route"
  "active settled_route"
  "rt_parentRefs settled_route = \<lparr>pr_name = ''g'', pr_namespace = None\<rparr> # []"
  "httprouteFinalizerName \<in> set (rt_finalizers settled_route)"
  "rt_annotations settled_route reconcileAnnotationKey \<noteq> None"
  "refNamespace settled_route \<lparr>pr_name = ''g'', pr_namespace = None\<rparr> = ''infra''"
  "lookup (rt_annotations settled_route) previousGatewayAnnotationKey = ''infra/g''"
  "find (is_gateway ''infra'' ''g'') (gateways settled_cluster) = Some settled_gateway"
  "lookup (gw_annotations settled_gateway) clusterIssuerAnnotation = ''internpki''"
  "effectiveIssuer (rt_annotations settled_route) = ''internpki''"
  "effectiveZone (rt_annotations settled_route) = ''hnet-private''"
  "recordedZone settled_gateway = Some ''hnet-private''"
  "set (aggregate (routes settled_cluster) ''g'' ''infra'')
     = {createHTTPSListener ''s.example.com'' ''infra'',
        createHTTPSListener ''t.example.com'' ''infra''}"
  "aggregate (routes settled_cluster) ''g'' ''infra'' \<noteq> []"
  "gw_className settled_gateway = ''eg''"
  by (simp_all add: settled_cluster_def quiet_cluster_def settled_route_def settled_gateway_def
        is_route_def is_gateway_def active_def IsZero_def lookup_def key_defs refNamespace_def
        effectiveIssuer_def effectiveZone_def defaultClusterIssuer_def defaultIPAMZone_def
        recordedZone_def aggregate_def Let_def insert_commute)

text \<open>
  The steady state of \<open>settled_cluster\<close>, whose route has two hostnames.
\<close>

theorem C4_rerun_repeats_the_gateway_apply_witness:
  "\<exists>c1 c2 ls1 ls2. Reconcile settled_cluster ''infra'' ''r9'' = (None, c1)
     \<and> Reconcile c1 ''infra'' ''r9'' = (None, c2)
     \<and> new_writes settled_cluster c1 = [PatchGateway (listenerPatch ''g'' ''infra'' ''eg'' ls1)]
     \<and> new_writes c1 c2 = [PatchGateway (listenerPatch ''g'' ''infra'' ''eg'' ls2)]
     \<and> set ls1 = {createHTTPSListener ''s.example.com'' ''infra'',
                   createHTTPSListener ''t.example.com'' ''infra''}
     \<and> set ls2 = {createHTTPSListener ''s.example.com'' ''infra'',
                   createHTTPSListener ''t.example.com'' ''infra''}
     \<and> routes c1 = routes settled_cluster
     \<and> routes c2 = routes settled_cluster"
  using C4_rerun_repeats_the_gateway_apply
          [where c = settled_cluster and ns = "''infra''" and n = "''r9''" and r = settled_route
             and p = "\<lparr>pr_name = ''g'', pr_namespace = None\<rparr>" and ps = "[]"
             and g = settled_gateway]
        settled_facts
  by simp blast

text \<open>
  C4 as stated fails: the first reconciliation of \<open>settled_cluster\<close> succeeds and
  leaves the routes as they were and the gateway with the listeners it had, and the
  second one still issues a write, the apply of the gateway.
\<close>

theorem C4_second_run_writes_counterexample:
  "\<exists>c1 ls1 ls2. Reconcile settled_cluster ''infra'' ''r9'' = (None, c1)
     \<and> routes c1 = routes settled_cluster
     \<and> gateways settled_cluster = [settled_gateway]
     \<and> gateways c1 = [settled_gateway\<lparr>gw_listeners := ls1\<rparr>]
     \<and> set ls1 = set (gw_listeners settled_gateway)
     \<and> script c1 = []
     \<and> fst (Reconcile c1 ''infra'' ''r9'') = None
     \<and> new_writes c1 (snd (Reconcile c1 ''infra'' ''r9''))
         = [PatchGateway (listenerPatch ''g'' ''infra'' ''eg'' ls2)]
     \<and> set ls2 = {createHTTPSListener ''s.example.com'' ''infra'',
                   createHTTPSListener ''t.example.com'' ''infra''}"
proof -
  let ?ls = "[createHTTPSListener ''t.example.com'' ''infra'',
              createHTTPSListener ''s.example.com'' ''infra'']"
  let ?c1 = "settled_cluster\<lparr>gateways := [settled_gateway\<lparr>gw_listeners := ?ls\<rparr>],
                             writes := [PatchGateway (listenerPatch ''g'' ''infra'' ''eg'' ?ls)]\<rparr>"
  have one: "Reconcile settled_cluster ''infra'' ''r9'' = (None, ?c1)"
    by (simp add: run_defs settled_cluster_def quiet_cluster_def settled_route_def
          settled_gateway_def key_defs listenerPatch_def Let_def)
  have two: "Reconcile ?c1 ''infra'' ''r9''
     = (None, ?c1\<lparr>writes := [PatchGateway (listenerPatch ''g'' ''infra'' ''eg'' ?ls),
                              PatchGateway (listenerPatch ''g'' ''infra'' ''eg'' ?ls)]\<rparr>)"
    by (simp add: run_defs settled_cluster_def quiet_cluster_def settled_route_def
          settled_gateway_def key_defs listenerPatch_def Let_def)
  have st: "routes ?c1 = routes settled_cluster" "gateways settled_cluster = [settled_gateway]"
       "gateways ?c1 = [settled_gateway\<lparr>gw_listeners := ?ls\<rparr>]"
       "set ?ls = set (gw_listeners settled_gateway)" "script ?c1 = []"
       "set ?ls = {createHTTPSListener ''s.example.com'' ''infra'',
                   createHTTPSListener ''t.example.com'' ''infra''}"
    by (simp_all add: settled_cluster_def quiet_cluster_def settled_gateway_def insert_commute)
  have nw: "fst (Reconcile ?c1 ''infra'' ''r9'') = None"
       "new_writes ?c1 (snd (Reconcile ?c1 ''infra'' ''r9''))
         = [PatchGateway (listenerPatch ''g'' ''infra'' ''eg'' ?ls)]"
    unfolding two by (simp_all add: new_writes_def)
  show ?thesis using one st nw by blast
qed

section \<open>Malformed input and a failing update of the old gateway\<close>

lemma Reconcile_no_parent:
  assumes "client_get_route c ns n = (Inr r, c1)"
      and "lookup (rt_annotations r) AnnotationUseHttprouteOperator = ''true''"
      and "rt_parentRefs r = []"
  shows "Reconcile c ns n = (None, logError ''HTTPRoute has no parent references'' c1)"
  using assms by (simp add: Reconcile_def)

lemma Reconcile_migration_error:
  assumes "client_get_route c ns n = (Inr r, c1)"
      and "active r"
      and "rt_parentRefs r = p # ps"
      and "lookup (rt_annotations r) previousGatewayAnnotationKey = prev"
      and "prev \<noteq> []"
      and "prev \<noteq> refNamespace r p @ ''/'' @ pr_name p"
      and "updateOldGateway c1 prev = (Some e, c2)"
  shows "Reconcile c ns n =
           reconcileSteady (logError ''Failed to update old gateway listeners'' c2) r ns n
             (pr_name p) (refNamespace r p)"
  using assms by (simp add: Reconcile_def active_def refNamespace_def Let_def)

lemma Reconcile_migration_error_recovers:
  assumes "client_get_route c ns n = (Inr r, c1)"
      and "active r"
      and "rt_parentRefs r = p # ps"
      and "lookup (rt_annotations r) previousGatewayAnnotationKey = prev"
      and "prev \<noteq> []"
      and "prev \<noteq> refNamespace r p @ ''/'' @ pr_name p"
      and "updateOldGateway c1 prev = (Some e, c2)"
      and "script c2 = []"
      and "httprouteFinalizerName \<in> set (rt_finalizers r)"
      and "\<not> has_gateway c2 (refNamespace r p) (pr_name p)"
  shows "fst (Reconcile c ns n) = None
         \<and> has_gateway (snd (Reconcile c ns n)) (refNamespace r p) (pr_name p)
         \<and> errlog (snd (Reconcile c ns n))
             = errlog c2 @ [''Failed to update old gateway listeners'']"
proof -
  let ?c = "logError ''Failed to update old gateway listeners'' c2"
  have eq: "Reconcile c ns n = reconcileSteady ?c r ns n (pr_name p) (refNamespace r p)"
    using Reconcile_migration_error [OF assms(1-7)] .
  have q: "script ?c = []" and ng: "\<not> has_gateway ?c (refNamespace r p) (pr_name p)"
    using assms(8,10) by (simp_all add: logError_def has_gateway_def)
  obtain c' where run: "reconcileSteady ?c r ns n (pr_name p) (refNamespace r p) = (None, c')"
      and f: "find (is_gateway (refNamespace r p) (pr_name p)) (gateways c')
               = Some (newGateway (pr_name p) (refNamespace r p)
                         (effectiveZone (rt_annotations r)) (effectiveIssuer (rt_annotations r))
                         (aggregate (routes c') (pr_name p) (refNamespace r p)))"
      and e: "errlog c' = errlog ?c"
    using reconcileSteady_creates [OF q assms(9) ng, of ns n] by blast
  have "has_gateway c' (refNamespace r p) (pr_name p)"
    using find_Some_has_gateway [OF f] by simp
  then show ?thesis
    unfolding eq run using e by (simp add: logError_def)
qed

text \<open>
  C8. A route that is enabled and has no parent reference ends Reconcile with success,
  an error message logged and no mutating call. A previous-gateway reference without a
  slash, or with nothing before or nothing after the first slash, makes updateOldGateway
  return success with an error message logged and no call of the client. When
  updateOldGateway fails on a reference that differs from the current gateway, Reconcile
  logs the failure and carries on with the finalizer, the annotations and the gateway of
  the route, as it does after a successful update of the old gateway: the error is not
  returned. In particular, when the world is quiet from then on, the route holds the
  finalizer and its gateway does not exist, the run succeeds and creates the gateway.
\<close>

theorem C8_malformed_input_ends_without_error:
  "(client_get_route c ns n = (Inr r, c1)
      \<and> lookup (rt_annotations r) AnnotationUseHttprouteOperator = ''true''
      \<and> rt_parentRefs r = []
     \<longrightarrow> Reconcile c ns n = (None, logError ''HTTPRoute has no parent references'' c1)
         \<and> writes c1 = writes c)
   \<and> (malformedRef ref
     \<longrightarrow> updateOldGateway c ref = (None, logError ''Invalid gateway reference format'' c))
   \<and> (client_get_route c ns n = (Inr r, c1)
      \<and> active r
      \<and> rt_parentRefs r = p # ps
      \<and> lookup (rt_annotations r) previousGatewayAnnotationKey = prev
      \<and> prev \<noteq> []
      \<and> prev \<noteq> refNamespace r p @ ''/'' @ pr_name p
      \<and> updateOldGateway c1 prev = (Some e, c2)
     \<longrightarrow> Reconcile c ns n =
           reconcileSteady (logError ''Failed to update old gateway listeners'' c2) r ns n
             (pr_name p) (refNamespace r p)
         \<and> (script c2 = []
              \<and> httprouteFinalizerName \<in> set (rt_finalizers r)
              \<and> \<not> has_gateway c2 (refNamespace r p) (pr_name p)
             \<longrightarrow> fst (Reconcile c ns n) = None
                 \<and> has_gateway (snd (Reconcile c ns n)) (refNamespace r p) (pr_name p)
                 \<and> errlog (snd (Reconcile c ns n))
                     = errlog c2 @ [''Failed to update old gateway listeners'']))"
proof (intro conjI impI)
  assume a: "client_get_route c ns n = (Inr r, c1)
      \<and> lookup (rt_annotations r) AnnotationUseHttprouteOperator = ''true''
      \<and> rt_parentRefs r = []"
  then show "Reconcile c ns n = (None, logError ''HTTPRoute has no parent references'' c1)"
    using Reconcile_no_parent [of c ns n r c1] by simp
  from a show "writes c1 = writes c" using get_route_writes [of c ns n "Inr r" c1] by simp
next
  assume "malformedRef ref"
  then show "updateOldGateway c ref = (None, logError ''Invalid gateway reference format'' c)"
    by (rule updateOldGateway_malformed)
next
  assume a: "client_get_route c ns n = (Inr r, c1)
      \<and> active r
      \<and> rt_parentRefs r = p # ps
      \<and> lookup (rt_annotations r) previousGatewayAnnotationKey = prev
      \<and> prev \<noteq> []
      \<and> prev \<noteq> refNamespace r p @ ''/'' @ pr_name p
      \<and> updateOldGateway c1 prev = (Some e, c2)"
  then show "Reconcile c ns n =
           reconcileSteady (logError ''Failed to update old gateway listeners'' c2) r ns n
             (pr_name p) (refNamespace r p)"
    using Reconcile_migration_error [of c ns n r c1 p ps prev e c2] by blast
  assume b: "script c2 = []
              \<and> httprouteFinalizerName \<in> set (rt_finalizers r)
              \<and> \<not> has_gateway c2 (refNamespace r p) (pr_name p)"
  from a b have r: "fst (Reconcile c ns n) = None
         \<and> has_gateway (snd (Reconcile c ns n)) (refNamespace r p) (pr_name p)
         \<and> errlog (snd (Reconcile c ns n))
             = errlog c2 @ [''Failed to update old gateway listeners'']"
    using Reconcile_migration_error_recovers [of c ns n r c1 p ps prev e c2] by blast
  from r show "fst (Reconcile c ns n) = None" by simp
  from r show "has_gateway (snd (Reconcile c ns n)) (refNamespace r p) (pr_name p)" by simp
  from r show "errlog (snd (Reconcile c ns n))
                     = errlog c2 @ [''Failed to update old gateway listeners'']" by simp
qed

text \<open>
  A route without parent references; three malformed references; and a route that
  moved from \<open>infra/old\<close> to \<open>infra/g\<close> in a world where the read of the old gateway
  fails: the reconciliation succeeds and creates \<open>infra/g\<close>.
\<close>

theorem C8_malformed_input_ends_without_error_witness:
  "Reconcile (quiet_cluster [orphan_route] []) ''infra'' ''r7''
     = (None, logError ''HTTPRoute has no parent references'' (quiet_cluster [orphan_route] []))
   \<and> updateOldGateway (quiet_cluster [] [zoned_gateway]) ''no-separator''
     = (None, logError ''Invalid gateway reference format'' (quiet_cluster [] [zoned_gateway]))
   \<and> updateOldGateway (quiet_cluster [] [zoned_gateway]) ''/g''
     = (None, logError ''Invalid gateway reference format'' (quiet_cluster [] [zoned_gateway]))
   \<and> updateOldGateway (quiet_cluster [] [zoned_gateway]) ''infra/''
     = (None, logError ''Invalid gateway reference format'' (quiet_cluster [] [zoned_gateway]))
   \<and> fst (Reconcile failing_cluster ''infra'' ''r8'') = None
   \<and> has_gateway (snd (Reconcile failing_cluster ''infra'' ''r8'')) ''infra'' ''g''
   \<and> errlog (snd (Reconcile failing_cluster ''infra'' ''r8''))
       = [''Failed to update old gateway listeners'']"
proof -
  let ?O = "quiet_cluster [orphan_route] []"
  have go: "client_get_route ?O ''infra'' ''r7'' = (Inr orphan_route, ?O)"
    by (simp add: client_get_route_def serve_def quiet_cluster_def is_route_def orphan_route_def)
  have o: "lookup (rt_annotations orphan_route) AnnotationUseHttprouteOperator = ''true''"
          "rt_parentRefs orphan_route = []"
    by (simp_all add: orphan_route_def lookup_def)
  have m: "malformedRef ''no-separator''" "malformedRef ''/g''" "malformedRef ''infra/''"
    by (simp_all add: malformedRef_def)
  let ?p = "\<lparr>pr_name = ''g'', pr_namespace = None\<rparr>"
  let ?c1 = "failing_cluster\<lparr>script := [Fail (ServerError ''boom'')]\<rparr>"
  let ?c2 = "failing_cluster\<lparr>script := []\<rparr>"
  have gm: "client_get_route failing_cluster ''infra'' ''r8'' = (Inr moved_route, ?c1)"
    by (simp add: client_get_route_def serve_def failing_cluster_def is_route_def moved_route_def)
  have am: "active moved_route"
    by (simp add: active_def moved_route_def lookup_def IsZero_def key_defs)
  have pm: "rt_parentRefs moved_route = ?p # []"
    by (simp add: moved_route_def)
  have rn: "refNamespace moved_route ?p = ''infra''" "pr_name ?p = ''g''"
    by (simp_all add: moved_route_def refNamespace_def)
  have prev: "lookup (rt_annotations moved_route) previousGatewayAnnotationKey = ''infra/old''"
    by (simp add: moved_route_def lookup_def)
  have ne: "''infra/old'' \<noteq> []" "''infra/old'' \<noteq> ''infra'' @ ''/'' @ ''g''"
    by simp_all
  have old: "updateOldGateway ?c1 ''infra/old'' = (Some (ServerError ''boom''), ?c2)"
    by (simp add: updateOldGateway_def client_get_gateway_def serve_def failing_cluster_def
          IgnoreNotFound_def IsNotFound_def)
  have rest: "script ?c2 = []" "httprouteFinalizerName \<in> set (rt_finalizers moved_route)"
             "\<not> has_gateway ?c2 ''infra'' ''g''" "errlog ?c2 = []"
    by (simp_all add: failing_cluster_def moved_route_def has_gateway_def)
  have "fst (Reconcile failing_cluster ''infra'' ''r8'') = None
      \<and> has_gateway (snd (Reconcile failing_cluster ''infra'' ''r8'')) ''infra'' ''g''
      \<and> errlog (snd (Reconcile failing_cluster ''infra'' ''r8''))
          = errlog ?c2 @ [''Failed to update old gateway listeners'']"
    using C8_malformed_input_ends_without_error
            [where c = failing_cluster and ns = "''infra''" and n = "''r8''" and r = moved_route
               and ?c1.0 = "?c1" and p = ?p and ps = "[]"
               and prev = "''infra/old''" and e = "ServerError ''boom''" and ?c2.0 = "?c2"]
          gm am pm prev ne old rest(1,2,3)
    unfolding rn by blast
  then have moved: "fst (Reconcile failing_cluster ''infra'' ''r8'') = None
      \<and> has_gateway (snd (Reconcile failing_cluster ''infra'' ''r8'')) ''infra'' ''g''
      \<and> errlog (snd (Reconcile failing_cluster ''infra'' ''r8''))
          = [''Failed to update old gateway listeners'']"
    using rest(4) by simp
  show ?thesis
    using C8_malformed_input_ends_without_error
            [where c = "?O" and ns = "''infra''" and n = "''r7''" and r = orphan_route
               and ?c1.0 = "?O" and ref = "''no-separator''"]
          C8_malformed_input_ends_without_error
            [where c = "quiet_cluster [] [zoned_gateway]" and ref = "''no-separator''"]
          C8_malformed_input_ends_without_error
            [where c = "quiet_cluster [] [zoned_gateway]" and ref = "''/g''"]
          C8_malformed_input_ends_without_error
            [where c = "quiet_cluster [] [zoned_gateway]" and ref = "''infra/''"]
          go o m moved
    by simp
qed

section \<open>The deletion branch\<close>

lemma handleHTTPRouteDeletion_writes:
  assumes "handleHTTPRouteDeletion c gn gns = (e, c')"
  shows "\<exists>gws. writes c' = writes c @ gws \<and> length gws \<le> 1 \<and> list_all (sync_write gn gns) gws"
proof -
  obtain x c1 where get: "client_get_gateway c gns gn = (x, c1)"
    by (cases "client_get_gateway c gns gn")
  have w1: "writes c1 = writes c" using get_gateway_writes [OF get] by simp
  show ?thesis
  proof (cases x)
    case (Inl err)
    then have "writes c' = writes c"
      using assms get w1
      by (auto simp: handleHTTPRouteDeletion_def logError_def IgnoreNotFound_def split: if_splits)
    then show ?thesis by simp
  next
    case (Inr g)
    have k: "gw_namespace g = gns" "gw_name g = gn"
      using get_gateway_found [OF get [unfolded Inr]] find_Some_has_gateway by blast+
    obtain e2 c2 where u: "updateGatewayListeners c1 g gns = (e2, c2)"
      by (cases "updateGatewayListeners c1 g gns")
    have w': "writes c' = writes c2"
      using assms get Inr u
      by (auto simp: handleHTTPRouteDeletion_def logError_def split: option.splits)
    have app: "\<exists>ws. writes c2 = writes c1 @ ws"
      using u collect_writes delete_gateway_writes patch_gateway_writes
      by (fastforce simp: updateGatewayListeners_def Let_def
            split: prod.splits sum.splits if_splits option.splits)
    then obtain ws where ws: "writes c2 = writes c1 @ ws" by blast
    then have nw: "new_writes c1 c2 = ws" by (simp add: new_writes_def)
    have "length ws \<le> 1 \<and> list_all (sync_write gn gns) ws"
      using updateGatewayListeners_new_writes [of c1 g gns] u nw k
      by (auto simp: sync_write_def listenerPatch_def)
    then show ?thesis using w' ws w1 by simp
  qed
qed

lemma removeFinalizerAttempt_writes:
  assumes "removeFinalizerAttempt ns n c = (e, c')"
  shows "\<exists>uws. writes c' = writes c @ uws \<and> length uws \<le> 1
           \<and> list_all (finalizer_removal ns n) uws"
proof -
  obtain x c1 where get: "client_get_route c ns n = (x, c1)"
    by (cases "client_get_route c ns n")
  have w1: "writes c1 = writes c" using get_route_writes [OF get] by simp
  show ?thesis
  proof (cases x)
    case (Inl err)
    then have "writes c' = writes c"
      using assms get w1
      by (auto simp: removeFinalizerAttempt_def IgnoreNotFound_def split: if_splits)
    then show ?thesis by simp
  next
    case (Inr latest)
    have k: "is_route ns n latest"
      using get_route_found [OF get [unfolded Inr]] by (auto simp: find_Some_iff)
    show ?thesis
    proof (cases "ContainsFinalizer latest httprouteFinalizerName")
      case False
      then have "writes c' = writes c"
        using assms get Inr w1 by (simp add: removeFinalizerAttempt_def)
      then show ?thesis by simp
    next
      case True
      then have "client_update_route c1 (RemoveFinalizer latest httprouteFinalizerName) = (e, c')"
        using assms get Inr by (simp add: removeFinalizerAttempt_def)
      then have "writes c' = writes c @ [UpdateRoute (RemoveFinalizer latest httprouteFinalizerName)]"
        using update_route_writes w1 by fastforce
      moreover have "finalizer_removal ns n (UpdateRoute (RemoveFinalizer latest httprouteFinalizerName))"
        using k by (simp add: finalizer_removal_def RemoveFinalizer_def is_route_def)
      ultimately show ?thesis by simp
    qed
  qed
qed

lemma retryLoop_writes:
  assumes "\<And>c e c'. fn c = (e, c') \<Longrightarrow>
             \<exists>uws. writes c' = writes c @ uws \<and> length uws \<le> 1 \<and> list_all Q uws"
  shows "retryLoop k fn lastErr c = (e, c') \<Longrightarrow>
           \<exists>uws. writes c' = writes c @ uws \<and> length uws \<le> k \<and> list_all Q uws"
proof (induction k arbitrary: lastErr c)
  case 0
  then show ?case by simp
next
  case (Suc k)
  obtain e1 c1 where f: "fn c = (e1, c1)" by (cases "fn c")
  obtain u1 where u1: "writes c1 = writes c @ u1" "length u1 \<le> 1" "list_all Q u1"
    using assms [OF f] by blast
  show ?case
  proof (cases "\<exists>err. e1 = Some err \<and> IsConflict err")
    case True
    then obtain err where err: "e1 = Some err" "IsConflict err" by blast
    have "retryLoop k fn (Some err) c1 = (e, c')"
      using Suc.prems f err by simp
    from Suc.IH [OF this] obtain u2 where
      u2: "writes c' = writes c1 @ u2" "length u2 \<le> k" "list_all Q u2" by blast
    have "writes c' = writes c @ (u1 @ u2) \<and> length (u1 @ u2) \<le> Suc k \<and> list_all Q (u1 @ u2)"
      using u1 u2 by simp
    then show ?thesis by blast
  next
    case False
    then have "c' = c1"
      using Suc.prems f by (cases e1) (auto split: if_splits)
    then show ?thesis using u1 by (intro exI [of _ u1]) simp
  qed
qed

lemma Reconcile_deletion_path:
  assumes "client_get_route c ns n = (Inr r, c1)"
      and "lookup (rt_annotations r) AnnotationUseHttprouteOperator = ''true''"
      and "rt_parentRefs r = p # ps"
      and "\<not> IsZero (rt_deletionTimestamp r)"
  shows "Reconcile c ns n = reconcileDeletion c1 r ns n (pr_name p) (refNamespace r p)"
  using assms by (simp add: Reconcile_def refNamespace_def Let_def)

lemma reconcileDeletion_writes:
  assumes "reconcileDeletion c r ns n gn gns = (e, c')"
  shows "\<exists>gws uws. writes c' = writes c @ gws @ uws
           \<and> length gws \<le> 1 \<and> list_all (sync_write gn gns) gws
           \<and> length uws \<le> DefaultRetrySteps \<and> list_all (finalizer_removal ns n) uws"
proof (cases "ContainsFinalizer r httprouteFinalizerName")
  case False
  then have "c' = c" using assms by (simp add: reconcileDeletion_def)
  then show ?thesis by simp
next
  case True
  obtain e1 c1 where h: "handleHTTPRouteDeletion c gn gns = (e1, c1)"
    by (cases "handleHTTPRouteDeletion c gn gns")
  obtain gws where gws: "writes c1 = writes c @ gws" "length gws \<le> 1"
      "list_all (sync_write gn gns) gws"
    using handleHTTPRouteDeletion_writes [OF h] by blast
  show ?thesis
  proof (cases e1)
    case (Some err)
    then have "writes c' = writes c1"
      using assms True h by (auto simp: reconcileDeletion_def logError_def)
    then show ?thesis using gws by (intro exI [of _ gws] exI [of _ "[]"]) simp
  next
    case None
    obtain e2 c2 where rt: "retryLoop DefaultRetrySteps (removeFinalizerAttempt ns n) None c1 = (e2, c2)"
      by (cases "retryLoop DefaultRetrySteps (removeFinalizerAttempt ns n) None c1")
    obtain uws where uws: "writes c2 = writes c1 @ uws" "length uws \<le> DefaultRetrySteps"
        "list_all (finalizer_removal ns n) uws"
      using retryLoop_writes [of "removeFinalizerAttempt ns n" "finalizer_removal ns n", OF _ rt]
            removeFinalizerAttempt_writes by blast
    have "writes c' = writes c2"
      using assms True h None rt
      by (auto simp: reconcileDeletion_def RetryOnConflict_def logError_def split: option.splits)
    then show ?thesis using gws uws by (intro exI [of _ gws] exI [of _ uws]) simp
  qed
qed

lemma synced_frame:
  "routes (synced c gn gns) = routes c" "script (synced c gn gns) = script c"
  "errlog (synced c gn gns) = errlog c"
  by (simp_all add: synced_def split: option.splits)

lemma handleHTTPRouteDeletion_quiet:
  assumes "script c = []"
  shows "handleHTTPRouteDeletion c gn gns = (None, synced c gn gns)"
proof (cases "find (is_gateway gns gn) (gateways c)")
  case None
  then show ?thesis
    using get_gateway_quiet [OF assms, of gns gn]
    by (simp add: handleHTTPRouteDeletion_def synced_def IgnoreNotFound_def IsNotFound_def)
next
  case (Some g)
  note k = find_Some_has_gateway [OF Some]
  show ?thesis
    using get_gateway_quiet [OF assms, of gns gn] Some
          updateGatewayListeners_quiet [OF assms, of gns g] k
    by (simp add: handleHTTPRouteDeletion_def synced_def)
qed

lemma removeFinalizerAttempt_quiet:
  assumes "script c = []"
      and "find (is_route ns n) (routes c) = Some r"
      and "httprouteFinalizerName \<in> set (rt_finalizers r)"
  shows "removeFinalizerAttempt ns n c =
           (None, c\<lparr>routes := map (\<lambda>x. if is_route ns n x
                                         then RemoveFinalizer r httprouteFinalizerName else x) (routes c),
                     writes := writes c @ [UpdateRoute (RemoveFinalizer r httprouteFinalizerName)]\<rparr>)"
proof -
  have k: "is_route ns n r" "r \<in> set (routes c)"
    using assms(2) by (auto simp: find_Some_iff)
  then have nm: "rt_namespace (RemoveFinalizer r httprouteFinalizerName) = ns"
                "rt_name (RemoveFinalizer r httprouteFinalizerName) = n"
    by (simp_all add: RemoveFinalizer_def is_route_def)
  have ex: "\<exists>x \<in> set (routes c). is_route (rt_namespace (RemoveFinalizer r httprouteFinalizerName))
              (rt_name (RemoveFinalizer r httprouteFinalizerName)) x"
    using k nm by auto
  show ?thesis
    using get_route_quiet [OF assms(1), of ns n] assms(2,3)
          update_route_quiet [OF assms(1) ex] nm
    by (simp add: removeFinalizerAttempt_def ContainsFinalizer_def)
qed

lemma reconcileDeletion_quiet:
  assumes "script c = []"
      and "find (is_route ns n) (routes c) = Some r"
      and "httprouteFinalizerName \<in> set (rt_finalizers r)"
  shows "reconcileDeletion c r ns n gn gns =
           (None, (synced c gn gns)
                    \<lparr>routes := map (\<lambda>x. if is_route ns n x
                                         then RemoveFinalizer r httprouteFinalizerName else x) (routes c),
                     writes := writes (synced c gn gns)
                                 @ [UpdateRoute (RemoveFinalizer r httprouteFinalizerName)]\<rparr>)"
proof -
  have q: "script (synced c gn gns) = []" using assms(1) by (simp add: synced_frame)
  have f: "find (is_route ns n) (routes (synced c gn gns)) = Some r"
    using assms(2) by (simp add: synced_frame)
  have "RetryOnConflict DefaultRetrySteps (removeFinalizerAttempt ns n) (synced c gn gns) =
          (None, (synced c gn gns)
                    \<lparr>routes := map (\<lambda>x. if is_route ns n x
                                         then RemoveFinalizer r httprouteFinalizerName else x) (routes c),
                     writes := writes (synced c gn gns)
                                 @ [UpdateRoute (RemoveFinalizer r httprouteFinalizerName)]\<rparr>)"
    using removeFinalizerAttempt_quiet [OF q f assms(3)]
    by (simp add: RetryOnConflict_def DefaultRetrySteps_def eval_nat_numeral synced_frame)
  then show ?thesis
    using assms(3) handleHTTPRouteDeletion_quiet [OF assms(1), of gn gns]
    by (simp add: reconcileDeletion_def ContainsFinalizer_def)
qed

lemma reconcileDeletion_sync_failed:
  assumes "httprouteFinalizerName \<in> set (rt_finalizers r)"
      and "handleHTTPRouteDeletion c gn gns = (Some e, c2)"
  shows "reconcileDeletion c r ns n gn gns
           = (Some e, logError ''Failed to handle HTTPRoute deletion'' c2)"
  using assms by (simp add: reconcileDeletion_def ContainsFinalizer_def)

lemma reconcileDeletion_route_gone:
  assumes "httprouteFinalizerName \<in> set (rt_finalizers r)"
      and "handleHTTPRouteDeletion c gn gns = (None, c2)"
      and "client_get_route c2 ns n = (Inl NotFound, c3)"
  shows "reconcileDeletion c r ns n gn gns = (None, c3)"
proof -
  have "removeFinalizerAttempt ns n c2 = (None, c3)"
    using assms(3) by (simp add: removeFinalizerAttempt_def IgnoreNotFound_def IsNotFound_def)
  then have "RetryOnConflict DefaultRetrySteps (removeFinalizerAttempt ns n) c2 = (None, c3)"
    by (simp add: RetryOnConflict_def DefaultRetrySteps_def eval_nat_numeral)
  then show ?thesis
    using assms(1,2) by (simp add: reconcileDeletion_def ContainsFinalizer_def)
qed

lemma reconcileDeletion_finalizer_gone:
  assumes "httprouteFinalizerName \<in> set (rt_finalizers r)"
      and "handleHTTPRouteDeletion c gn gns = (None, c2)"
      and "client_get_route c2 ns n = (Inr latest, c3)"
      and "httprouteFinalizerName \<notin> set (rt_finalizers latest)"
  shows "reconcileDeletion c r ns n gn gns = (None, c3)"
proof -
  have "removeFinalizerAttempt ns n c2 = (None, c3)"
    using assms(3,4) by (simp add: removeFinalizerAttempt_def ContainsFinalizer_def)
  then have "RetryOnConflict DefaultRetrySteps (removeFinalizerAttempt ns n) c2 = (None, c3)"
    by (simp add: RetryOnConflict_def DefaultRetrySteps_def eval_nat_numeral)
  then show ?thesis
    using assms(1,2) by (simp add: reconcileDeletion_def ContainsFinalizer_def)
qed

text \<open>
  The deletion branch. Let Reconcile read an enabled route with parent references whose
  deletion timestamp is set and that holds the finalizer, and let \<open>gns/gn\<close> be the
  gateway of its current first parent reference (the namespace defaulting to the
  route's). Whatever the world does, the writes of the run are at most one write that
  synchronises \<open>gns/gn\<close> (its deletion or an apply of a non-empty listener list),
  followed by at most five updates of the route, each without the finalizer: no gateway
  is created, no annotation is written and no finalizer is added. When the
  synchronisation fails, its error is returned and the finalizer is not touched. When,
  after the synchronisation, the route is read again and is gone, or no longer holds
  the finalizer, the run ends with success and without an update. In a quiet world the
  run succeeds, the gateway is synchronised and the stored route loses the finalizer.
\<close>

lemma Reconcile_deletion_branch:
  assumes "client_get_route c ns n = (Inr r, c1)"
      and "lookup (rt_annotations r) AnnotationUseHttprouteOperator = ''true''"
      and "rt_parentRefs r = p # ps"
      and "\<not> IsZero (rt_deletionTimestamp r)"
      and "httprouteFinalizerName \<in> set (rt_finalizers r)"
  shows "(\<exists>gws uws. new_writes c (snd (Reconcile c ns n)) = gws @ uws
            \<and> length gws \<le> 1 \<and> list_all (sync_write (pr_name p) (refNamespace r p)) gws
            \<and> length uws \<le> DefaultRetrySteps \<and> list_all (finalizer_removal ns n) uws)
       \<and> (handleHTTPRouteDeletion c1 (pr_name p) (refNamespace r p) = (Some e, c2)
            \<longrightarrow> Reconcile c ns n = (Some e, logError ''Failed to handle HTTPRoute deletion'' c2))
       \<and> (handleHTTPRouteDeletion c1 (pr_name p) (refNamespace r p) = (None, c2)
            \<and> client_get_route c2 ns n = (Inl NotFound, c3)
            \<longrightarrow> Reconcile c ns n = (None, c3))
       \<and> (handleHTTPRouteDeletion c1 (pr_name p) (refNamespace r p) = (None, c2)
            \<and> client_get_route c2 ns n = (Inr latest, c3)
            \<and> httprouteFinalizerName \<notin> set (rt_finalizers latest)
            \<longrightarrow> Reconcile c ns n = (None, c3))
       \<and> (script c = []
            \<longrightarrow> Reconcile c ns n =
                  (None, (synced c (pr_name p) (refNamespace r p))
                    \<lparr>routes := map (\<lambda>x. if is_route ns n x
                                         then RemoveFinalizer r httprouteFinalizerName else x) (routes c),
                     writes := writes (synced c (pr_name p) (refNamespace r p))
                                 @ [UpdateRoute (RemoveFinalizer r httprouteFinalizerName)]\<rparr>))"
proof -
  note path = Reconcile_deletion_path [OF assms(1) assms(2) assms(3) assms(4)]
  have w1: "writes c1 = writes c" using get_route_writes [OF assms(1)] by simp
  obtain e' c' where rd: "reconcileDeletion c1 r ns n (pr_name p) (refNamespace r p) = (e', c')"
    by (cases "reconcileDeletion c1 r ns n (pr_name p) (refNamespace r p)")
  obtain gws uws where "writes c' = writes c1 @ gws @ uws" "length gws \<le> 1"
      "list_all (sync_write (pr_name p) (refNamespace r p)) gws"
      "length uws \<le> DefaultRetrySteps" "list_all (finalizer_removal ns n) uws"
    using reconcileDeletion_writes [OF rd] by blast
  then have A: "\<exists>gws uws. new_writes c (snd (Reconcile c ns n)) = gws @ uws
            \<and> length gws \<le> 1 \<and> list_all (sync_write (pr_name p) (refNamespace r p)) gws
            \<and> length uws \<le> DefaultRetrySteps \<and> list_all (finalizer_removal ns n) uws"
    unfolding path rd using w1 by (auto simp: new_writes_def)
  have B: "handleHTTPRouteDeletion c1 (pr_name p) (refNamespace r p) = (Some e, c2)
            \<longrightarrow> Reconcile c ns n = (Some e, logError ''Failed to handle HTTPRoute deletion'' c2)"
    unfolding path using reconcileDeletion_sync_failed [OF assms(5)] by blast
  have C: "handleHTTPRouteDeletion c1 (pr_name p) (refNamespace r p) = (None, c2)
            \<and> client_get_route c2 ns n = (Inl NotFound, c3)
            \<longrightarrow> Reconcile c ns n = (None, c3)"
    unfolding path using reconcileDeletion_route_gone [OF assms(5)] by blast
  have D: "handleHTTPRouteDeletion c1 (pr_name p) (refNamespace r p) = (None, c2)
            \<and> client_get_route c2 ns n = (Inr latest, c3)
            \<and> httprouteFinalizerName \<notin> set (rt_finalizers latest)
            \<longrightarrow> Reconcile c ns n = (None, c3)"
    unfolding path using reconcileDeletion_finalizer_gone [OF assms(5)] by blast
  have E: "script c = []
            \<longrightarrow> Reconcile c ns n =
                  (None, (synced c (pr_name p) (refNamespace r p))
                    \<lparr>routes := map (\<lambda>x. if is_route ns n x
                                         then RemoveFinalizer r httprouteFinalizerName else x) (routes c),
                     writes := writes (synced c (pr_name p) (refNamespace r p))
                                 @ [UpdateRoute (RemoveFinalizer r httprouteFinalizerName)]\<rparr>)"
  proof
    assume q: "script c = []"
    have "c1 = c" "find (is_route ns n) (routes c) = Some r"
      using get_route_quiet [OF q, of ns n] assms(1) by (auto split: option.splits)
    then show "Reconcile c ns n =
                  (None, (synced c (pr_name p) (refNamespace r p))
                    \<lparr>routes := map (\<lambda>x. if is_route ns n x
                                         then RemoveFinalizer r httprouteFinalizerName else x) (routes c),
                     writes := writes (synced c (pr_name p) (refNamespace r p))
                                 @ [UpdateRoute (RemoveFinalizer r httprouteFinalizerName)]\<rparr>)"
      unfolding path using reconcileDeletion_quiet [OF q _ assms(5)] by simp
  qed
  show ?thesis using A B C D E by blast
qed

lemma leaving_facts:
  "lookup (rt_annotations leaving_route) AnnotationUseHttprouteOperator = ''true''"
  "rt_parentRefs leaving_route = \<lparr>pr_name = ''g'', pr_namespace = Some ''infra''\<rparr> # []"
  "\<not> IsZero (rt_deletionTimestamp leaving_route)"
  "httprouteFinalizerName \<in> set (rt_finalizers leaving_route)"
  "refNamespace leaving_route \<lparr>pr_name = ''g'', pr_namespace = Some ''infra''\<rparr> = ''infra''"
  by (simp_all add: leaving_route_def lookup_def IsZero_def refNamespace_def)

text \<open>
  The deletion of \<open>leaving_route\<close>: in a quiet world, where \<open>home_route\<close> keeps the
  gateway alive; in a world where the read of the gateway fails; in worlds where the
  route is gone, or has lost the finalizer, at the second read; and in a world where
  all five updates meet a conflict, which the run returns.
\<close>

lemma Reconcile_deletion_branch_examples:
  "Reconcile (quiet_cluster [leaving_route, home_route] [zoned_gateway]) ''infra'' ''r4''
     = (None, \<lparr>routes = [RemoveFinalizer leaving_route httprouteFinalizerName, home_route],
               gateways = [zoned_gateway\<lparr>gw_listeners :=
                             [createHTTPSListener ''late.example.com'' ''infra'',
                              createHTTPSListener ''b.example.com'' ''infra'']\<rparr>],
               script = [],
               writes = [PatchGateway (listenerPatch ''g'' ''infra'' ''eg''
                           [createHTTPSListener ''late.example.com'' ''infra'',
                            createHTTPSListener ''b.example.com'' ''infra'']),
                         UpdateRoute (RemoveFinalizer leaving_route httprouteFinalizerName)],
               errlog = []\<rparr>)
   \<and> Reconcile down_cluster ''infra'' ''r4''
     = (Some (ServerError ''down''),
        \<lparr>routes = [leaving_route], gateways = [zoned_gateway], script = [], writes = [],
         errlog = [''Failed to get Gateway'', ''Failed to handle HTTPRoute deletion'']\<rparr>)
   \<and> Reconcile gone_cluster ''infra'' ''r4''
     = (None, \<lparr>routes = [], gateways = [], script = [], writes = [], errlog = []\<rparr>)
   \<and> Reconcile released_cluster ''infra'' ''r4''
     = (None, \<lparr>routes = [released_route], gateways = [], script = [], writes = [], errlog = []\<rparr>)
   \<and> (\<exists>gws uws. new_writes conflict_cluster (snd (Reconcile conflict_cluster ''infra'' ''r4''))
                     = gws @ uws
          \<and> length gws \<le> 1 \<and> list_all (sync_write ''g'' ''infra'') gws
          \<and> length uws \<le> DefaultRetrySteps \<and> list_all (finalizer_removal ''infra'' ''r4'') uws)
   \<and> fst (Reconcile conflict_cluster ''infra'' ''r4'') = Some Conflict
   \<and> length (new_writes conflict_cluster (snd (Reconcile conflict_cluster ''infra'' ''r4''))) = 5"
proof -
  let ?W = "quiet_cluster [leaving_route, home_route] [zoned_gateway]"
  let ?p = "\<lparr>pr_name = ''g'', pr_namespace = Some ''infra''\<rparr>"
  have qW: "script ?W = []" by (simp add: quiet_cluster_def)
  have gW: "client_get_route ?W ''infra'' ''r4'' = (Inr leaving_route, ?W)"
    using get_route_quiet [OF qW, of "''infra''" "''r4''"]
    by (simp add: quiet_cluster_def is_route_def leaving_route_def)
  have agg: "aggregate (routes ?W) ''g'' ''infra'' =
         [createHTTPSListener ''late.example.com'' ''infra'',
          createHTTPSListener ''b.example.com'' ''infra'']"
    by (simp add: aggregate_def quiet_cluster_def home_route_def leaving_route_def IsZero_def
          lookup_def)
  have syn: "synced ?W ''g'' ''infra'' =
        ?W\<lparr>gateways := [zoned_gateway\<lparr>gw_listeners :=
                             [createHTTPSListener ''late.example.com'' ''infra'',
                              createHTTPSListener ''b.example.com'' ''infra'']\<rparr>],
            writes := [PatchGateway (listenerPatch ''g'' ''infra'' ''eg''
                           [createHTTPSListener ''late.example.com'' ''infra'',
                            createHTTPSListener ''b.example.com'' ''infra''])]\<rparr>"
    unfolding synced_def agg
    by (simp add: quiet_cluster_def is_gateway_def zoned_gateway_def apply_gateway_def
          listenerPatch_def)
  have one: "Reconcile ?W ''infra'' ''r4''
     = (None, \<lparr>routes = [RemoveFinalizer leaving_route httprouteFinalizerName, home_route],
               gateways = [zoned_gateway\<lparr>gw_listeners :=
                             [createHTTPSListener ''late.example.com'' ''infra'',
                              createHTTPSListener ''b.example.com'' ''infra'']\<rparr>],
               script = [],
               writes = [PatchGateway (listenerPatch ''g'' ''infra'' ''eg''
                           [createHTTPSListener ''late.example.com'' ''infra'',
                            createHTTPSListener ''b.example.com'' ''infra'']),
                         UpdateRoute (RemoveFinalizer leaving_route httprouteFinalizerName)],
               errlog = []\<rparr>)"
    using Reconcile_deletion_branch
            [OF gW leaving_facts(1) leaving_facts(2) leaving_facts(3) leaving_facts(4)]
          qW leaving_facts(5) syn
    by (simp add: quiet_cluster_def is_route_def leaving_route_def home_route_def)
  let ?g1 = "gone_cluster\<lparr>script := [Quiet, Interfere [] []]\<rparr>"
  let ?g2 = "gone_cluster\<lparr>script := [Interfere [] []]\<rparr>"
  let ?g3 = "\<lparr>routes = [], gateways = [], script = [], writes = [], errlog = []\<rparr>"
  have gG: "client_get_route gone_cluster ''infra'' ''r4'' = (Inr leaving_route, ?g1)"
    by (simp add: client_get_route_def serve_def gone_cluster_def is_route_def leaving_route_def)
  have hG: "handleHTTPRouteDeletion ?g1 ''g'' ''infra'' = (None, ?g2)"
    by (simp add: handleHTTPRouteDeletion_def client_get_gateway_def serve_def gone_cluster_def
          IgnoreNotFound_def IsNotFound_def)
  have rG: "client_get_route ?g2 ''infra'' ''r4'' = (Inl NotFound, ?g3)"
    by (simp add: client_get_route_def serve_def gone_cluster_def)
  have two: "Reconcile gone_cluster ''infra'' ''r4'' = (None, ?g3)"
    using Reconcile_deletion_branch
            [OF gG leaving_facts(1) leaving_facts(2) leaving_facts(3) leaving_facts(4),
             where ?c2.0 = "?g2" and ?c3.0 = "?g3"]
          hG rG leaving_facts(5)
    by simp
  let ?d1 = "down_cluster\<lparr>script := [Fail (ServerError ''down'')]\<rparr>"
  let ?d2 = "logError ''Failed to get Gateway'' (down_cluster\<lparr>script := []\<rparr>)"
  have gD: "client_get_route down_cluster ''infra'' ''r4'' = (Inr leaving_route, ?d1)"
    by (simp add: client_get_route_def serve_def down_cluster_def is_route_def leaving_route_def)
  have hD: "handleHTTPRouteDeletion ?d1 ''g'' ''infra'' = (Some (ServerError ''down''), ?d2)"
    by (simp add: handleHTTPRouteDeletion_def client_get_gateway_def serve_def down_cluster_def
          IgnoreNotFound_def IsNotFound_def)
  have down: "Reconcile down_cluster ''infra'' ''r4''
     = (Some (ServerError ''down''),
        \<lparr>routes = [leaving_route], gateways = [zoned_gateway], script = [], writes = [],
         errlog = [''Failed to get Gateway'', ''Failed to handle HTTPRoute deletion'']\<rparr>)"
    using Reconcile_deletion_branch
            [OF gD leaving_facts(1) leaving_facts(2) leaving_facts(3) leaving_facts(4),
             where ?c2.0 = "?d2" and e = "ServerError ''down''"]
          hD leaving_facts(5)
    by (simp add: logError_def down_cluster_def)
  let ?r1 = "released_cluster\<lparr>script := [Quiet, Interfere [released_route] []]\<rparr>"
  let ?r2 = "released_cluster\<lparr>script := [Interfere [released_route] []]\<rparr>"
  let ?r3 = "\<lparr>routes = [released_route], gateways = [], script = [], writes = [], errlog = []\<rparr>"
  have gR: "client_get_route released_cluster ''infra'' ''r4'' = (Inr leaving_route, ?r1)"
    by (simp add: client_get_route_def serve_def released_cluster_def is_route_def leaving_route_def)
  have hR: "handleHTTPRouteDeletion ?r1 ''g'' ''infra'' = (None, ?r2)"
    by (simp add: handleHTTPRouteDeletion_def client_get_gateway_def serve_def released_cluster_def
          IgnoreNotFound_def IsNotFound_def)
  have rR: "client_get_route ?r2 ''infra'' ''r4'' = (Inr released_route, ?r3)"
    by (simp add: client_get_route_def serve_def released_cluster_def is_route_def
          released_route_def leaving_route_def)
  have nf: "httprouteFinalizerName \<notin> set (rt_finalizers released_route)"
    by (simp add: released_route_def)
  have released: "Reconcile released_cluster ''infra'' ''r4'' = (None, ?r3)"
    using Reconcile_deletion_branch
            [OF gR leaving_facts(1) leaving_facts(2) leaving_facts(3) leaving_facts(4),
             where ?c2.0 = "?r2" and ?c3.0 = "?r3" and latest = released_route]
          hR rR nf leaving_facts(5)
    by simp
  let ?k1 = "conflict_cluster\<lparr>script := tl (script conflict_cluster)\<rparr>"
  have gK: "client_get_route conflict_cluster ''infra'' ''r4'' = (Inr leaving_route, ?k1)"
    by (simp add: client_get_route_def serve_def conflict_cluster_def is_route_def
          leaving_route_def)
  have three: "\<exists>gws uws. new_writes conflict_cluster (snd (Reconcile conflict_cluster ''infra'' ''r4''))
                     = gws @ uws
          \<and> length gws \<le> 1 \<and> list_all (sync_write ''g'' ''infra'') gws
          \<and> length uws \<le> DefaultRetrySteps \<and> list_all (finalizer_removal ''infra'' ''r4'') uws"
    using Reconcile_deletion_branch
            [OF gK leaving_facts(1) leaving_facts(2) leaving_facts(3) leaving_facts(4)]
          leaving_facts(5)
    by simp
  have four: "fst (Reconcile conflict_cluster ''infra'' ''r4'') = Some Conflict
     \<and> length (new_writes conflict_cluster (snd (Reconcile conflict_cluster ''infra'' ''r4''))) = 5"
    by (simp add: run_defs conflict_cluster_def leaving_route_def key_defs new_writes_def Let_def)
  show ?thesis using one down two released three four by blast
qed

text \<open>
  C7. The deletion branch synchronises the gateway of the route's current first parent
  reference and never reads the previous-gateway annotation. \<open>drifted_route\<close> is being
  deleted, holds the finalizer, records \<open>infra/old\<close> as its previous gateway and names
  \<open>infra/g\<close>; the store holds \<open>infra/old\<close> with the route's listener. Its
  reconciliation succeeds with one write, the update that drops the finalizer:
  \<open>infra/old\<close> stays in the store with the listener of the deleted route, although no
  route is left that counts for it. For \<open>staying_route\<close>, the same route not being
  deleted, the first write of Reconcile is the deletion of \<open>infra/old\<close>.
\<close>

theorem C7_deletion_leaves_recorded_gateway:
  "Reconcile drift_cluster ''infra'' ''r11''
     = (None, drift_cluster\<lparr>routes := [RemoveFinalizer drifted_route httprouteFinalizerName],
                             writes := [UpdateRoute (RemoveFinalizer drifted_route
                                          httprouteFinalizerName)]\<rparr>)
   \<and> lookup (rt_annotations drifted_route) previousGatewayAnnotationKey = ''infra/old''
   \<and> gateways (snd (Reconcile drift_cluster ''infra'' ''r11'')) = [old_gateway]
   \<and> gw_listeners old_gateway = [createHTTPSListener ''x.example.com'' ''infra'']
   \<and> aggregate (routes (snd (Reconcile drift_cluster ''infra'' ''r11''))) ''old'' ''infra'' = []
   \<and> fst (Reconcile staying_cluster ''infra'' ''r11'') = None
   \<and> take 1 (writes (snd (Reconcile staying_cluster ''infra'' ''r11'')))
       = [DeleteGateway ''infra'' ''old'']
   \<and> find (is_gateway ''infra'' ''old'')
        (gateways (snd (Reconcile staying_cluster ''infra'' ''r11''))) = None"
proof -
  have d: "Reconcile drift_cluster ''infra'' ''r11''
     = (None, drift_cluster\<lparr>routes := [RemoveFinalizer drifted_route httprouteFinalizerName],
                             writes := [UpdateRoute (RemoveFinalizer drifted_route
                                          httprouteFinalizerName)]\<rparr>)"
    by (simp add: run_defs drift_cluster_def quiet_cluster_def drifted_route_def old_gateway_def
          key_defs Let_def)
  have a: "lookup (rt_annotations drifted_route) previousGatewayAnnotationKey = ''infra/old''"
    by (simp add: drifted_route_def key_defs lookup_def)
  have g: "gateways drift_cluster = [old_gateway]"
          "gw_listeners old_gateway = [createHTTPSListener ''x.example.com'' ''infra'']"
    by (simp_all add: drift_cluster_def quiet_cluster_def old_gateway_def)
  have e: "aggregate [RemoveFinalizer drifted_route httprouteFinalizerName] ''old'' ''infra'' = []"
    by (simp add: aggregate_def RemoveFinalizer_def drifted_route_def IsZero_def)
  have s: "fst (Reconcile staying_cluster ''infra'' ''r11'') = None
   \<and> take 1 (writes (snd (Reconcile staying_cluster ''infra'' ''r11'')))
       = [DeleteGateway ''infra'' ''old'']
   \<and> find (is_gateway ''infra'' ''old'')
        (gateways (snd (Reconcile staying_cluster ''infra'' ''r11''))) = None"
    by (simp add: run_defs staying_cluster_def staying_route_def quiet_cluster_def
          drifted_route_def old_gateway_def key_defs Let_def)
  show ?thesis unfolding d using a g e s by simp
qed

end
